theory Spec2Isabelle
  imports Complex_Main "HOL-Library.Log_Nat" "HOL-Library.Sublist"
begin

section \<open>Python values and exceptions\<close>

text \<open>
  The program is a single Python module, \<^verbatim>\<open>run.py\<close>. Its functions are embedded as HOL
  functions of the same names. An exception is a value of \<open>py_error\<close>, and a computation
  that may raise has a result of type \<open>py_error + 'a\<close> with \<open>Inl\<close> for the exception;
  \<open>and_then\<close> sequences two such computations, the first exception ending the sequence as a
  \<^verbatim>\<open>raise\<close> does. \<open>InvalidTrade\<close> is \<^verbatim>\<open>Exception('Invalid Trade')\<close>, raised by the handlers,
  and \<open>GatewayError\<close> stands for any exception of the MetaApi SDK, carrying its message.
\<close>

datatype py_error =
    IndexError | ValueError | TypeError | KeyError | ZeroDivisionError | OverflowError
  | UnboundLocalError | InvalidTrade | GatewayError string

definition and_then :: "py_error + 'a \<Rightarrow> ('a \<Rightarrow> py_error + 'b) \<Rightarrow> py_error + 'b" where
  "and_then m f = (case m of Inl e \<Rightarrow> Inl e | Inr x \<Rightarrow> f x)"


section \<open>Floating-point numbers\<close>

text \<open>
  A Python \<^verbatim>\<open>float\<close> is an IEEE 754 binary64 number. A finite one is modelled by its exact
  rational value (\<open>Fin\<close>, with \<open>Fin 0\<close> for \<open>+0.0\<close> and \<open>NegZero\<close> for \<open>-0.0\<close>);
  \<open>PInf\<close>, \<open>NInf\<close> and \<open>NaN\<close> are the two infinities and not-a-number.

  Every arithmetic operation computes the exact rational result and rounds it once, to the
  nearest representable number, ties to the even significand (\<open>rnd\<close>): a number of
  magnitude in \<open>[2^e, 2^(e+1))\<close> is rounded to a multiple of \<open>2^(e-52)\<close>, and to a multiple
  of \<open>2^(-1074)\<close> in the subnormal range. A rounded magnitude of \<open>2^1024\<close> or more
  overflows to an infinity (\<open>mk_double\<close>, whose first argument is the sign of a zero result).
\<close>

datatype double = Fin rat | NegZero | PInf | NInf | NaN

definition round_half_even :: "rat \<Rightarrow> int" where
  "round_half_even x =
     (let f = \<lfloor>x\<rfloor>; d = x - of_int f
      in if d < 1 / 2 then f else if 1 / 2 < d then f + 1 else if even f then f else f + 1)"

definition ilog2 :: "rat \<Rightarrow> int" where
  "ilog2 x =
     (let (a, b) = quotient_of x; k = bitlen a - bitlen b
      in if 2 powi k \<le> x then k else k - 1)"

definition quantum :: "rat \<Rightarrow> int" where
  "quantum x = max (ilog2 \<bar>x\<bar> - 52) (- 1074)"

definition round_to :: "int \<Rightarrow> rat \<Rightarrow> rat" where
  "round_to q x = of_int (round_half_even (x / 2 powi q)) * 2 powi q"

definition rnd :: "rat \<Rightarrow> rat" where
  "rnd x = (if x = 0 then 0 else round_to (quantum x) x)"

definition mk_double :: "bool \<Rightarrow> rat \<Rightarrow> double" where
  "mk_double neg x =
     (let r = rnd x
      in if r = 0 then (if neg then NegZero else Fin 0)
         else if 1024 \<le> ilog2 \<bar>r\<bar> then (if r < 0 then NInf else PInf)
         else Fin r)"

definition is_finite :: "double \<Rightarrow> bool" where
  "is_finite d = (case d of Fin r \<Rightarrow> True | NegZero \<Rightarrow> True | PInf \<Rightarrow> False | NInf \<Rightarrow> False | NaN \<Rightarrow> False)"

definition dval :: "double \<Rightarrow> rat" where
  "dval d = (case d of Fin r \<Rightarrow> r | NegZero \<Rightarrow> 0 | PInf \<Rightarrow> 0 | NInf \<Rightarrow> 0 | NaN \<Rightarrow> 0)"

definition is_neg :: "double \<Rightarrow> bool" where
  "is_neg d = (case d of Fin r \<Rightarrow> r < 0 | NegZero \<Rightarrow> True | PInf \<Rightarrow> False | NInf \<Rightarrow> True | NaN \<Rightarrow> False)"

definition is_zero :: "double \<Rightarrow> bool" where
  "is_zero d = (d = Fin 0 \<or> d = NegZero)"

definition inf_of :: "bool \<Rightarrow> double" where
  "inf_of neg = (if neg then NInf else PInf)"

definition zero_of :: "bool \<Rightarrow> double" where
  "zero_of neg = (if neg then NegZero else Fin 0)"

text \<open>
  The operations as Python performs them. Subtraction and multiplication never raise.
  True division raises \<^verbatim>\<open>ZeroDivisionError\<close> on a zero divisor before anything else is
  looked at. An \<^verbatim>\<open>int\<close> operand of a float operation is converted first
  (\<open>py_int_to_float\<close>, correctly rounded, \<^verbatim>\<open>OverflowError\<close> when too large).
  \<^verbatim>\<open>round(x)\<close> and \<^verbatim>\<open>math.floor(x)\<close> return an \<^verbatim>\<open>int\<close>; both raise
  \<^verbatim>\<open>OverflowError\<close> on an infinity and \<^verbatim>\<open>ValueError\<close> on a NaN, and \<^verbatim>\<open>round\<close>
  rounds a tie to the even integer. \<^verbatim>\<open>int / int\<close> is the correctly rounded quotient.
  A float literal of the source (\<^verbatim>\<open>0.1\<close>, \<^verbatim>\<open>0.0001\<close>) is the double nearest to it.
\<close>

definition py_float_sub :: "double \<Rightarrow> double \<Rightarrow> double" where
  "py_float_sub a b =
     (if a = NaN \<or> b = NaN then NaN
      else if a = PInf then (if b = PInf then NaN else PInf)
      else if a = NInf then (if b = NInf then NaN else NInf)
      else if b = PInf then NInf
      else if b = NInf then PInf
      else let d = dval a - dval b
           in if d = 0 then (if a = NegZero \<and> b = Fin 0 then NegZero else Fin 0)
              else mk_double (d < 0) d)"

definition py_float_mul :: "double \<Rightarrow> double \<Rightarrow> double" where
  "py_float_mul a b =
     (if a = NaN \<or> b = NaN then NaN
      else if \<not> is_finite a \<or> \<not> is_finite b
        then (if is_zero a \<or> is_zero b then NaN else inf_of (is_neg a \<noteq> is_neg b))
      else mk_double (is_neg a \<noteq> is_neg b) (dval a * dval b))"

definition py_float_truediv :: "double \<Rightarrow> double \<Rightarrow> py_error + double" where
  "py_float_truediv a b =
     (if is_zero b then Inl ZeroDivisionError
      else Inr (if a = NaN \<or> b = NaN then NaN
                else if \<not> is_finite a
                  then (if \<not> is_finite b then NaN else inf_of (is_neg a \<noteq> is_neg b))
                else if \<not> is_finite b then zero_of (is_neg a \<noteq> is_neg b)
                else mk_double (is_neg a \<noteq> is_neg b) (dval a / dval b)))"

definition py_int_to_float :: "int \<Rightarrow> py_error + double" where
  "py_int_to_float n =
     (let d = mk_double False (of_int n) in if is_finite d then Inr d else Inl OverflowError)"

definition py_float_to_int :: "(rat \<Rightarrow> int) \<Rightarrow> double \<Rightarrow> py_error + int" where
  "py_float_to_int f d =
     (case d of
        NaN \<Rightarrow> Inl ValueError
      | PInf \<Rightarrow> Inl OverflowError
      | NInf \<Rightarrow> Inl OverflowError
      | NegZero \<Rightarrow> Inr 0
      | Fin r \<Rightarrow> Inr (f r))"

definition py_round :: "double \<Rightarrow> py_error + int" where
  "py_round d = py_float_to_int round_half_even d"

definition math_floor :: "double \<Rightarrow> py_error + int" where
  "math_floor d = py_float_to_int floor d"

definition py_int_truediv :: "int \<Rightarrow> int \<Rightarrow> py_error + double" where
  "py_int_truediv a b =
     (if b = 0 then Inl ZeroDivisionError
      else let d = mk_double ((a < 0) \<noteq> (b < 0)) (of_int a / of_int b)
           in if is_finite d then Inr d else Inl OverflowError)"

definition float_literal :: "rat \<Rightarrow> double" where
  "float_literal q = mk_double False q"

text \<open>The largest finite float, \<^verbatim>\<open>sys.float_info.max\<close>: \<open>(2^53 - 1) * 2^971\<close>.\<close>

definition max_double :: rat where
  "max_double = of_int (2 ^ 53 - 1) * 2 powi 971"



section \<open>Strings\<close>

text \<open>
  A \<^verbatim>\<open>str\<close> is a list of characters; a \<open>char\<close> is read as the code point of the same
  number, so the model covers the texts whose code points are below 256. Among these,
  \<^verbatim>\<open>str.isspace\<close> holds of the code points of \<open>is_space\<close>, \<^verbatim>\<open>str.splitlines\<close> breaks a line
  at the code points of \<open>is_linebreak\<close> (a carriage return followed by a line feed is one
  break), and \<^verbatim>\<open>str.lower\<close> moves \<open>A\<close> to \<open>Z\<close> and the upper-case letters of Latin-1 down
  by 32. \<^verbatim>\<open>str.upper\<close> moves the lower-case letters up likewise; the three code points
  whose upper case is not a single code point below 256 (\<open>0xB5\<close>, \<open>0xDF\<close>, \<open>0xFF\<close>) are left
  as they are, which no comparison of the program can tell apart, since the result is only
  compared with the ASCII names of \<open>SYMBOLS\<close>, none of which contains \<open>SS\<close>.

  \<open>py_in needle hay\<close> is \<^verbatim>\<open>needle in hay\<close>; \<open>py_index s c\<close> is \<^verbatim>\<open>s.index(c)\<close>, which raises
  \<^verbatim>\<open>ValueError\<close> when \<open>c\<close> does not occur; \<open>py_nth xs i\<close> is \<^verbatim>\<open>xs[i]\<close> for \<open>i \<ge> 0\<close> and
  \<open>py_last xs\<close> is \<^verbatim>\<open>xs[-1]\<close>, both raising \<^verbatim>\<open>IndexError\<close> out of range.
\<close>

definition is_space :: "char \<Rightarrow> bool" where
  "is_space c = ((of_char c :: nat) \<in> set [9, 10, 11, 12, 13, 28, 29, 30, 31, 32, 133, 160])"

definition is_linebreak :: "char \<Rightarrow> bool" where
  "is_linebreak c = ((of_char c :: nat) \<in> set [10, 11, 12, 13, 28, 29, 30, 133])"

fun splitlines_from :: "string \<Rightarrow> string \<Rightarrow> string list" where
  "splitlines_from cur [] = (if cur = [] then [] else [rev cur])"
| "splitlines_from cur [c] = (if is_linebreak c then [rev cur] else [rev (c # cur)])"
| "splitlines_from cur (c # d # s) =
     (if c = CHR 0x0D \<and> d = CHR 0x0A then rev cur # splitlines_from [] s
      else if is_linebreak c then rev cur # splitlines_from [] (d # s)
      else splitlines_from (c # cur) (d # s))"

definition py_splitlines :: "string \<Rightarrow> string list" where
  "py_splitlines s = splitlines_from [] s"

definition py_rstrip :: "string \<Rightarrow> string" where
  "py_rstrip s = rev (dropWhile is_space (rev s))"

definition py_strip :: "string \<Rightarrow> string" where
  "py_strip s = py_rstrip (dropWhile is_space s)"

fun split_from :: "string \<Rightarrow> string \<Rightarrow> string list" where
  "split_from cur [] = (if cur = [] then [] else [rev cur])"
| "split_from cur (c # s) =
     (if is_space c then (if cur = [] then split_from [] s else rev cur # split_from [] s)
      else split_from (c # cur) s)"

definition py_split :: "string \<Rightarrow> string list" where
  "py_split s = split_from [] s"

definition lower_char :: "char \<Rightarrow> char" where
  "lower_char c =
     (let n = (of_char c :: nat)
      in if (65 \<le> n \<and> n \<le> 90) \<or> (192 \<le> n \<and> n \<le> 222 \<and> n \<noteq> 215) then char_of (n + 32) else c)"

definition upper_char :: "char \<Rightarrow> char" where
  "upper_char c =
     (let n = (of_char c :: nat)
      in if (97 \<le> n \<and> n \<le> 122) \<or> (224 \<le> n \<and> n \<le> 254 \<and> n \<noteq> 247) then char_of (n - 32) else c)"

definition py_lower :: "string \<Rightarrow> string" where
  "py_lower s = map lower_char s"

definition py_upper :: "string \<Rightarrow> string" where
  "py_upper s = map upper_char s"

definition py_in :: "string \<Rightarrow> string \<Rightarrow> bool" where
  "py_in needle hay = sublist needle hay"

fun py_index :: "string \<Rightarrow> char \<Rightarrow> py_error + nat" where
  "py_index [] c = Inl ValueError"
| "py_index (x # s) c =
     (if x = c then Inr 0 else and_then (py_index s c) (\<lambda>i. Inr (Suc i)))"

definition py_nth :: "'a list \<Rightarrow> nat \<Rightarrow> py_error + 'a" where
  "py_nth xs i = (if i < length xs then Inr (xs ! i) else Inl IndexError)"

definition py_last :: "'a list \<Rightarrow> py_error + 'a" where
  "py_last xs = (if xs = [] then Inl IndexError else Inr (last xs))"


subsection \<open>Converting a string to a float\<close>

text \<open>
  \<^verbatim>\<open>float(s)\<close> for a string: an underscore is accepted only between two digits; then
  surrounding whitespace is dropped; then come an optional sign and either \<^verbatim>\<open>inf\<close>,
  \<^verbatim>\<open>infinity\<close> or \<^verbatim>\<open>nan\<close> in any case, or a decimal number: digits with an optional point
  (at least one digit in all) and an optional exponent (\<^verbatim>\<open>e\<close> or \<^verbatim>\<open>E\<close>, an optional sign,
  at least one digit). Anything else raises \<^verbatim>\<open>ValueError\<close>. The value is the double nearest
  to the decimal number, so a number too large becomes an infinity, and \<^verbatim>\<open>-0\<close> is \<open>-0.0\<close>.
\<close>

definition is_digit :: "char \<Rightarrow> bool" where
  "is_digit c = (48 \<le> (of_char c :: nat) \<and> (of_char c :: nat) \<le> 57)"

definition digits_value :: "string \<Rightarrow> int" where
  "digits_value ds = foldl (\<lambda>n c. 10 * n + ((of_char c :: int) - 48)) 0 ds"

fun underscores_ok :: "char \<Rightarrow> string \<Rightarrow> bool" where
  "underscores_ok prev [] = (prev \<noteq> CHR ''_'')"
| "underscores_ok prev (c # s) =
     ((if c = CHR ''_'' then is_digit prev else if prev = CHR ''_'' then is_digit c else True)
      \<and> underscores_ok c s)"

definition split_sign :: "string \<Rightarrow> bool \<times> string" where
  "split_sign s =
     (case s of
        [] \<Rightarrow> (False, [])
      | c # t \<Rightarrow> if c = CHR ''-'' then (True, t) else if c = CHR ''+'' then (False, t) else (False, s))"

definition parse_exponent :: "string \<Rightarrow> int option" where
  "parse_exponent s =
     (let (neg, ds) = split_sign s
      in if ds \<noteq> [] \<and> list_all is_digit ds
         then Some (if neg then - digits_value ds else digits_value ds)
         else None)"

definition parse_decimal :: "string \<Rightarrow> rat option" where
  "parse_decimal s =
     (let ip = takeWhile is_digit s;
          r1 = dropWhile is_digit s;
          (fp, r2) = (case r1 of
                        [] \<Rightarrow> ([], [])
                      | c # t \<Rightarrow> if c = CHR ''.'' then (takeWhile is_digit t, dropWhile is_digit t)
                                 else ([], r1))
      in if ip = [] \<and> fp = [] then None
         else let mant = of_int (digits_value (ip @ fp)) / 10 ^ length fp
              in (case r2 of
                    [] \<Rightarrow> Some mant
                  | c # t \<Rightarrow>
                      if c = CHR ''e'' \<or> c = CHR ''E''
                      then (case parse_exponent t of
                              None \<Rightarrow> None
                            | Some e \<Rightarrow> Some (mant * 10 powi e))
                      else None))"

definition py_float :: "string \<Rightarrow> py_error + double" where
  "py_float s =
     (if \<not> underscores_ok (CHR 0x00) s then Inl ValueError
      else let (neg, body) = split_sign (py_strip (filter (\<lambda>c. c \<noteq> CHR ''_'') s))
           in if py_lower body = ''inf'' \<or> py_lower body = ''infinity'' then Inr (inf_of neg)
              else if py_lower body = ''nan'' then Inr NaN
              else (case parse_decimal body of
                      None \<Rightarrow> Inl ValueError
                    | Some q \<Rightarrow> Inr (mk_double neg (if neg then - q else q))))"


subsection \<open>Converting a float to a string\<close>

text \<open>
  \<^verbatim>\<open>str(x)\<close> of a float is its \<^verbatim>\<open>repr\<close>: the shortest string of decimal digits that
  converts back to \<open>x\<close> (the one nearest to \<open>x\<close> when several of that length do), written
  with a decimal point when the decimal exponent is between \<open>-4\<close> and \<open>16\<close> (\<^verbatim>\<open>0.0001\<close>,
  \<^verbatim>\<open>1.1448\<close>, \<^verbatim>\<open>110.25\<close>, \<^verbatim>\<open>9999999999999998.0\<close>) and in exponent notation otherwise
  (\<^verbatim>\<open>1e+16\<close>, \<^verbatim>\<open>1.5e-05\<close>). \<open>decimal_point a\<close> is the number of digits before the point,
  that is the \<open>k\<close> with \<open>10^(k-1) \<le> a < 10^k\<close>; \<open>shortest_digits\<close> tries one to seventeen
  digits (seventeen always suffice for a double).
\<close>

function digits_of :: "int \<Rightarrow> string" where
  "digits_of n =
     (if n < 10 then [char_of (48 + n)] else digits_of (n div 10) @ [char_of (48 + n mod 10)])"
  by pat_completeness auto
termination
  by (relation "measure nat") auto

declare digits_of.simps [simp del]

definition decimal_point :: "rat \<Rightarrow> int" where
  "decimal_point a =
     (let (p, q) = quotient_of a;
          k = int (length (digits_of p)) - int (length (digits_of q))
      in if 10 powi k \<le> a then k + 1 else k)"

definition roundtrip_candidates :: "rat \<Rightarrow> int \<Rightarrow> nat \<Rightarrow> int list" where
  "roundtrip_candidates a dp n =
     (let g = 10 powi (dp - int n);
          lo = \<lfloor>a / g\<rfloor>;
          hi = lo + 1;
          below = a - of_int lo * g;
          above = of_int hi * g - a;
          lo_first = (below < above \<or> (below = above \<and> even lo))
      in filter (\<lambda>m. rnd (of_int m * g) = a) (if lo_first then [lo, hi] else [hi, lo]))"

definition shortest_digits :: "rat \<Rightarrow> int \<Rightarrow> int \<times> nat" where
  "shortest_digits a dp =
     (case List.find (\<lambda>n. roundtrip_candidates a dp n \<noteq> []) [1..<18] of
        Some n \<Rightarrow> (hd (roundtrip_candidates a dp n), n)
      | None \<Rightarrow> (round_half_even (a / 10 powi (dp - 17)), 17))"

definition strip_trailing_zeros :: "string \<Rightarrow> string" where
  "strip_trailing_zeros ds = rev (dropWhile (\<lambda>c. c = CHR ''0'') (rev ds))"

definition format_short :: "rat \<Rightarrow> string" where
  "format_short a =
     (let dp = decimal_point a;
          (m, n) = shortest_digits a dp;
          ds0 = digits_of m;
          decpt = dp + (int (length ds0) - int n);
          ds = strip_trailing_zeros ds0;
          nd = length ds
      in if decpt \<le> - 4 \<or> 16 < decpt
         then take 1 ds @ (if 1 < nd then ''.'' @ drop 1 ds else [])
              @ ''e'' @ (if decpt - 1 < 0 then ''-'' else ''+'')
              @ (let ex = digits_of \<bar>decpt - 1\<bar> in if length ex < 2 then CHR ''0'' # ex else ex)
         else if decpt \<le> 0 then ''0.'' @ replicate (nat (- decpt)) (CHR ''0'') @ ds
         else if int nd \<le> decpt then ds @ replicate (nat decpt - nd) (CHR ''0'') @ ''.0''
         else take (nat decpt) ds @ ''.'' @ drop (nat decpt) ds)"

definition float_repr :: "double \<Rightarrow> string" where
  "float_repr d =
     (case d of
        NaN \<Rightarrow> ''nan''
      | PInf \<Rightarrow> ''inf''
      | NInf \<Rightarrow> ''-inf''
      | NegZero \<Rightarrow> ''-0.0''
      | Fin r \<Rightarrow> if r = 0 then ''0.0'' else (if r < 0 then ''-'' else []) @ format_short \<bar>r\<bar>)"


section \<open>The parser: \<^verbatim>\<open>ParseSignal\<close>\<close>

text \<open>
  The dictionary \<^verbatim>\<open>trade\<close> is a record of its keys. \<^verbatim>\<open>trade['Entry']\<close> holds a string for
  the market order types and a float for the others, so its type is the sum \<open>entry\<close>.
  The key \<^verbatim>\<open>PositionSize\<close> is absent until \<^verbatim>\<open>GetTradeInformation\<close> stores it.

  The module reads its settings from the environment when it is loaded; they are the
  parameter \<open>cfg\<close>. \<open>RISK_FACTOR\<close> is \<^verbatim>\<open>float(os.environ.get("RISK_FACTOR"))\<close>, and
  \<open>ALLOWED_MT4_ACCOUNT_NUMBER\<close> is what the expression \<^verbatim>\<open>int(ALLOWED_MT4_ACCOUNT_NUMBER)\<close> of
  \<^verbatim>\<open>ConnectMetaTrader\<close> evaluates to: an integer, or the exception \<^verbatim>\<open>int\<close> raises on an
  unset or non-numeric setting.

  \<^verbatim>\<open>ParseSignal\<close> returns the empty dictionary (\<open>Inr None\<close>) when line 0 names no order type
  or no allowed symbol, raises (\<open>Inl\<close>) when a line or a token is missing or a number does not
  convert, and returns the filled dictionary otherwise.
\<close>

datatype order_type = Buy | Sell | BuyLimit | SellLimit | BuyStop | SellStop

datatype entry = EntryStr string | EntryFloat double

record trade =
  OrderType :: order_type
  Symbol :: string
  Entry :: entry
  StopLoss :: double
  TP :: "double list"
  RiskFactor :: double
  PositionSize :: "double option"

record config =
  RISK_FACTOR :: double
  ALLOWED_MT4_ACCOUNT_NUMBER :: "py_error + int"

definition SYMBOLS :: "string list" where
  "SYMBOLS =
     [''AUDCAD'', ''AUDCHF'', ''AUDJPY'', ''AUDNZD'', ''AUDUSD'', ''CADCHF'', ''CADJPY'',
      ''CHFJPY'', ''EURAUD'', ''EURCAD'', ''EURCHF'', ''EURGBP'', ''EURJPY'', ''EURNZD'',
      ''EURUSD'', ''GBPAUD'', ''GBPCAD'', ''GBPCHF'', ''GBPJPY'', ''GBPNZD'', ''GBPUSD'',
      ''NOW'', ''NZDCAD'', ''NZDCHF'', ''NZDJPY'', ''NZDUSD'', ''USDCAD'', ''USDCHF'',
      ''USDJPY'', ''XAGUSD'', ''XAUUSD'']"

definition classify :: "string \<Rightarrow> order_type option" where
  "classify line0 =
     (let l = py_lower line0
      in if py_in (py_lower ''Buy Limit'') l then Some BuyLimit
         else if py_in (py_lower ''Sell Limit'') l then Some SellLimit
         else if py_in (py_lower ''Buy Stop'') l then Some BuyStop
         else if py_in (py_lower ''Sell Stop'') l then Some SellStop
         else if py_in (py_lower ''Buy'') l then Some Buy
         else if py_in (py_lower ''Sell'') l then Some Sell
         else None)"

definition last_token :: "string \<Rightarrow> py_error + string" where
  "last_token line = py_last (py_split line)"

definition float_of_line :: "string list \<Rightarrow> nat \<Rightarrow> py_error + double" where
  "float_of_line signal i =
     and_then (py_nth signal i) (\<lambda>line. and_then (last_token line) py_float)"

definition parse_entry :: "order_type \<Rightarrow> string list \<Rightarrow> py_error + entry" where
  "parse_entry ot signal =
     (if ot = Buy \<or> ot = Sell
      then and_then (py_nth signal 1) (\<lambda>line.
           and_then (last_token line) (\<lambda>tok. Inr (EntryStr tok)))
      else and_then (float_of_line signal 1) (\<lambda>d. Inr (EntryFloat d)))"

definition parse_take_profits :: "string list \<Rightarrow> py_error + double list" where
  "parse_take_profits signal =
     and_then (float_of_line signal 3) (\<lambda>tp1.
       if 4 < length signal
       then and_then (float_of_line signal 4) (\<lambda>tp2. Inr [tp1, tp2])
       else Inr [tp1])"

definition ParseSignal :: "config \<Rightarrow> string \<Rightarrow> py_error + trade option" where
  "ParseSignal cfg text =
     (let signal = map py_rstrip (py_splitlines text)
      in and_then (py_nth signal 0) (\<lambda>line0.
         case classify line0 of
           None \<Rightarrow> Inr None
         | Some ot \<Rightarrow>
             and_then (last_token line0) (\<lambda>tok0.
             let sym = py_upper tok0
             in if sym \<notin> set SYMBOLS then Inr None
                else and_then (parse_entry ot signal) (\<lambda>en.
                     and_then (float_of_line signal 2) (\<lambda>sl.
                     and_then (parse_take_profits signal) (\<lambda>tps.
                     Inr (Some \<lparr>OrderType = ot, Symbol = sym, Entry = en, StopLoss = sl,
                                 TP = tps, RiskFactor = RISK_FACTOR cfg,
                                 PositionSize = None\<rparr>)))))))"


section \<open>The risk calculation: \<^verbatim>\<open>GetTradeInformation\<close>\<close>

text \<open>
  \<open>resolve_multiplier\<close> is the \<^verbatim>\<open>if\<close> chain of lines 99 to 106, \<open>pips\<close> the expression
  \<^verbatim>\<open>abs(round((price - trade['Entry']) / multiplier))\<close> of lines 108 and 113 (subtracting a
  string from a float raises \<^verbatim>\<open>TypeError\<close>), and \<open>position_size\<close> the right-hand side of
  line 109, \<^verbatim>\<open>math.floor(((balance * trade['RiskFactor']) / stopLossPips) / 10 * 100) / 100\<close>,
  whose argument of \<^verbatim>\<open>math.floor\<close> is \<open>scaled_risk\<close>. The balance is a float, as the
  signature says. The function mutates the dictionary it is given, so the model returns the
  dictionary as it is left, also when an exception ends the function, together with the
  exception or with the pip counts handed to \<^verbatim>\<open>CreateTable\<close> (the record \<open>report\<close>).
  \<^verbatim>\<open>CreateTable\<close> only formats these numbers and raises nothing.
\<close>

definition py_str :: "entry \<Rightarrow> string" where
  "py_str en = (case en of EntryStr s \<Rightarrow> s | EntryFloat d \<Rightarrow> float_repr d)"

definition resolve_multiplier :: "trade \<Rightarrow> py_error + double" where
  "resolve_multiplier t =
     (if Symbol t = ''XAUUSD'' then Inr (float_literal (1 / 10))
      else if Symbol t = ''XAGUSD'' then Inr (float_literal (1 / 1000))
      else and_then (py_index (py_str (Entry t)) (CHR ''.'')) (\<lambda>i.
             if 2 \<le> i then Inr (float_literal (1 / 100))
             else Inr (float_literal (1 / 10000))))"

definition price_minus_entry :: "double \<Rightarrow> entry \<Rightarrow> py_error + double" where
  "price_minus_entry p en =
     (case en of EntryStr s \<Rightarrow> Inl TypeError | EntryFloat e \<Rightarrow> Inr (py_float_sub p e))"

definition pips :: "double \<Rightarrow> entry \<Rightarrow> double \<Rightarrow> py_error + int" where
  "pips p en multiplier =
     and_then (price_minus_entry p en) (\<lambda>d.
     and_then (py_float_truediv d multiplier) (\<lambda>q.
     and_then (py_round q) (\<lambda>n. Inr \<bar>n\<bar>)))"

definition scaled_risk :: "double \<Rightarrow> double \<Rightarrow> int \<Rightarrow> py_error + double" where
  "scaled_risk balance rf stopLossPips =
     and_then (py_int_to_float stopLossPips) (\<lambda>p.
     and_then (py_float_truediv (py_float_mul balance rf) p) (\<lambda>a.
     and_then (py_float_truediv a (Fin 10)) (\<lambda>b.
     Inr (py_float_mul b (Fin 100)))))"

definition position_size :: "double \<Rightarrow> double \<Rightarrow> int \<Rightarrow> py_error + double" where
  "position_size balance rf stopLossPips =
     and_then (scaled_risk balance rf stopLossPips) (\<lambda>c.
     and_then (math_floor c) (\<lambda>n. py_int_truediv n 100))"

fun map_err :: "('a \<Rightarrow> py_error + 'b) \<Rightarrow> 'a list \<Rightarrow> py_error + 'b list" where
  "map_err f [] = Inr []"
| "map_err f (x # xs) =
     and_then (f x) (\<lambda>y. and_then (map_err f xs) (\<lambda>ys. Inr (y # ys)))"

record report =
  stopLossPips :: int
  takeProfitPips :: "int list"

definition GetTradeInformation :: "trade \<Rightarrow> double \<Rightarrow> trade \<times> (py_error + report)" where
  "GetTradeInformation t balance =
     (case resolve_multiplier t of
        Inl e \<Rightarrow> (t, Inl e)
      | Inr multiplier \<Rightarrow>
          (case pips (StopLoss t) (Entry t) multiplier of
             Inl e \<Rightarrow> (t, Inl e)
           | Inr slp \<Rightarrow>
               (case position_size balance (RiskFactor t) slp of
                  Inl e \<Rightarrow> (t, Inl e)
                | Inr ps \<Rightarrow>
                    (let t' = t\<lparr>PositionSize := Some ps\<rparr>
                     in (case map_err (\<lambda>tp. pips tp (Entry t') multiplier) (TP t') of
                           Inl e \<Rightarrow> (t', Inl e)
                         | Inr tpp \<Rightarrow>
                             (t', Inr \<lparr>stopLossPips = slp, takeProfitPips = tpp\<rparr>))))))"


section \<open>The brokerage gateway and \<^verbatim>\<open>ConnectMetaTrader\<close>\<close>

text \<open>
  The MetaApi connection is a parameter \<open>gw\<close> that says how the gateway answers during one
  run of \<^verbatim>\<open>ConnectMetaTrader\<close>: \<open>connect_failure\<close> is the exception raised while the account
  is fetched, deployed, connected and synchronised (lines 153 to 168), if any;
  \<open>get_account_information\<close> answers with the login and the balance;
  \<open>get_symbol_price\<close> with the bid and the ask as floats; \<open>create_order k req\<close> is the
  answer to the \<open>k\<close>-th order of the run, an exception or the \<^verbatim>\<open>stringCode\<close> of the result.
  A request names the SDK method (\<open>ord_call\<close>) and its arguments; the market methods take no
  open price. \<open>leg_volume\<close> is the argument \<^verbatim>\<open>trade['PositionSize'] / len(trade['TP'])\<close>.

  What a run does is observed as a list of events, in order: the messages sent to the chat
  (\<open>Reply\<close>) and the calls made to the gateway. \<open>RiskTable\<close> is the message with the table
  of \<^verbatim>\<open>CreateTable\<close>. \<open>place_legs\<close> is the \<^verbatim>\<open>for\<close> loop over \<^verbatim>\<open>trade['TP']\<close> of lines 192 to
  209, and \<open>enter_trade\<close> the \<^verbatim>\<open>try\<close> statement of lines 190 to 217 around it;
  \<open>resolve_entry\<close> is lines 179 to 185. The dictionary is passed by reference, so
  \<^verbatim>\<open>ConnectMetaTrader\<close> returns it as it is left.
\<close>

datatype order_call =
    create_market_buy_order | create_limit_buy_order | create_stop_buy_order
  | create_market_sell_order | create_limit_sell_order | create_stop_sell_order

record order_request =
  ord_call :: order_call
  ord_symbol :: string
  ord_volume :: double
  ord_open_price :: "entry option"
  ord_stop_loss :: double
  ord_take_profit :: double

record gateway =
  connect_failure :: "py_error option"
  get_account_information :: "py_error + int \<times> double"
  get_symbol_price :: "string \<Rightarrow> py_error + double \<times> double"
  create_order :: "nat \<Rightarrow> order_request \<Rightarrow> py_error + string"

datatype reply =
    ParseErrorReply py_error
  | TradeParsed
  | UnauthorizedAccount
  | ConnectedReply
  | RiskTable trade report
  | EnteringTrade
  | TradeEntered
  | TradeIssue py_error
  | ConnectionIssue py_error
  | DecisionPrompt

datatype event =
    Reply reply
  | AccountInformationCall
  | SymbolPriceCall string
  | OrderCall order_request

definition order_call_of :: "order_type \<Rightarrow> order_call" where
  "order_call_of ot =
     (case ot of
        Buy \<Rightarrow> create_market_buy_order
      | BuyLimit \<Rightarrow> create_limit_buy_order
      | BuyStop \<Rightarrow> create_stop_buy_order
      | Sell \<Rightarrow> create_market_sell_order
      | SellLimit \<Rightarrow> create_limit_sell_order
      | SellStop \<Rightarrow> create_stop_sell_order)"

definition leg_volume :: "trade \<Rightarrow> py_error + double" where
  "leg_volume t =
     (case PositionSize t of
        None \<Rightarrow> Inl KeyError
      | Some ps \<Rightarrow>
          and_then (py_int_to_float (int (length (TP t)))) (\<lambda>n. py_float_truediv ps n))"

definition request_of :: "trade \<Rightarrow> double \<Rightarrow> double \<Rightarrow> order_request" where
  "request_of t v takeProfit =
     \<lparr>ord_call = order_call_of (OrderType t), ord_symbol = Symbol t, ord_volume = v,
      ord_open_price = (if OrderType t = Buy \<or> OrderType t = Sell then None else Some (Entry t)),
      ord_stop_loss = StopLoss t, ord_take_profit = takeProfit\<rparr>"

definition make_request :: "trade \<Rightarrow> double \<Rightarrow> py_error + order_request" where
  "make_request t takeProfit = and_then (leg_volume t) (\<lambda>v. Inr (request_of t v takeProfit))"

fun place_legs ::
  "gateway \<Rightarrow> trade \<Rightarrow> nat \<Rightarrow> string option \<Rightarrow> double list \<Rightarrow> event list \<times> (py_error + string option)"
where
  "place_legs gw t k res [] = ([], Inr res)"
| "place_legs gw t k res (takeProfit # rest) =
     (case make_request t takeProfit of
        Inl e \<Rightarrow> ([], Inl e)
      | Inr req \<Rightarrow>
          (case create_order gw k req of
             Inl e \<Rightarrow> ([OrderCall req], Inl e)
           | Inr code \<Rightarrow>
               (let (evs, r) = place_legs gw t (Suc k) (Some code) rest
                in (OrderCall req # evs, r))))"

definition enter_trade :: "gateway \<Rightarrow> trade \<Rightarrow> event list" where
  "enter_trade gw t =
     (let (evs, r) = place_legs gw t 0 None (TP t)
      in Reply EnteringTrade # evs @
         (case r of
            Inl e \<Rightarrow> [Reply (TradeIssue e)]
          | Inr None \<Rightarrow> [Reply TradeEntered, Reply (TradeIssue UnboundLocalError)]
          | Inr (Some code) \<Rightarrow> [Reply TradeEntered]))"

definition resolve_entry :: "gateway \<Rightarrow> trade \<Rightarrow> trade \<times> event list \<times> py_error option" where
  "resolve_entry gw t =
     (if Entry t = EntryStr ''NOW''
      then (case get_symbol_price gw (Symbol t) of
              Inl e \<Rightarrow> (t, [SymbolPriceCall (Symbol t)], Some e)
            | Inr (bid, ask) \<Rightarrow>
                (if OrderType t = Buy then t\<lparr>Entry := EntryFloat bid\<rparr>
                 else if OrderType t = Sell then t\<lparr>Entry := EntryFloat ask\<rparr>
                 else t,
                 [SymbolPriceCall (Symbol t)], None))
      else (t, [], None))"

definition ConnectMetaTrader :: "config \<Rightarrow> gateway \<Rightarrow> trade \<Rightarrow> bool \<Rightarrow> trade \<times> event list" where
  "ConnectMetaTrader cfg gw t enterTrade =
     (case connect_failure gw of
        Some e \<Rightarrow> (t, [Reply (ConnectionIssue e)])
      | None \<Rightarrow>
          (case get_account_information gw of
             Inl e \<Rightarrow> (t, [AccountInformationCall, Reply (ConnectionIssue e)])
           | Inr (login, balance) \<Rightarrow>
               (case ALLOWED_MT4_ACCOUNT_NUMBER cfg of
                  Inl e \<Rightarrow> (t, [AccountInformationCall, Reply (ConnectionIssue e)])
                | Inr allowed \<Rightarrow>
                    if login \<noteq> allowed
                    then (t, [AccountInformationCall, Reply UnauthorizedAccount])
                    else
                      (case resolve_entry gw t of
                         (t1, evs, Some e) \<Rightarrow>
                           (t1, [AccountInformationCall, Reply ConnectedReply] @ evs
                                @ [Reply (ConnectionIssue e)])
                       | (t1, evs, None) \<Rightarrow>
                           (case GetTradeInformation t1 balance of
                              (t2, Inl e) \<Rightarrow>
                                (t2, [AccountInformationCall, Reply ConnectedReply] @ evs
                                     @ [Reply (ConnectionIssue e)])
                            | (t2, Inr rep) \<Rightarrow>
                                (t2, [AccountInformationCall, Reply ConnectedReply] @ evs
                                     @ [Reply (RiskTable t2 rep)]
                                     @ (if enterTrade then enter_trade gw t2 else [])))))))"


text \<open>What is observed of a run: the orders it sent, and the symbols whose price it asked for.\<close>

fun order_calls :: "event list \<Rightarrow> order_request list" where
  "order_calls [] = []"
| "order_calls (OrderCall req # evs) = req # order_calls evs"
| "order_calls (ev # evs) = order_calls evs"

fun price_calls :: "event list \<Rightarrow> string list" where
  "price_calls [] = []"
| "price_calls (SymbolPriceCall name # evs) = name # price_calls evs"
| "price_calls (ev # evs) = price_calls evs"

fun risk_tables :: "event list \<Rightarrow> (trade \<times> report) list" where
  "risk_tables [] = []"
| "risk_tables (Reply (RiskTable t rep) # evs) = (t, rep) # risk_tables evs"
| "risk_tables (ev # evs) = risk_tables evs"

section \<open>The conversation handlers\<close>

text \<open>
  \<^verbatim>\<open>context.user_data['trade']\<close> is the field \<open>pending\<close> of the session. A handler returns
  the session, the next state of the conversation and the events of the call. The
  dictionary stored in the session is the one handed to \<^verbatim>\<open>ConnectMetaTrader\<close>, so what that
  call changes in it is what the session holds afterwards.
\<close>

datatype handler_state = CALCULATE | TRADE | DECISION | ConversationEnd

record session =
  pending :: "trade option"

definition parse_for_handler :: "config \<Rightarrow> string \<Rightarrow> py_error + trade" where
  "parse_for_handler cfg text =
     (case ParseSignal cfg text of
        Inl e \<Rightarrow> Inl e
      | Inr None \<Rightarrow> Inl InvalidTrade
      | Inr (Some t) \<Rightarrow> Inr t)"

definition PlaceTrade ::
  "config \<Rightarrow> gateway \<Rightarrow> string \<Rightarrow> session \<Rightarrow> session \<times> handler_state \<times> event list" where
  "PlaceTrade cfg gw text s =
     (case pending s of
        None \<Rightarrow>
          (case parse_for_handler cfg text of
             Inl e \<Rightarrow> (s, TRADE, [Reply (ParseErrorReply e)])
           | Inr t \<Rightarrow>
               (let (t', evs) = ConnectMetaTrader cfg gw t True
                in (s\<lparr>pending := None\<rparr>, ConversationEnd, Reply TradeParsed # evs)))
      | Some t \<Rightarrow>
          (let (t', evs) = ConnectMetaTrader cfg gw t True
           in (s\<lparr>pending := None\<rparr>, ConversationEnd, evs)))"

definition CalculateTrade ::
  "config \<Rightarrow> gateway \<Rightarrow> string \<Rightarrow> session \<Rightarrow> session \<times> handler_state \<times> event list" where
  "CalculateTrade cfg gw text s =
     (case pending s of
        None \<Rightarrow>
          (case parse_for_handler cfg text of
             Inl e \<Rightarrow> (s, CALCULATE, [Reply (ParseErrorReply e)])
           | Inr t \<Rightarrow>
               (let (t', evs) = ConnectMetaTrader cfg gw t False
                in (s\<lparr>pending := Some t'\<rparr>, DECISION,
                    Reply TradeParsed # evs @ [Reply DecisionPrompt])))
      | Some t \<Rightarrow>
          (let (t', evs) = ConnectMetaTrader cfg gw t False
           in (s\<lparr>pending := Some t'\<rparr>, DECISION, evs @ [Reply DecisionPrompt])))"


text \<open>A text is written down line by line: \<open>text_of_lines\<close> joins lines with line feeds.\<close>

fun text_of_lines :: "string list \<Rightarrow> string" where
  "text_of_lines [] = []"
| "text_of_lines [l] = l"
| "text_of_lines (l # ls) = l @ [CHR 0x0A] @ text_of_lines ls"


section \<open>The specification's reading of the operations\<close>

text \<open>
  The definitions of this section follow the wording of the specification, to be compared
  with the functions above. \<open>first_match\<close> tries the six phrases in the stated order and
  returns the order type of the first that occurs in line 0, case-insensitively.
\<close>

definition phrase_priority :: "(string \<times> order_type) list" where
  "phrase_priority =
     [(''Buy Limit'', BuyLimit), (''Sell Limit'', SellLimit), (''Buy Stop'', BuyStop),
      (''Sell Stop'', SellStop), (''Buy'', Buy), (''Sell'', Sell)]"

definition first_match :: "string \<Rightarrow> order_type option" where
  "first_match line0 =
     map_option snd
       (List.find (\<lambda>(phrase, ot). py_in (py_lower phrase) (py_lower line0)) phrase_priority)"

text \<open>
  Two prices are equal, in the specification's condition \<^emph>\<open>entry equals stop-loss\<close>, as
  Python's \<^verbatim>\<open>==\<close> compares floats: a NaN equals nothing and the two zeros are equal.
\<close>

definition py_float_eq :: "double \<Rightarrow> double \<Rightarrow> bool" where
  "py_float_eq a b = (a \<noteq> NaN \<and> b \<noteq> NaN \<and> (a = b \<or> (is_zero a \<and> is_zero b)))"

text \<open>
  The texts that are not rejected, described by their lines: there are at least four
  lines; line 0 contains one of the six phrases and its last token, in upper case, is an
  allowed symbol; line 1 has a last token, which converts to a float when the order is a
  limit or a stop order; the last tokens of lines 2 and 3, and of line 4 when there is
  one, convert to floats. The lines are taken by position: the labels in front of the
  tokens play no part.
\<close>

definition token_ok :: "(string \<Rightarrow> bool) \<Rightarrow> string \<Rightarrow> bool" where
  "token_ok P line = (case last_token line of Inl e \<Rightarrow> False | Inr tok \<Rightarrow> P tok)"

definition converts :: "string \<Rightarrow> bool" where
  "converts tok = (case py_float tok of Inl e \<Rightarrow> False | Inr d \<Rightarrow> True)"

definition parser_accepts :: "string \<Rightarrow> bool" where
  "parser_accepts msg =
     (let signal = map py_rstrip (py_splitlines msg)
      in 4 \<le> length signal
         \<and> (case classify (signal ! 0) of
               None \<Rightarrow> False
             | Some ot \<Rightarrow>
                 token_ok (\<lambda>tok. py_upper tok \<in> set SYMBOLS) (signal ! 0)
                 \<and> token_ok (\<lambda>tok. ot = Buy \<or> ot = Sell \<or> converts tok) (signal ! 1)
                 \<and> token_ok converts (signal ! 2)
                 \<and> token_ok converts (signal ! 3)
                 \<and> (4 < length signal \<longrightarrow> token_ok converts (signal ! 4))))"

text \<open>
  The multiplier as the specification words it: \<^verbatim>\<open>0.1\<close> for the symbol \<^verbatim>\<open>XAUUSD\<close>, \<^verbatim>\<open>0.001\<close>
  for \<^verbatim>\<open>XAGUSD\<close>, otherwise \<^verbatim>\<open>0.01\<close> when the string of the entry has its decimal point at
  index 2 or more, and \<^verbatim>\<open>0.0001\<close> otherwise. \<open>decimal_point_index\<close> is the index of the
  first decimal point of a string, when it has one.
\<close>

definition decimal_point_index :: "string \<Rightarrow> nat option" where
  "decimal_point_index s =
     (if CHR ''.'' \<in> set s then Some (length (takeWhile (\<lambda>c. c \<noteq> CHR ''.'') s)) else None)"

definition spec_multiplier :: "trade \<Rightarrow> double" where
  "spec_multiplier t =
     (if Symbol t = ''XAUUSD'' then float_literal (1 / 10)
      else if Symbol t = ''XAGUSD'' then float_literal (1 / 1000)
      else (case decimal_point_index (py_str (Entry t)) of
              Some i \<Rightarrow> if 2 \<le> i then float_literal (1 / 100) else float_literal (1 / 10000)
            | None \<Rightarrow> float_literal (1 / 10000)))"

section \<open>Example inputs\<close>

text \<open>
  The two example signals of the bot's \<^verbatim>\<open>/help\<close> message, a configuration with a risk factor of
  \<^verbatim>\<open>0.02\<close>, and a gateway that answers every call: the allowed account with a balance of
  ten thousand, a bid of \<^verbatim>\<open>1.1448\<close> and an ask of \<^verbatim>\<open>1.1449\<close>.
\<close>

definition limit_signal :: string where
  "limit_signal =
     text_of_lines [''BUY LIMIT GBPUSD'', ''Entry 1.14480'', ''SL 1.14336'', ''TP 1.28930'']"

definition market_signal :: string where
  "market_signal =
     text_of_lines [''BUY GBPUSD'', ''Entry NOW'', ''SL 1.14336'', ''TP 1.28930'', ''TP 1.29845'']"

definition example_rf :: double where
  "example_rf = float_literal (2 / 100)"

definition example_config :: config where
  "example_config = \<lparr>RISK_FACTOR = example_rf, ALLOWED_MT4_ACCOUNT_NUMBER = Inr 4835673\<rparr>"

definition example_bid :: double where
  "example_bid = float_literal (11448 / 10000)"

definition example_ask :: double where
  "example_ask = float_literal (11449 / 10000)"

definition example_gateway :: gateway where
  "example_gateway =
     \<lparr>connect_failure = None,
      get_account_information = Inr (4835673, Fin 10000),
      get_symbol_price = (\<lambda>name. Inr (example_bid, example_ask)),
      create_order = (\<lambda>k req. Inr ''TRADE_RETCODE_DONE'')\<rparr>"

definition limit_trade :: trade where
  "limit_trade =
     \<lparr>OrderType = BuyLimit, Symbol = ''GBPUSD'',
      Entry = EntryFloat (float_literal (11448 / 10000)),
      StopLoss = float_literal (114336 / 100000),
      TP = [float_literal (12893 / 10000)],
      RiskFactor = float_literal (2 / 100),
      PositionSize = None\<rparr>"


text \<open>
  A limit signal whose stop-loss line is missing, and a market signal whose entry is a
  number instead of \<^verbatim>\<open>NOW\<close>, with the dictionary the parser returns for it.
\<close>

definition missing_stop_loss_signal :: string where
  "missing_stop_loss_signal = text_of_lines [''BUY LIMIT GBPUSD'', ''Entry 1.14480'', ''TP 1.28930'']"

definition numeric_market_signal :: string where
  "numeric_market_signal =
     text_of_lines [''BUY GBPUSD'', ''Entry 1.2345'', ''SL 1.14336'', ''TP 1.28930'']"

definition numeric_market_trade :: trade where
  "numeric_market_trade =
     \<lparr>OrderType = Buy, Symbol = ''GBPUSD'', Entry = EntryStr ''1.2345'',
      StopLoss = float_literal (114336 / 100000), TP = [float_literal (12893 / 10000)],
      RiskFactor = float_literal (2 / 100), PositionSize = None\<rparr>"


text \<open>
  A limit signal with a negative entry price, with the dictionary the parser returns for
  it, and a limit signal whose entry is not a number.
\<close>

definition negative_entry_signal :: string where
  "negative_entry_signal =
     text_of_lines [''BUY LIMIT GBPUSD'', ''Entry -1.5'', ''SL 1.14336'', ''TP 1.28930'']"

definition negative_entry_trade :: trade where
  "negative_entry_trade =
     \<lparr>OrderType = BuyLimit, Symbol = ''GBPUSD'', Entry = EntryFloat (Fin (- 3 / 2)),
      StopLoss = float_literal (114336 / 100000), TP = [float_literal (12893 / 10000)],
      RiskFactor = float_literal (2 / 100), PositionSize = None\<rparr>"

definition non_numeric_entry_signal :: string where
  "non_numeric_entry_signal =
     text_of_lines [''BUY LIMIT GBPUSD'', ''Entry market'', ''SL 1.14336'', ''TP 1.28930'']"


text \<open>
  The market signal as it is parsed (\<open>market_trade\<close>), with the bid in place of \<^verbatim>\<open>NOW\<close>
  (\<open>market_trade_priced\<close>) and with the position size stored (\<open>market_trade_sized\<close>);
  the pip counts of its risk table; and the volume of each of its two legs.
\<close>

definition example_sl :: double where
  "example_sl = float_literal (114336 / 100000)"

definition example_tp1 :: double where
  "example_tp1 = float_literal (12893 / 10000)"

definition example_tp2 :: double where
  "example_tp2 = float_literal (129845 / 100000)"

definition example_size :: double where
  "example_size = Fin (799388933858263 / 562949953421312)"

definition example_leg_size :: double where
  "example_leg_size = Fin (799388933858263 / 1125899906842624)"

definition market_trade :: trade where
  "market_trade =
     \<lparr>OrderType = Buy, Symbol = ''GBPUSD'', Entry = EntryStr ''NOW'', StopLoss = example_sl,
      TP = [example_tp1, example_tp2], RiskFactor = example_rf, PositionSize = None\<rparr>"

definition market_trade_priced :: trade where
  "market_trade_priced = market_trade\<lparr>Entry := EntryFloat example_bid\<rparr>"

definition market_trade_sized :: trade where
  "market_trade_sized = market_trade_priced\<lparr>PositionSize := Some example_size\<rparr>"

definition market_report :: report where
  "market_report = \<lparr>stopLossPips = 14, takeProfitPips = [1445, 1537]\<rparr>"

text \<open>
  A gateway that refuses the first order of a run and would accept the second, and a
  gateway of a later moment, when the bid has moved to \<^verbatim>\<open>1.2\<close>.
\<close>

definition first_leg_fails_gateway :: gateway where
  "first_leg_fails_gateway =
     example_gateway
       \<lparr>create_order :=
          (\<lambda>k req. if k = 0 then Inl (GatewayError ''Trade disabled'')
                     else Inr ''TRADE_RETCODE_DONE'')\<rparr>"

definition later_bid :: double where
  "later_bid = float_literal (12 / 10)"

definition later_gateway :: gateway where
  "later_gateway = example_gateway\<lparr>get_symbol_price := (\<lambda>name. Inr (later_bid, later_bid))\<rparr>"

text \<open>A limit signal whose stop loss equals its entry, with the dictionary parsed from it.\<close>

definition zero_distance_signal :: string where
  "zero_distance_signal =
     text_of_lines [''BUY LIMIT GBPUSD'', ''Entry 1.14480'', ''SL 1.14480'', ''TP 1.28930'']"

definition zero_distance_trade :: trade where
  "zero_distance_trade =
     \<lparr>OrderType = BuyLimit, Symbol = ''GBPUSD'', Entry = EntryFloat example_bid,
      StopLoss = example_bid, TP = [example_tp1], RiskFactor = example_rf,
      PositionSize = None\<rparr>"

text \<open>A balance below zero, as an account in debit reports it.\<close>

definition overdrawn_balance :: double where
  "overdrawn_balance = Fin (- 10000)"

text \<open>
  A market signal whose stop loss is the bid that the example gateway answers, with the
  dictionary parsed from it.
\<close>

definition zero_distance_market_signal :: string where
  "zero_distance_market_signal =
     text_of_lines [''BUY GBPUSD'', ''Entry NOW'', ''SL 1.14480'', ''TP 1.28930'']"

definition zero_distance_market_trade :: trade where
  "zero_distance_market_trade =
     \<lparr>OrderType = Buy, Symbol = ''GBPUSD'', Entry = EntryStr ''NOW'',
      StopLoss = example_bid, TP = [example_tp1], RiskFactor = example_rf,
      PositionSize = None\<rparr>"

text \<open>
  A limit signal whose stop-loss line is missing while it has two take-profit lines, the
  dictionary parsed from it, with the first take profit in the place of the stop loss,
  the same with its position size of \<^verbatim>\<open>0.01\<close> stored, and its pip counts; and a market
  signal whose entry is a word, with the dictionary parsed from it.
\<close>

definition shifted_signal :: string where
  "shifted_signal =
     text_of_lines [''BUY LIMIT GBPUSD'', ''Entry 1.14480'', ''TP 1.28930'', ''TP 1.29845'']"

definition example_min_size :: double where
  "example_min_size = float_literal (1 / 100)"

definition shifted_trade :: trade where
  "shifted_trade =
     \<lparr>OrderType = BuyLimit, Symbol = ''GBPUSD'', Entry = EntryFloat example_bid,
      StopLoss = example_tp1, TP = [example_tp2], RiskFactor = example_rf,
      PositionSize = None\<rparr>"

definition shifted_trade_sized :: trade where
  "shifted_trade_sized = shifted_trade\<lparr>PositionSize := Some example_min_size\<rparr>"

definition shifted_report :: report where
  "shifted_report = \<lparr>stopLossPips = 1445, takeProfitPips = [1537]\<rparr>"

definition word_entry_signal :: string where
  "word_entry_signal =
     text_of_lines [''BUY GBPUSD'', ''Entry abc'', ''SL 1.14336'', ''TP 1.28930'']"

definition word_entry_trade :: trade where
  "word_entry_trade =
     \<lparr>OrderType = Buy, Symbol = ''GBPUSD'', Entry = EntryStr ''abc'', StopLoss = example_sl,
      TP = [example_tp1], RiskFactor = example_rf, PositionSize = None\<rparr>"




text \<open>
  A limit signal with an entry of \<^verbatim>\<open>0.00005\<close>, whose \<^verbatim>\<open>str\<close> is \<^verbatim>\<open>5e-05\<close>, with the
  dictionary parsed from it; and a dictionary for gold.
\<close>

definition tiny_entry_signal :: string where
  "tiny_entry_signal =
     text_of_lines [''BUY LIMIT GBPUSD'', ''Entry 0.00005'', ''SL 0.00004'', ''TP 0.00006'']"

definition tiny_entry :: double where
  "tiny_entry = float_literal (5 / 100000)"

definition tiny_entry_trade :: trade where
  "tiny_entry_trade =
     \<lparr>OrderType = BuyLimit, Symbol = ''GBPUSD'', Entry = EntryFloat tiny_entry,
      StopLoss = float_literal (4 / 100000), TP = [float_literal (6 / 100000)],
      RiskFactor = example_rf, PositionSize = None\<rparr>"

definition gold_trade :: trade where
  "gold_trade =
     \<lparr>OrderType = BuyLimit, Symbol = ''XAUUSD'', Entry = EntryFloat (float_literal (18505 / 10)),
      StopLoss = float_literal (1848), TP = [float_literal (1860)],
      RiskFactor = example_rf, PositionSize = None\<rparr>"

section \<open>Properties of rounding\<close>

text \<open>
  Rounding to the nearest double is monotone, odd and exact on the grid it rounds to.
  These are the facts about the arithmetic that the results below rest on.
\<close>

lemma round_half_even_of_int: "round_half_even (of_int n) = n"
  by (simp add: round_half_even_def)

lemma round_half_even_range:
  "\<lfloor>x\<rfloor> \<le> round_half_even x \<and> round_half_even x \<le> \<lfloor>x\<rfloor> + 1"
  by (simp add: round_half_even_def Let_def)

lemma round_half_even_mono:
  assumes "x \<le> y"
  shows "round_half_even x \<le> round_half_even y"
proof (cases "\<lfloor>x\<rfloor> = \<lfloor>y\<rfloor>")
  case True
  with assms show ?thesis
    by (auto simp: round_half_even_def Let_def)
next
  case False
  with assms have "\<lfloor>x\<rfloor> + 1 \<le> \<lfloor>y\<rfloor>"
    using floor_mono [of x y] by linarith
  with round_half_even_range [of x] round_half_even_range [of y] show ?thesis
    by linarith
qed

lemma round_half_even_minus: "round_half_even (- x) = - round_half_even x"
proof (cases "x \<in> \<int>")
  case True
  then obtain n where "x = of_int n" by (auto elim: Ints_cases)
  then have "- x = of_int (- n)" by simp
  then show ?thesis
    using round_half_even_of_int [of "- n"] round_half_even_of_int [of n] \<open>x = of_int n\<close>
    by simp
next
  case False
  then have ne: "x \<noteq> of_int \<lfloor>x\<rfloor>"
    by (metis Ints_of_int)
  then have fl: "\<lfloor>- x\<rfloor> = - \<lfloor>x\<rfloor> - 1"
    by (simp add: ceiling_altdef floor_minus)
  show ?thesis
    unfolding round_half_even_def Let_def fl
    using ne by (auto simp: algebra_simps)
qed

lemma pow2_nat: "0 \<le> k \<Longrightarrow> (2::rat) powi k = of_int (2 ^ nat k)"
  by (simp add: power_int_def)

lemma bitlen_rat_bounds:
  assumes "0 < a"
  shows "(2::rat) powi (bitlen a - 1) \<le> of_int a" and "of_int a < (2::rat) powi bitlen a"
proof -
  from assms have l: "1 \<le> bitlen a"
    using bitlen_eq_zero_iff [of a] bitlen_nonneg [of a] by linarith
  from bitlen_bounds [OF assms]
  have "2 ^ nat (bitlen a - 1) \<le> a" and "a < 2 ^ nat (bitlen a)" by auto
  then have "(of_int (2 ^ nat (bitlen a - 1)) :: rat) \<le> of_int a"
    and "(of_int a :: rat) < of_int (2 ^ nat (bitlen a))"
    by (simp_all only: of_int_le_iff of_int_less_iff)
  with l show "(2::rat) powi (bitlen a - 1) \<le> of_int a" and "of_int a < (2::rat) powi bitlen a"
    by (simp_all add: pow2_nat)
qed

lemma ilog2_bounds:
  assumes "0 < x"
  shows "2 powi ilog2 x \<le> x" and "x < 2 powi (ilog2 x + 1)"
proof -
  obtain a b where q: "quotient_of x = (a, b)" by (cases "quotient_of x")
  then have b: "0 < b" and x: "x = of_int a / of_int b"
    using quotient_of_denom_pos [OF q] quotient_of_div [OF q] by auto
  with assms have a: "0 < a"
    by (simp add: zero_less_divide_iff)
  define k where "k = bitlen a - bitlen b"
  have lo: "2 powi (k - 1) \<le> x"
  proof -
    have "k - 1 = (bitlen a - 1) - bitlen b" by (simp add: k_def)
    then have "2 powi (k - 1) = (2::rat) powi (bitlen a - 1) / 2 powi bitlen b"
      by (simp only: power_int_diff [of "2::rat", simplified])
    also have "\<dots> \<le> of_int a / of_int b"
      using bitlen_rat_bounds [OF a] bitlen_rat_bounds [OF b] a b
      by (intro frac_le) auto
    finally show ?thesis by (simp add: x)
  qed
  have hi: "x < 2 powi (k + 1)"
  proof -
    have "of_int a / of_int b < (2::rat) powi bitlen a / 2 powi (bitlen b - 1)"
      using bitlen_rat_bounds [OF a] bitlen_rat_bounds [OF b] a b
      by (intro frac_less) auto
    also have "\<dots> = 2 powi (bitlen a - (bitlen b - 1))"
      by (simp only: power_int_diff [of "2::rat", simplified])
    also have "bitlen a - (bitlen b - 1) = k + 1" by (simp add: k_def)
    finally show ?thesis by (simp add: x)
  qed
  have e: "ilog2 x = (if 2 powi k \<le> x then k else k - 1)"
    by (simp add: ilog2_def q k_def Let_def)
  show "2 powi ilog2 x \<le> x" using lo by (simp add: e)
  show "x < 2 powi (ilog2 x + 1)" using hi by (simp add: e not_le)
qed

lemma ilog2_mono:
  assumes "0 < x" "x \<le> y"
  shows "ilog2 x \<le> ilog2 y"
proof (rule ccontr)
  assume "\<not> ilog2 x \<le> ilog2 y"
  then have "ilog2 y + 1 \<le> ilog2 x" by simp
  then have "(2::rat) powi (ilog2 y + 1) \<le> 2 powi ilog2 x"
    by (intro power_int_increasing) auto
  with ilog2_bounds [of x] ilog2_bounds [of y] assms show False by linarith
qed


lemma pow2_pos: "0 < (2::rat) powi k"
  by simp

lemma round_to_mono: "x \<le> y \<Longrightarrow> round_to q x \<le> round_to q y"
  unfolding round_to_def
  by (intro mult_right_mono round_half_even_mono divide_right_mono)
     (simp_all add: round_half_even_mono divide_right_mono)

lemma round_to_grid: "round_to q (of_int m * 2 powi q) = of_int m * 2 powi q"
  by (simp add: round_to_def round_half_even_of_int)

lemma round_to_zero: "round_to q 0 = 0"
  using round_to_grid [of q 0] by simp

lemma round_to_minus: "round_to q (- x) = - round_to q x"
  by (simp add: round_to_def round_half_even_minus)

lemma pow2_on_grid:
  assumes "q \<le> e"
  shows "(2::rat) powi e = of_int (2 ^ nat (e - q)) * 2 powi q"
proof -
  have "(2::rat) powi e = 2 powi ((e - q) + q)" by simp
  also have "\<dots> = 2 powi (e - q) * 2 powi q"
    by (rule power_int_add) simp
  also have "(2::rat) powi (e - q) = of_int (2 ^ nat (e - q))"
    using assms by (simp add: pow2_nat)
  finally show ?thesis .
qed

lemma round_to_pow2:
  assumes "q \<le> e"
  shows "round_to q (2 powi e) = 2 powi e"
proof -
  have "round_to q (of_int (2 ^ nat (e - q)) * 2 powi q) = of_int (2 ^ nat (e - q)) * 2 powi q"
    by (rule round_to_grid)
  then show ?thesis
    by (simp only: pow2_on_grid [OF assms, symmetric])
qed

lemma quantum_mono:
  assumes "0 < x" "x \<le> y"
  shows "quantum x \<le> quantum y"
  using ilog2_mono [of x y] assms by (simp add: quantum_def)

lemma rnd_mono_pos:
  assumes "0 < x" "x \<le> y"
  shows "rnd x \<le> rnd y"
proof -
  from assms have y: "0 < y" by simp
  have rx: "rnd x = round_to (quantum x) x" and ry: "rnd y = round_to (quantum y) y"
    using assms y by (simp_all add: rnd_def)
  show ?thesis
  proof (cases "quantum x = quantum y")
    case True
    then show ?thesis using round_to_mono [OF assms(2)] by (simp add: rx ry)
  next
    case False
    with quantum_mono [OF assms] have lt: "quantum x < quantum y" by simp
    have ax: "\<bar>x\<bar> = x" and ay: "\<bar>y\<bar> = y" using assms y by simp_all
    from lt have qy: "quantum y = ilog2 y - 52"
      by (simp add: quantum_def ax ay max_def split: if_splits)
    have "ilog2 x - 52 \<le> quantum x" by (simp add: quantum_def ax)
    with lt qy have ex: "ilog2 x + 1 \<le> ilog2 y" by simp
    define g where "g = (2::rat) powi ilog2 y"
    have "x < 2 powi (ilog2 x + 1)" using ilog2_bounds(2) [OF assms(1)] .
    also have "\<dots> \<le> g" unfolding g_def using ex by (intro power_int_increasing) auto
    finally have xg: "x \<le> g" by simp
    have gy: "g \<le> y" unfolding g_def using ilog2_bounds(1) [OF y] .
    have g1: "round_to (quantum x) g = g"
      unfolding g_def using lt qy by (intro round_to_pow2) simp
    have g2: "round_to (quantum y) g = g"
      unfolding g_def using qy by (intro round_to_pow2) simp
    have "round_to (quantum x) x \<le> round_to (quantum x) g"
      by (rule round_to_mono [OF xg])
    also have "\<dots> = round_to (quantum y) g" by (simp add: g1 g2)
    also have "\<dots> \<le> round_to (quantum y) y"
      by (rule round_to_mono [OF gy])
    finally show ?thesis by (simp add: rx ry)
  qed
qed

lemma rnd_minus: "rnd (- x) = - rnd x"
  by (simp add: rnd_def quantum_def round_to_minus)

lemma rnd_nonneg: "0 \<le> x \<Longrightarrow> 0 \<le> rnd x"
  using round_to_mono [of 0 x "quantum x"] by (simp add: rnd_def round_to_zero)

lemma rnd_mono:
  assumes "x \<le> y"
  shows "rnd x \<le> rnd y"
proof -
  consider "0 < x" | "x \<le> 0" "0 \<le> y" | "y < 0" by linarith
  then show ?thesis
  proof cases
    case 1
    then show ?thesis using rnd_mono_pos assms by simp
  next
    case 2
    then have "rnd x \<le> 0" using rnd_nonneg [of "- x"] by (simp add: rnd_minus)
    moreover have "0 \<le> rnd y" using 2 rnd_nonneg by simp
    ultimately show ?thesis by simp
  next
    case 3
    then have "rnd (- y) \<le> rnd (- x)" using assms by (intro rnd_mono_pos) auto
    then show ?thesis by (simp add: rnd_minus)
  qed
qed

section \<open>Properties of the float operations\<close>

text \<open>
  On finite operands an operation is the rounding of the exact result, which is finite
  unless the rounded magnitude reaches \<open>2^1024\<close>; rounding a smaller non-negative number
  gives a smaller non-negative double, finite when the larger one is.
\<close>

lemma rnd_one: "rnd 1 = 1"
  by code_simp

lemma ilog2_unique:
  assumes "2 powi e \<le> x" and "x < 2 powi (e + 1)"
  shows "ilog2 x = e"
proof -
  have x: "0 < x" using assms(1) zero_less_power_int [of "2::rat" e] by linarith
  note b = ilog2_bounds [OF x]
  have "\<not> ilog2 x + 1 \<le> e"
  proof
    assume "ilog2 x + 1 \<le> e"
    then have "(2::rat) powi (ilog2 x + 1) \<le> 2 powi e" by (intro power_int_increasing) auto
    with b(2) assms(1) show False by linarith
  qed
  moreover have "\<not> e + 1 \<le> ilog2 x"
  proof
    assume "e + 1 \<le> ilog2 x"
    then have "(2::rat) powi (e + 1) \<le> 2 powi ilog2 x" by (intro power_int_increasing) auto
    with b(1) assms(2) show False by linarith
  qed
  ultimately show ?thesis by linarith
qed

lemma ilog2_less_iff:
  assumes "0 < x"
  shows "ilog2 x < e \<longleftrightarrow> x < 2 powi e"
proof
  assume "ilog2 x < e"
  then have "(2::rat) powi (ilog2 x + 1) \<le> 2 powi e" by (intro power_int_increasing) auto
  with ilog2_bounds(2) [OF assms] show "x < 2 powi e" by linarith
next
  assume a: "x < 2 powi e"
  show "ilog2 x < e"
  proof (rule ccontr)
    assume "\<not> ilog2 x < e"
    then have "(2::rat) powi e \<le> 2 powi ilog2 x" by (intro power_int_increasing) auto
    with ilog2_bounds(1) [OF assms] a show False by linarith
  qed
qed

lemma mk_double_cases:
  "mk_double neg x = (if rnd x = 0 then zero_of neg
                      else if 2 powi 1024 \<le> \<bar>rnd x\<bar> then inf_of (rnd x < 0)
                      else Fin (rnd x))"
proof (cases "rnd x = 0")
  case True
  then show ?thesis by (simp add: mk_double_def zero_of_def)
next
  case False
  then have "0 < \<bar>rnd x\<bar>" by simp
  from ilog2_less_iff [OF this, of 1024]
  have "1024 \<le> ilog2 \<bar>rnd x\<bar> \<longleftrightarrow> 2 powi 1024 \<le> \<bar>rnd x\<bar>" by linarith
  with False show ?thesis by (simp add: mk_double_def inf_of_def Let_def)
qed

lemma mk_double_not_nan [simp]: "mk_double neg x \<noteq> NaN"
  by (simp add: mk_double_cases zero_of_def inf_of_def)

lemma is_finite_mk_double: "is_finite (mk_double neg x) \<longleftrightarrow> \<bar>rnd x\<bar> < 2 powi 1024"
  by (auto simp: mk_double_cases zero_of_def inf_of_def is_finite_def)

lemma dval_mk_double: "is_finite (mk_double neg x) \<Longrightarrow> dval (mk_double neg x) = rnd x"
  by (auto simp: mk_double_cases zero_of_def inf_of_def is_finite_def dval_def split: if_splits)

lemma mk_double_mono_finite:
  assumes "0 \<le> x" and "x \<le> y" and "is_finite (mk_double n1 y)"
  shows "is_finite (mk_double n2 x)"
    and "0 \<le> dval (mk_double n2 x)"
    and "dval (mk_double n2 x) \<le> dval (mk_double n1 y)"
proof -
  have 0: "0 \<le> rnd x" using assms(1) by (rule rnd_nonneg)
  have 1: "rnd x \<le> rnd y" using assms(2) by (rule rnd_mono)
  from assms(3) have "\<bar>rnd y\<bar> < 2 powi 1024" by (simp add: is_finite_mk_double)
  with 0 1 show f: "is_finite (mk_double n2 x)" by (simp add: is_finite_mk_double)
  from 0 f show "0 \<le> dval (mk_double n2 x)" by (simp add: dval_mk_double)
  from 1 f assms(3) show "dval (mk_double n2 x) \<le> dval (mk_double n1 y)"
    by (simp add: dval_mk_double)
qed

lemma is_finite_cases: "is_finite d \<longleftrightarrow> d = NegZero \<or> (\<exists>r. d = Fin r)"
  by (cases d) (simp_all add: is_finite_def)

lemma is_zero_finite: "is_finite d \<Longrightarrow> is_zero d \<longleftrightarrow> dval d = 0"
  by (auto simp: is_finite_cases is_zero_def dval_def)

lemma py_float_truediv_finite:
  assumes "is_finite a" and "is_finite b" and "dval b \<noteq> 0"
  shows "py_float_truediv a b = Inr (mk_double (is_neg a \<noteq> is_neg b) (dval a / dval b))"
  using assms by (auto simp: py_float_truediv_def is_zero_finite is_finite_cases)

lemma py_float_mul_finite:
  assumes "is_finite a" and "is_finite b"
  shows "py_float_mul a b = mk_double (is_neg a \<noteq> is_neg b) (dval a * dval b)"
  using assms by (auto simp: py_float_mul_def is_finite_cases)

lemma py_int_to_float_Inr:
  "py_int_to_float p = Inr P \<longleftrightarrow> P = mk_double False (of_int p) \<and> is_finite P"
  by (auto simp: py_int_to_float_def Let_def)

lemma py_int_truediv_Inr:
  "b \<noteq> 0 \<Longrightarrow> py_int_truediv a b = Inr s \<longleftrightarrow>
     s = mk_double ((a < 0) \<noteq> (b < 0)) (of_int a / of_int b) \<and> is_finite s"
  by (auto simp: py_int_truediv_def Let_def)

lemma math_floor_Inr: "math_floor c = Inr n \<longleftrightarrow> is_finite c \<and> n = \<lfloor>dval c\<rfloor>"
  by (cases c) (auto simp: math_floor_def py_float_to_int_def is_finite_def dval_def)


lemma infinite_div_ten:
  assumes "\<not> is_finite a"
  shows "\<exists>b. py_float_truediv a (Fin 10) = Inr b \<and> \<not> is_finite b"
  using assms
  by (cases a) (simp_all add: py_float_truediv_def is_zero_def is_finite_def inf_of_def is_neg_def)

lemma infinite_times_hundred:
  assumes "\<not> is_finite b"
  shows "\<not> is_finite (py_float_mul b (Fin 100))"
  using assms
  by (cases b) (simp_all add: py_float_mul_def is_zero_def is_finite_def inf_of_def is_neg_def)

section \<open>Facts about the parser and the handlers\<close>

text \<open>
  What \<^verbatim>\<open>ParseSignal\<close> returns, unfolded line by line, and what follows for a dictionary it
  returns; a string entry other than \<^verbatim>\<open>NOW\<close> makes the risk calculation raise.
\<close>

lemma and_then_Inr_iff:
  "and_then m f = Inr y \<longleftrightarrow> (\<exists>x. m = Inr x \<and> f x = Inr y)"
  by (cases m) (simp_all add: and_then_def)

lemma and_then_Inl_iff:
  "and_then m f = Inl e \<longleftrightarrow> m = Inl e \<or> (\<exists>x. m = Inr x \<and> f x = Inl e)"
  by (cases m) (simp_all add: and_then_def)

lemma and_then_simps [simp]:
  "and_then (Inl e) f = Inl e"
  "and_then (Inr x) f = f x"
  by (simp_all add: and_then_def)

lemma classify_first_match: "classify line0 = first_match line0"
  by (simp add: classify_def first_match_def phrase_priority_def Let_def)

lemma ParseSignal_no_line: "py_splitlines msg = [] \<Longrightarrow> ParseSignal cfg msg = Inl IndexError"
  by (simp add: ParseSignal_def py_nth_def)

lemma ParseSignal_line0:
  assumes "map py_rstrip (py_splitlines msg) = line0 # rest"
  shows "ParseSignal cfg msg =
           (case classify line0 of
              None \<Rightarrow> Inr None
            | Some ot \<Rightarrow>
                and_then (last_token line0) (\<lambda>tok0.
                if py_upper tok0 \<notin> set SYMBOLS then Inr None
                else and_then (parse_entry ot (line0 # rest)) (\<lambda>en.
                     and_then (float_of_line (line0 # rest) 2) (\<lambda>sl.
                     and_then (parse_take_profits (line0 # rest)) (\<lambda>tps.
                     Inr (Some \<lparr>OrderType = ot, Symbol = py_upper tok0, Entry = en,
                                 StopLoss = sl, TP = tps, RiskFactor = RISK_FACTOR cfg,
                                 PositionSize = None\<rparr>))))))"
  using assms by (cases "classify line0") (simp_all add: ParseSignal_def py_nth_def Let_def)

lemma ParseSignal_order_type:
  assumes "map py_rstrip (py_splitlines msg) = line0 # rest"
    and "ParseSignal cfg msg = Inr (Some t)"
  shows "classify line0 = Some (OrderType t)"
proof (cases "classify line0")
  case None
  with assms show ?thesis by (simp add: ParseSignal_line0)
next
  case (Some ot)
  with assms have "OrderType t = ot"
    by (auto simp: ParseSignal_line0 and_then_Inr_iff split: if_splits)
  with Some show ?thesis by simp
qed

lemma parse_for_handler_Inl_iff:
  "parse_for_handler cfg msg = Inl e \<longleftrightarrow>
     ParseSignal cfg msg = Inl e \<or> (ParseSignal cfg msg = Inr None \<and> e = InvalidTrade)"
  by (auto simp: parse_for_handler_def split: sum.splits option.splits)

lemma parse_for_handler_Inr_iff:
  "parse_for_handler cfg msg = Inr t \<longleftrightarrow> ParseSignal cfg msg = Inr (Some t)"
  by (auto simp: parse_for_handler_def split: sum.splits option.splits)

lemma py_float_error: "py_float s = Inl e \<Longrightarrow> e = ValueError"
  by (auto simp: py_float_def Let_def split: if_splits prod.splits option.splits)

lemma float_of_line_Inr:
  "float_of_line signal i = Inr d \<Longrightarrow> i < length signal"
  by (auto simp: float_of_line_def py_nth_def and_then_Inr_iff split: if_splits)

lemma ParseSignal_Some_iff:
  assumes "map py_rstrip (py_splitlines msg) = line0 # rest"
  shows "ParseSignal cfg msg = Inr (Some t) \<longleftrightarrow>
     (\<exists>ot tok0 en sl tps.
        classify line0 = Some ot \<and> last_token line0 = Inr tok0 \<and> py_upper tok0 \<in> set SYMBOLS
        \<and> parse_entry ot (line0 # rest) = Inr en
        \<and> float_of_line (line0 # rest) 2 = Inr sl
        \<and> parse_take_profits (line0 # rest) = Inr tps
        \<and> t = \<lparr>OrderType = ot, Symbol = py_upper tok0, Entry = en, StopLoss = sl, TP = tps,
                 RiskFactor = RISK_FACTOR cfg, PositionSize = None\<rparr>)"
  by (cases "classify line0")
     (auto simp: ParseSignal_line0 [OF assms] and_then_Inr_iff split: if_splits)

lemma ParseSignal_needs_four_lines:
  assumes "ParseSignal cfg msg = Inr (Some t)"
  shows "4 \<le> length (py_splitlines msg)"
proof (cases "map py_rstrip (py_splitlines msg)")
  case Nil
  with assms show ?thesis by (simp add: ParseSignal_no_line)
next
  case (Cons line0 rest)
  from assms obtain tps where "parse_take_profits (line0 # rest) = Inr tps"
    unfolding ParseSignal_Some_iff [OF Cons] by blast
  then obtain d where "float_of_line (line0 # rest) 3 = Inr d"
    by (auto simp: parse_take_profits_def and_then_Inr_iff)
  from float_of_line_Inr [OF this] have "3 < length (map py_rstrip (py_splitlines msg))"
    by (simp only: Cons)
  then show ?thesis by simp
qed

lemma py_index_error: "py_index s c = Inl e \<Longrightarrow> e = ValueError"
  by (induction s arbitrary: e) (auto simp: and_then_Inl_iff split: if_splits)

lemma resolve_entry_not_now:
  "Entry t \<noteq> EntryStr ''NOW'' \<Longrightarrow> resolve_entry gw t = (t, [], None)"
  by (simp add: resolve_entry_def)

lemma GetTradeInformation_str_entry:
  assumes "Entry t = EntryStr tok"
  shows "GetTradeInformation t balance
         = (t, Inl (case resolve_multiplier t of Inl e \<Rightarrow> e | Inr m \<Rightarrow> TypeError))"
proof (cases "resolve_multiplier t")
  case (Inl e)
  then show ?thesis by (simp add: GetTradeInformation_def)
next
  case (Inr m)
  have "pips (StopLoss t) (Entry t) m = Inl TypeError"
    by (simp add: pips_def price_minus_entry_def assms)
  with Inr show ?thesis by (simp add: GetTradeInformation_def)
qed

lemma resolve_multiplier_error: "resolve_multiplier t = Inl e \<Longrightarrow> e = ValueError"
  by (auto simp: resolve_multiplier_def and_then_Inl_iff dest: py_index_error split: if_splits)

lemma ConnectMetaTrader_str_entry:
  assumes "Entry t = EntryStr tok" and "tok \<noteq> ''NOW''"
  shows "price_calls (snd (ConnectMetaTrader cfg gw t enterTrade)) = []
       \<and> risk_tables (snd (ConnectMetaTrader cfg gw t enterTrade)) = []
       \<and> order_calls (snd (ConnectMetaTrader cfg gw t enterTrade)) = []"
proof -
  from assms have r: "resolve_entry gw t = (t, [], None)"
    by (simp add: resolve_entry_not_now)
  show ?thesis
    by (simp add: ConnectMetaTrader_def r GetTradeInformation_str_entry [OF assms(1)]
             split: option.split sum.split prod.split)
qed

lemma parse_entry_market:
  assumes "ot = Buy \<or> ot = Sell"
  shows "parse_entry ot (line0 # line1 # rest) = and_then (last_token line1) (\<lambda>tok. Inr (EntryStr tok))"
  using assms by (auto simp: parse_entry_def py_nth_def)

lemma parse_entry_pending:
  assumes "ot \<noteq> Buy" and "ot \<noteq> Sell"
  shows "parse_entry ot (line0 # line1 # rest)
         = and_then (and_then (last_token line1) py_float) (\<lambda>d. Inr (EntryFloat d))"
  using assms by (simp add: parse_entry_def float_of_line_def py_nth_def)


section \<open>The example signals, evaluated\<close>

text \<open>
  The market signal of the \<^verbatim>\<open>/help\<close> message, step by step: what the parser returns, the
  multiplier (the bid \<^verbatim>\<open>1.1448\<close> has its decimal point at index 1), the pip counts, the
  position size for a balance of ten thousand, and the run of \<^verbatim>\<open>ConnectMetaTrader\<close> on it,
  for any gateway that connects, answers with the allowed account and quotes that bid.
\<close>

lemma market_signal_parsed: "ParseSignal example_config market_signal = Inr (Some market_trade)"
  by code_simp

lemma bid_repr_index: "py_index (float_repr example_bid) (CHR ''.'') = Inr 1"
  by code_simp

lemma market_trade_priced_fields:
  "OrderType market_trade_priced = Buy"
  "Symbol market_trade_priced = ''GBPUSD''"
  "Entry market_trade_priced = EntryFloat example_bid"
  "StopLoss market_trade_priced = example_sl"
  "TP market_trade_priced = [example_tp1, example_tp2]"
  "RiskFactor market_trade_priced = example_rf"
  "PositionSize market_trade_priced = None"
  by (simp_all add: market_trade_priced_def market_trade_def)

lemma market_trade_sized_fields:
  "OrderType market_trade_sized = Buy"
  "Symbol market_trade_sized = ''GBPUSD''"
  "Entry market_trade_sized = EntryFloat example_bid"
  "StopLoss market_trade_sized = example_sl"
  "TP market_trade_sized = [example_tp1, example_tp2]"
  "RiskFactor market_trade_sized = example_rf"
  "PositionSize market_trade_sized = Some example_size"
  by (simp_all add: market_trade_sized_def market_trade_priced_fields)

lemma market_multiplier: "resolve_multiplier market_trade_priced = Inr (float_literal (1 / 10000))"
  by (simp add: resolve_multiplier_def market_trade_priced_fields py_str_def bid_repr_index)

lemma market_sl_pips: "pips example_sl (EntryFloat example_bid) (float_literal (1 / 10000)) = Inr 14"
  by code_simp

lemma market_tp1_pips: "pips example_tp1 (EntryFloat example_bid) (float_literal (1 / 10000)) = Inr 1445"
  by code_simp

lemma market_tp2_pips: "pips example_tp2 (EntryFloat example_bid) (float_literal (1 / 10000)) = Inr 1537"
  by code_simp

lemma market_position_size: "position_size (Fin 10000) example_rf 14 = Inr example_size"
  by code_simp

lemma market_risk:
  "GetTradeInformation market_trade_priced (Fin 10000) = (market_trade_sized, Inr market_report)"
  by (simp add: GetTradeInformation_def market_multiplier market_trade_priced_fields
        market_trade_sized_fields market_trade_sized_def [symmetric] market_report_def
        market_sl_pips market_tp1_pips market_tp2_pips market_position_size)

lemma market_leg_volume: "leg_volume market_trade_sized = Inr example_leg_size"
  by code_simp

lemma order_calls_append [simp]: "order_calls (xs @ ys) = order_calls xs @ order_calls ys"
  by (induction xs rule: order_calls.induct) simp_all

lemma price_calls_append [simp]: "price_calls (xs @ ys) = price_calls xs @ price_calls ys"
  by (induction xs rule: price_calls.induct) simp_all

lemma risk_tables_append [simp]: "risk_tables (xs @ ys) = risk_tables xs @ risk_tables ys"
  by (induction xs rule: risk_tables.induct) simp_all

lemma order_calls_map [simp]: "order_calls (map OrderCall reqs) = reqs"
  by (induction reqs) simp_all

lemma price_calls_map_order [simp]: "price_calls (map OrderCall reqs) = []"
  by (induction reqs) simp_all

lemma risk_tables_map_order [simp]: "risk_tables (map OrderCall reqs) = []"
  by (induction reqs) simp_all

lemma make_request_volume:
  "leg_volume t = Inr v \<Longrightarrow> make_request t takeProfit = Inr (request_of t v takeProfit)"
  by (simp add: make_request_def)

lemma market_run:
  assumes "connect_failure gw = None"
    and "get_account_information gw = Inr (4835673, Fin 10000)"
    and "get_symbol_price gw ''GBPUSD'' = Inr (example_bid, ask)"
  shows "ConnectMetaTrader example_config gw market_trade enterTrade
         = (market_trade_sized,
            [AccountInformationCall, Reply ConnectedReply, SymbolPriceCall ''GBPUSD'',
             Reply (RiskTable market_trade_sized market_report)]
            @ (if enterTrade then enter_trade gw market_trade_sized else []))"
proof -
  have r: "resolve_entry gw market_trade
           = (market_trade_priced, [SymbolPriceCall ''GBPUSD''], None)"
    by (simp add: resolve_entry_def market_trade_def market_trade_priced_def assms(3))
  show ?thesis
    by (simp add: ConnectMetaTrader_def assms(1,2) example_config_def r market_risk)
qed

lemma market_rerun:
  assumes "connect_failure gw = None"
    and "get_account_information gw = Inr (4835673, Fin 10000)"
  shows "ConnectMetaTrader example_config gw market_trade_sized enterTrade
         = (market_trade_sized,
            [AccountInformationCall, Reply ConnectedReply,
             Reply (RiskTable market_trade_sized market_report)]
            @ (if enterTrade then enter_trade gw market_trade_sized else []))"
proof -
  have r: "resolve_entry gw market_trade_sized = (market_trade_sized, [], None)"
    by (simp add: resolve_entry_def market_trade_sized_fields)
  have m: "resolve_multiplier market_trade_sized = Inr (float_literal (1 / 10000))"
    by (simp add: resolve_multiplier_def market_trade_sized_fields py_str_def bid_repr_index)
  have u: "market_trade_sized\<lparr>PositionSize := Some example_size\<rparr> = market_trade_sized"
    by (simp add: market_trade_sized_def)
  have g: "GetTradeInformation market_trade_sized (Fin 10000)
           = (market_trade_sized, Inr market_report)"
    by (simp add: GetTradeInformation_def m market_trade_sized_fields u market_report_def
          market_sl_pips market_tp1_pips market_tp2_pips market_position_size)
  show ?thesis
    by (simp add: ConnectMetaTrader_def assms example_config_def r g)
qed

lemma first_leg_fails_enter:
  "enter_trade first_leg_fails_gateway market_trade_sized
   = [Reply EnteringTrade,
      OrderCall (request_of market_trade_sized example_leg_size example_tp1),
      Reply (TradeIssue (GatewayError ''Trade disabled''))]"
  by (simp add: enter_trade_def market_trade_sized_fields
        make_request_volume [OF market_leg_volume] first_leg_fails_gateway_def)


section \<open>Facts about the position size\<close>

text \<open>
  The stages of line 109, one float operation at a time: a position size that is computed
  went through finite intermediate values, a positive pip count converts to a float of at
  least 1, and \<^verbatim>\<open>math.floor\<close> of a finite float is the floor of its value.
\<close>

lemma position_size_stages:
  assumes "position_size balance rf p = Inr s"
  shows "\<exists>P a b. py_int_to_float p = Inr P
           \<and> py_float_truediv (py_float_mul balance rf) P = Inr a
           \<and> py_float_truediv a (Fin 10) = Inr b
           \<and> is_finite (py_float_mul b (Fin 100))
           \<and> py_int_truediv \<lfloor>dval (py_float_mul b (Fin 100))\<rfloor> 100 = Inr s"
  using assms
  by (auto simp: position_size_def scaled_risk_def and_then_Inr_iff math_floor_Inr)

lemma scaled_stages_finite:
  assumes "py_float_truediv a (Fin 10) = Inr b" and "is_finite (py_float_mul b (Fin 100))"
  shows "is_finite a \<and> is_finite b"
proof -
  have b: "is_finite b"
    using assms(2) infinite_times_hundred [of b] by blast
  have "is_finite a"
  proof (rule ccontr)
    assume "\<not> is_finite a"
    from infinite_div_ten [OF this] assms(1) b show False by auto
  qed
  with b show ?thesis by simp
qed

lemma int_to_float_positive:
  assumes "0 < p" and "py_int_to_float p = Inr P"
  shows "is_finite P" and "1 \<le> dval P" and "dval P = rnd (of_int p)"
proof -
  from assms(2) have P: "P = mk_double False (of_int p)" and f: "is_finite P"
    by (auto simp: py_int_to_float_Inr)
  show "is_finite P" by (rule f)
  show d: "dval P = rnd (of_int p)" using f unfolding P by (rule dval_mk_double)
  have "rnd 1 \<le> rnd (of_int p)" using assms(1) by (intro rnd_mono) simp
  then show "1 \<le> dval P" by (simp add: d rnd_one)
qed

lemma math_floor_finite: "is_finite c \<Longrightarrow> math_floor c = Inr \<lfloor>dval c\<rfloor>"
  by (simp add: math_floor_Inr)

lemma py_int_truediv_100:
  "py_int_truediv n 100 = Inr s \<longleftrightarrow> s = mk_double (n < 0) (of_int n / 100) \<and> is_finite s"
  by (auto simp: py_int_truediv_def Let_def)

text \<open>
  The four multipliers of lines 99 to 106 are positive floats, and a division by a float
  other than zero raises nothing.
\<close>

lemma multiplier_literals:
  "float_literal (1 / 10) = Fin (3602879701896397 / 36028797018963968)"
  "float_literal (1 / 1000) = Fin (1152921504606847 / 1152921504606846976)"
  "float_literal (1 / 100) = Fin (5764607523034235 / 576460752303423488)"
  "float_literal (1 / 10000) = Fin (7378697629483821 / 73786976294838206464)"
  by code_simp+

lemma multiplier_positive:
  assumes "resolve_multiplier t = Inr m"
  shows "\<exists>q. m = Fin q \<and> 0 < q"
  using assms
  by (auto simp: resolve_multiplier_def multiplier_literals and_then_Inr_iff split: if_splits)

lemma py_float_truediv_nonzero:
  assumes "\<not> is_zero b"
  shows "\<exists>q. py_float_truediv a b = Inr q"
  using assms by (simp add: py_float_truediv_def)

section \<open>The range of the finite floats\<close>

text \<open>
  A rounded value below \<open>2^1024\<close> is at most \<open>max_double\<close>, so every finite result of a float
  operation is; an integer of at most that magnitude converts to a float; the pip count
  that \<open>pips\<close> returns, the rounding of a finite quotient, converts to a float; and the
  floor of a finite result, divided by a hundred, is finite.
\<close>

lemma max_double_bounds: "2 powi 1023 \<le> max_double" "max_double < 2 powi 1024"
proof -
  have a: "(2::rat) powi 1023 = of_int (2 ^ 52) * 2 powi 971"
    using pow2_on_grid [of 971 1023] by simp
  have b: "(2::rat) powi 1024 = of_int (2 ^ 53) * 2 powi 971"
    using pow2_on_grid [of 971 1024] by simp
  show "2 powi 1023 \<le> max_double"
    unfolding a max_double_def by (intro mult_right_mono) simp_all
  show "max_double < 2 powi 1024"
    unfolding b max_double_def by (intro mult_strict_right_mono) simp_all
qed

lemma rnd_max_double: "rnd max_double = max_double"
proof -
  have p: "0 < max_double" using max_double_bounds(1) pow2_pos [of 1023] by linarith
  have "ilog2 max_double = 1023"
    using max_double_bounds by (intro ilog2_unique) simp_all
  then have q: "quantum max_double = 971" using p by (simp add: quantum_def)
  have "rnd max_double = round_to (quantum max_double) max_double"
    using p by (simp add: rnd_def)
  also have "\<dots> = round_to 971 max_double" by (simp only: q)
  also have "\<dots> = max_double" unfolding max_double_def by (rule round_to_grid)
  finally show ?thesis .
qed

lemma rnd_abs: "\<bar>rnd x\<bar> = rnd \<bar>x\<bar>"
proof (cases "0 \<le> x")
  case True
  then show ?thesis using rnd_nonneg [of x] by simp
next
  case False
  then have "0 \<le> rnd (- x)" by (intro rnd_nonneg) simp
  with False show ?thesis by (simp add: rnd_minus)
qed



lemma int_below_overflow:
  assumes "\<bar>of_int n\<bar> \<le> max_double"
  shows "is_finite (mk_double neg (of_int n))"
proof -
  have "\<bar>rnd (of_int n)\<bar> = rnd \<bar>of_int n\<bar>" by (rule rnd_abs)
  also have "\<dots> \<le> rnd max_double" using assms by (rule rnd_mono)
  finally show ?thesis using max_double_bounds(2)
    by (simp add: is_finite_mk_double rnd_max_double)
qed











section \<open>Classification of line 0 (claim C4)\<close>

text \<open>
  Claim C4. Line 0 is classified by the first of the phrases "Buy Limit", "Sell Limit",
  "Buy Stop", "Sell Stop", "Buy", "Sell", in this order, that occurs in it as a substring
  when case is ignored. A line 0 that contains "Buy Limit" is classified as Buy Limit, never
  as Buy, and so is every trade parsed from such a text; a text whose line 0 contains none of
  the six phrases is rejected with the empty dictionary, and a text with no line at all by
  an \<^verbatim>\<open>IndexError\<close>.
\<close>

theorem line0_classification:
  "classify line0 = first_match line0
   \<and> (py_in (py_lower ''Buy Limit'') (py_lower line0)
        \<longrightarrow> classify line0 = Some BuyLimit \<and> classify line0 \<noteq> Some Buy)
   \<and> (map py_rstrip (py_splitlines msg) = line0 # rest \<longrightarrow>
        (\<forall>t. ParseSignal cfg msg = Inr (Some t) \<longrightarrow> first_match line0 = Some (OrderType t))
        \<and> (py_in (py_lower ''Buy Limit'') (py_lower line0) \<longrightarrow>
             (\<forall>t. ParseSignal cfg msg = Inr (Some t) \<longrightarrow> OrderType t = BuyLimit))
        \<and> (first_match line0 = None \<longrightarrow> ParseSignal cfg msg = Inr None))
   \<and> (py_splitlines msg = [] \<longrightarrow> ParseSignal cfg msg = Inl IndexError)"
proof (intro conjI impI allI)
  show "classify line0 = first_match line0" by (rule classify_first_match)
next
  assume "py_in (py_lower ''Buy Limit'') (py_lower line0)"
  then show "classify line0 = Some BuyLimit" by (simp add: classify_def)
  then show "classify line0 \<noteq> Some Buy" by simp
next
  fix t
  assume "map py_rstrip (py_splitlines msg) = line0 # rest"
    and "ParseSignal cfg msg = Inr (Some t)"
  then show "first_match line0 = Some (OrderType t)"
    using ParseSignal_order_type [of msg line0 rest cfg t] by (simp add: classify_first_match)
next
  fix t
  assume "map py_rstrip (py_splitlines msg) = line0 # rest"
    and "py_in (py_lower ''Buy Limit'') (py_lower line0)"
    and "ParseSignal cfg msg = Inr (Some t)"
  then show "OrderType t = BuyLimit"
    using ParseSignal_order_type [of msg line0 rest cfg t] by (simp add: classify_def)
next
  assume "map py_rstrip (py_splitlines msg) = line0 # rest" and "first_match line0 = None"
  then show "ParseSignal cfg msg = Inr None"
    by (simp add: ParseSignal_line0 classify_first_match)
next
  assume "py_splitlines msg = []"
  then show "ParseSignal cfg msg = Inl IndexError" by (rule ParseSignal_no_line)
qed

theorem line0_classification_witness:
  "py_in (py_lower ''Buy Limit'') (py_lower ''BUY LIMIT GBPUSD'')
   \<and> map py_rstrip (py_splitlines limit_signal)
       = ''BUY LIMIT GBPUSD'' # [''Entry 1.14480'', ''SL 1.14336'', ''TP 1.28930'']
   \<and> ParseSignal example_config limit_signal = Inr (Some limit_trade)
   \<and> classify ''BUY LIMIT GBPUSD'' = Some BuyLimit
   \<and> classify ''BUY LIMIT GBPUSD'' \<noteq> Some Buy
   \<and> first_match ''BUY LIMIT GBPUSD'' = Some (OrderType limit_trade)
   \<and> first_match ''HOLD GBPUSD'' = None
   \<and> map py_rstrip (py_splitlines ''HOLD GBPUSD'') = ''HOLD GBPUSD'' # []
   \<and> ParseSignal example_config ''HOLD GBPUSD'' = Inr None
   \<and> py_splitlines [] = []
   \<and> ParseSignal example_config [] = Inl IndexError"
proof -
  have a: "py_in (py_lower ''Buy Limit'') (py_lower ''BUY LIMIT GBPUSD'')"
    by code_simp
  have b: "map py_rstrip (py_splitlines limit_signal)
           = ''BUY LIMIT GBPUSD'' # [''Entry 1.14480'', ''SL 1.14336'', ''TP 1.28930'']"
    by code_simp
  have c: "ParseSignal example_config limit_signal = Inr (Some limit_trade)"
    by code_simp
  have d: "first_match ''HOLD GBPUSD'' = None"
    by code_simp
  have e: "map py_rstrip (py_splitlines ''HOLD GBPUSD'') = ''HOLD GBPUSD'' # []"
    by code_simp
  have f: "py_splitlines [] = []"
    by code_simp
  note limit =
    line0_classification [of "''BUY LIMIT GBPUSD''" limit_signal
      "[''Entry 1.14480'', ''SL 1.14336'', ''TP 1.28930'']" example_config]
  note hold = line0_classification [of "''HOLD GBPUSD''" "''HOLD GBPUSD''" "[]" example_config]
  note empty = line0_classification [of "[]" "[]" "[]" example_config]
  have 1: "classify ''BUY LIMIT GBPUSD'' = Some BuyLimit"
    and 2: "classify ''BUY LIMIT GBPUSD'' \<noteq> Some Buy"
    using limit a by blast+
  have 3: "first_match ''BUY LIMIT GBPUSD'' = Some (OrderType limit_trade)"
    using limit b c by blast
  have 4: "ParseSignal example_config ''HOLD GBPUSD'' = Inr None"
    using hold d e by blast
  have 5: "ParseSignal example_config [] = Inl IndexError"
    using empty f by blast
  show ?thesis
    using a b c d e f 1 2 3 4 5 by blast
qed

section \<open>Malformed signals (claim C8)\<close>

text \<open>
  The handlers reject a text when \<^verbatim>\<open>ParseSignal\<close> raises on it or returns the empty
  dictionary. A text of fewer than four lines is rejected, and so is one whose symbol is
  not in the list or whose stop-loss token does not convert.
\<close>

lemma fewer_than_four_lines_malformed:
  assumes "length (py_splitlines msg) < 4"
  shows "\<exists>e. parse_for_handler cfg msg = Inl e"
proof (cases "parse_for_handler cfg msg")
  case (Inl e)
  then show ?thesis by blast
next
  case (Inr t)
  then have "ParseSignal cfg msg = Inr (Some t)" by (simp add: parse_for_handler_Inr_iff)
  from ParseSignal_needs_four_lines [OF this] assms show ?thesis by simp
qed

lemma unknown_symbol_malformed:
  assumes "map py_rstrip (py_splitlines msg) = line0 # rest"
    and "last_token line0 = Inr tok0" and "py_upper tok0 \<notin> set SYMBOLS"
  shows "ParseSignal cfg msg = Inr None"
  using assms(2,3) by (cases "classify line0") (simp_all add: ParseSignal_line0 [OF assms(1)])

lemma unparseable_stop_loss_malformed:
  assumes "map py_rstrip (py_splitlines msg) = line0 # rest"
    and "float_of_line (line0 # rest) 2 = Inl e"
  shows "\<exists>e'. parse_for_handler cfg msg = Inl e'"
proof (cases "parse_for_handler cfg msg")
  case (Inl e')
  then show ?thesis by blast
next
  case (Inr t)
  then have "ParseSignal cfg msg = Inr (Some t)" by (simp add: parse_for_handler_Inr_iff)
  with assms show ?thesis by (auto simp: ParseSignal_Some_iff [OF assms(1)])
qed

text \<open>
  \<^verbatim>\<open>ParseSignal\<close> returns a filled dictionary exactly for the texts of \<open>parser_accepts\<close>.
\<close>

lemma float_of_line_converts:
  "i < length signal \<Longrightarrow>
     (\<exists>d. float_of_line signal i = Inr d) \<longleftrightarrow> token_ok converts (signal ! i)"
  by (auto simp: float_of_line_def py_nth_def token_ok_def converts_def and_then_Inr_iff
        split: sum.splits)

lemma parse_take_profits_converts:
  assumes "4 \<le> length signal"
  shows "(\<exists>tps. parse_take_profits signal = Inr tps) \<longleftrightarrow>
           token_ok converts (signal ! 3)
           \<and> (4 < length signal \<longrightarrow> token_ok converts (signal ! 4))"
proof -
  from assms have 3: "3 < length signal" by simp
  show ?thesis
  proof (cases "4 < length signal")
    case True
    from float_of_line_converts [OF 3] float_of_line_converts [OF True] True
    show ?thesis
      by (auto simp: parse_take_profits_def and_then_Inr_iff)
  next
    case False
    from float_of_line_converts [OF 3] False
    show ?thesis
      by (auto simp: parse_take_profits_def and_then_Inr_iff)
  qed
qed

lemma parse_entry_converts:
  assumes "4 \<le> length signal"
  shows "(\<exists>en. parse_entry ot signal = Inr en) \<longleftrightarrow>
           token_ok (\<lambda>tok. ot = Buy \<or> ot = Sell \<or> converts tok) (signal ! 1)"
proof -
  from assms have 1: "1 < length signal" by simp
  show ?thesis
  proof (cases "ot = Buy \<or> ot = Sell")
    case True
    with 1 show ?thesis
      by (auto simp: parse_entry_def py_nth_def and_then_Inr_iff token_ok_def
            split: sum.splits)
  next
    case False
    with float_of_line_converts [OF 1] show ?thesis
      by (auto simp: parse_entry_def and_then_Inr_iff token_ok_def)
  qed
qed

lemma parser_accepts_iff:
  "parser_accepts msg \<longleftrightarrow> (\<exists>t. ParseSignal cfg msg = Inr (Some t))"
proof (cases "4 \<le> length (map py_rstrip (py_splitlines msg))")
  case False
  then have "\<not> parser_accepts msg" by (simp add: parser_accepts_def Let_def)
  moreover from False have "\<not> (\<exists>t. ParseSignal cfg msg = Inr (Some t))"
    using ParseSignal_needs_four_lines [of cfg msg] by auto
  ultimately show ?thesis by simp
next
  case True
  define signal where "signal = map py_rstrip (py_splitlines msg)"
  from True have len: "4 \<le> length signal" by (simp add: signal_def)
  then obtain line0 rest where s: "signal = line0 # rest" by (cases signal) auto
  then have m: "map py_rstrip (py_splitlines msg) = line0 # rest" by (simp add: signal_def)
  have l0: "signal ! 0 = line0" by (simp add: s)
  have 2: "2 < length signal" using len by simp
  note e = parse_entry_converts [OF len]
  note sl = float_of_line_converts [OF 2]
  note tp = parse_take_profits_converts [OF len]
  show ?thesis
  proof (cases "classify line0")
    case None
    then show ?thesis
      by (simp add: parser_accepts_def Let_def signal_def [symmetric] l0
            ParseSignal_Some_iff [OF m])
  next
    case (Some ot)
    have "parser_accepts msg \<longleftrightarrow>
            token_ok (\<lambda>tok. py_upper tok \<in> set SYMBOLS) line0
            \<and> (\<exists>en. parse_entry ot signal = Inr en)
            \<and> (\<exists>d. float_of_line signal 2 = Inr d)
            \<and> (\<exists>tps. parse_take_profits signal = Inr tps)"
      using len
      by (simp add: parser_accepts_def Let_def signal_def [symmetric] l0 Some e sl tp)
    also have "\<dots> \<longleftrightarrow> (\<exists>t. ParseSignal cfg msg = Inr (Some t))"
      unfolding ParseSignal_Some_iff [OF m] s [symmetric]
      by (auto simp: Some token_ok_def split: sum.splits)
    finally show ?thesis .
  qed
qed

text \<open>
  The two example texts, evaluated: the parser reads the lines by position, so the first
  take profit of the text without a stop-loss line becomes the stop loss.
\<close>

lemma shifted_signal_parsed: "ParseSignal example_config shifted_signal = Inr (Some shifted_trade)"
  by code_simp

lemma shifted_trade_fields:
  "OrderType shifted_trade = BuyLimit"
  "Symbol shifted_trade = ''GBPUSD''"
  "Entry shifted_trade = EntryFloat example_bid"
  "StopLoss shifted_trade = example_tp1"
  "TP shifted_trade = [example_tp2]"
  "RiskFactor shifted_trade = example_rf"
  "PositionSize shifted_trade = None"
  by (simp_all add: shifted_trade_def)

lemma shifted_trade_sized_fields:
  "OrderType shifted_trade_sized = BuyLimit"
  "Symbol shifted_trade_sized = ''GBPUSD''"
  "Entry shifted_trade_sized = EntryFloat example_bid"
  "StopLoss shifted_trade_sized = example_tp1"
  "TP shifted_trade_sized = [example_tp2]"
  "RiskFactor shifted_trade_sized = example_rf"
  "PositionSize shifted_trade_sized = Some example_min_size"
  by (simp_all add: shifted_trade_sized_def shifted_trade_fields)

lemma shifted_multiplier: "resolve_multiplier shifted_trade = Inr (float_literal (1 / 10000))"
  by (simp add: resolve_multiplier_def shifted_trade_fields py_str_def bid_repr_index)

lemma shifted_position_size: "position_size (Fin 10000) example_rf 1445 = Inr example_min_size"
  by code_simp

lemma shifted_risk:
  "GetTradeInformation shifted_trade (Fin 10000) = (shifted_trade_sized, Inr shifted_report)"
  by (simp add: GetTradeInformation_def shifted_multiplier shifted_trade_fields
        shifted_trade_sized_fields shifted_trade_sized_def [symmetric] shifted_report_def
        market_tp1_pips market_tp2_pips shifted_position_size)

lemma shifted_leg_volume: "leg_volume shifted_trade_sized = Inr example_min_size"
  by code_simp

lemma shifted_enter:
  "enter_trade example_gateway shifted_trade_sized
   = [Reply EnteringTrade,
      OrderCall \<lparr>ord_call = create_limit_buy_order, ord_symbol = ''GBPUSD'',
                 ord_volume = example_min_size, ord_open_price = Some (EntryFloat example_bid),
                 ord_stop_loss = example_tp1, ord_take_profit = example_tp2\<rparr>,
      Reply TradeEntered]"
  by (simp add: enter_trade_def shifted_trade_sized_fields
        make_request_volume [OF shifted_leg_volume] example_gateway_def request_of_def
        order_call_of_def)

lemma shifted_run:
  "ConnectMetaTrader example_config example_gateway shifted_trade enterTrade
   = (shifted_trade_sized,
      [AccountInformationCall, Reply ConnectedReply,
       Reply (RiskTable shifted_trade_sized shifted_report)]
      @ (if enterTrade then enter_trade example_gateway shifted_trade_sized else []))"
proof -
  have r: "resolve_entry example_gateway shifted_trade = (shifted_trade, [], None)"
    by (simp add: resolve_entry_def shifted_trade_fields)
  have c: "connect_failure example_gateway = None"
    "get_account_information example_gateway = Inr (4835673, Fin 10000)"
    "ALLOWED_MT4_ACCOUNT_NUMBER example_config = Inr 4835673"
    by (simp_all add: example_gateway_def example_config_def)
  show ?thesis
    by (simp add: ConnectMetaTrader_def c r shifted_risk)
qed

lemma word_entry_parsed: "ParseSignal example_config word_entry_signal = Inr (Some word_entry_trade)"
  by code_simp

lemma word_entry_fields:
  "Symbol word_entry_trade = ''GBPUSD''"
  "Entry word_entry_trade = EntryStr ''abc''"
  by (simp_all add: word_entry_trade_def)

lemma word_entry_multiplier: "resolve_multiplier word_entry_trade = Inl ValueError"
  by (simp add: resolve_multiplier_def word_entry_fields py_str_def)

lemma word_entry_run:
  "ConnectMetaTrader example_config example_gateway word_entry_trade enterTrade
   = (word_entry_trade,
      [AccountInformationCall, Reply ConnectedReply, Reply (ConnectionIssue ValueError)])"
proof -
  have r: "resolve_entry example_gateway word_entry_trade = (word_entry_trade, [], None)"
    by (simp add: resolve_entry_def word_entry_fields)
  have c: "connect_failure example_gateway = None"
    "get_account_information example_gateway = Inr (4835673, Fin 10000)"
    "ALLOWED_MT4_ACCOUNT_NUMBER example_config = Inr 4835673"
    by (simp_all add: example_gateway_def example_config_def)
  have g: "GetTradeInformation word_entry_trade (Fin 10000) = (word_entry_trade, Inl ValueError)"
    using GetTradeInformation_str_entry [OF word_entry_fields(2), of "Fin 10000"]
    by (simp add: word_entry_multiplier)
  show ?thesis
    by (simp add: ConnectMetaTrader_def c r g)
qed

text \<open>
  Claim C8 says that every malformed text is answered with the usage error and leaves the
  session where it was. Two malformed texts of the kinds the claim lists are accepted. The
  limit signal whose stop-loss line is missing and which has two take-profit lines is
  parsed with the first take profit as stop loss: \<^verbatim>\<open>PlaceTrade\<close> sends a limit order with
  the stop loss \<^verbatim>\<open>1.2893\<close> and ends the conversation, and \<^verbatim>\<open>CalculateTrade\<close> stores the
  dictionary and asks for the decision. The market signal whose entry is the word
  \<^verbatim>\<open>abc\<close> is parsed as well: the handlers reply that the trade was parsed, the risk
  calculation raises, and the conversation moves on.
\<close>

theorem missing_stop_loss_line_accepted:
  "py_splitlines shifted_signal
     = [''BUY LIMIT GBPUSD'', ''Entry 1.14480'', ''TP 1.28930'', ''TP 1.29845'']
   \<and> ParseSignal example_config shifted_signal = Inr (Some shifted_trade)
   \<and> StopLoss shifted_trade = example_tp1
   \<and> TP shifted_trade = [example_tp2]
   \<and> PlaceTrade example_config example_gateway shifted_signal \<lparr>pending = None\<rparr>
       = (\<lparr>pending = None\<rparr>, ConversationEnd,
          [Reply TradeParsed, AccountInformationCall, Reply ConnectedReply,
           Reply (RiskTable shifted_trade_sized shifted_report), Reply EnteringTrade,
           OrderCall \<lparr>ord_call = create_limit_buy_order, ord_symbol = ''GBPUSD'',
                      ord_volume = example_min_size,
                      ord_open_price = Some (EntryFloat example_bid),
                      ord_stop_loss = example_tp1, ord_take_profit = example_tp2\<rparr>,
           Reply TradeEntered])
   \<and> CalculateTrade example_config example_gateway shifted_signal \<lparr>pending = None\<rparr>
       = (\<lparr>pending = Some shifted_trade_sized\<rparr>, DECISION,
          [Reply TradeParsed, AccountInformationCall, Reply ConnectedReply,
           Reply (RiskTable shifted_trade_sized shifted_report), Reply DecisionPrompt])
   \<and> ParseSignal example_config word_entry_signal = Inr (Some word_entry_trade)
   \<and> Entry word_entry_trade = EntryStr ''abc''
   \<and> PlaceTrade example_config example_gateway word_entry_signal \<lparr>pending = None\<rparr>
       = (\<lparr>pending = None\<rparr>, ConversationEnd,
          [Reply TradeParsed, AccountInformationCall, Reply ConnectedReply,
           Reply (ConnectionIssue ValueError)])
   \<and> CalculateTrade example_config example_gateway word_entry_signal \<lparr>pending = None\<rparr>
       = (\<lparr>pending = Some word_entry_trade\<rparr>, DECISION,
          [Reply TradeParsed, AccountInformationCall, Reply ConnectedReply,
           Reply (ConnectionIssue ValueError), Reply DecisionPrompt])"
proof -
  have 0: "py_splitlines shifted_signal
     = [''BUY LIMIT GBPUSD'', ''Entry 1.14480'', ''TP 1.28930'', ''TP 1.29845'']"
    by code_simp
  have p: "parse_for_handler example_config shifted_signal = Inr shifted_trade"
    by (simp add: parse_for_handler_def shifted_signal_parsed)
  have q: "parse_for_handler example_config word_entry_signal = Inr word_entry_trade"
    by (simp add: parse_for_handler_def word_entry_parsed)
  have 1: "PlaceTrade example_config example_gateway shifted_signal \<lparr>pending = None\<rparr>
       = (\<lparr>pending = None\<rparr>, ConversationEnd,
          [Reply TradeParsed, AccountInformationCall, Reply ConnectedReply,
           Reply (RiskTable shifted_trade_sized shifted_report), Reply EnteringTrade,
           OrderCall \<lparr>ord_call = create_limit_buy_order, ord_symbol = ''GBPUSD'',
                      ord_volume = example_min_size,
                      ord_open_price = Some (EntryFloat example_bid),
                      ord_stop_loss = example_tp1, ord_take_profit = example_tp2\<rparr>,
           Reply TradeEntered])"
    by (simp add: PlaceTrade_def p shifted_run shifted_enter)
  have 2: "CalculateTrade example_config example_gateway shifted_signal \<lparr>pending = None\<rparr>
       = (\<lparr>pending = Some shifted_trade_sized\<rparr>, DECISION,
          [Reply TradeParsed, AccountInformationCall, Reply ConnectedReply,
           Reply (RiskTable shifted_trade_sized shifted_report), Reply DecisionPrompt])"
    by (simp add: CalculateTrade_def p shifted_run)
  have 3: "PlaceTrade example_config example_gateway word_entry_signal \<lparr>pending = None\<rparr>
       = (\<lparr>pending = None\<rparr>, ConversationEnd,
          [Reply TradeParsed, AccountInformationCall, Reply ConnectedReply,
           Reply (ConnectionIssue ValueError)])"
    by (simp add: PlaceTrade_def q word_entry_run)
  have 4: "CalculateTrade example_config example_gateway word_entry_signal \<lparr>pending = None\<rparr>
       = (\<lparr>pending = Some word_entry_trade\<rparr>, DECISION,
          [Reply TradeParsed, AccountInformationCall, Reply ConnectedReply,
           Reply (ConnectionIssue ValueError), Reply DecisionPrompt])"
    by (simp add: CalculateTrade_def q word_entry_run)
  show ?thesis
    using 0 shifted_signal_parsed shifted_trade_fields(4,5) 1 2 word_entry_parsed
      word_entry_fields(2) 3 4
    by (intro conjI)
qed

text \<open>
  Claim C8 as amended. While the session awaits the signal (the pending slot is empty),
  a text is rejected exactly when it is not one of \<open>parser_accepts\<close>, that is when
  \<^verbatim>\<open>ParseSignal\<close> raises or returns the empty dictionary. On a rejected text each handler
  answers with the usage error that names the exception and nothing else, returns its own
  state again (\<open>TRADE\<close> for \<^verbatim>\<open>PlaceTrade\<close>, \<open>CALCULATE\<close> for \<^verbatim>\<open>CalculateTrade\<close>) and leaves the
  session as it was, the pending slot empty; the handler returns normally, so no exception
  leaves it. On every other text, malformed or not, the handlers go on to the gateway with
  the parsed dictionary: \<^verbatim>\<open>PlaceTrade\<close> ends the conversation, \<^verbatim>\<open>CalculateTrade\<close> stores the
  dictionary in the pending slot and moves to the decision.
\<close>

theorem reprompt_exactly_when_parser_rejects:
  assumes "pending s = None"
  shows "(parser_accepts msg \<longleftrightarrow> (\<exists>t. ParseSignal cfg msg = Inr (Some t)))
       \<and> (\<not> parser_accepts msg \<longrightarrow>
            (\<exists>e. (ParseSignal cfg msg = Inl e \<or> ParseSignal cfg msg = Inr None \<and> e = InvalidTrade)
                \<and> PlaceTrade cfg gw msg s = (s, TRADE, [Reply (ParseErrorReply e)])
                \<and> CalculateTrade cfg gw msg s = (s, CALCULATE, [Reply (ParseErrorReply e)])))
       \<and> (\<forall>t. ParseSignal cfg msg = Inr (Some t) \<longrightarrow>
            PlaceTrade cfg gw msg s
            = (s\<lparr>pending := None\<rparr>, ConversationEnd,
               Reply TradeParsed # snd (ConnectMetaTrader cfg gw t True))
            \<and> CalculateTrade cfg gw msg s
              = (s\<lparr>pending := Some (fst (ConnectMetaTrader cfg gw t False))\<rparr>, DECISION,
                 Reply TradeParsed # snd (ConnectMetaTrader cfg gw t False)
                 @ [Reply DecisionPrompt]))"
proof (intro conjI impI allI)
  show "parser_accepts msg \<longleftrightarrow> (\<exists>t. ParseSignal cfg msg = Inr (Some t))"
    by (rule parser_accepts_iff)
next
  assume "\<not> parser_accepts msg"
  then have "\<not> (\<exists>t. parse_for_handler cfg msg = Inr t)"
    by (simp add: parser_accepts_iff [of msg cfg] parse_for_handler_Inr_iff)
  then obtain e where e: "parse_for_handler cfg msg = Inl e"
    by (cases "parse_for_handler cfg msg") auto
  then have "ParseSignal cfg msg = Inl e \<or> ParseSignal cfg msg = Inr None \<and> e = InvalidTrade"
    by (simp add: parse_for_handler_Inl_iff)
  moreover from e assms have "PlaceTrade cfg gw msg s = (s, TRADE, [Reply (ParseErrorReply e)])"
    and "CalculateTrade cfg gw msg s = (s, CALCULATE, [Reply (ParseErrorReply e)])"
    by (simp_all add: PlaceTrade_def CalculateTrade_def)
  ultimately show "\<exists>e. (ParseSignal cfg msg = Inl e
                         \<or> ParseSignal cfg msg = Inr None \<and> e = InvalidTrade)
                \<and> PlaceTrade cfg gw msg s = (s, TRADE, [Reply (ParseErrorReply e)])
                \<and> CalculateTrade cfg gw msg s = (s, CALCULATE, [Reply (ParseErrorReply e)])"
    by blast
next
  fix t assume "ParseSignal cfg msg = Inr (Some t)"
  then have p: "parse_for_handler cfg msg = Inr t" by (simp add: parse_for_handler_Inr_iff)
  with assms show "PlaceTrade cfg gw msg s
            = (s\<lparr>pending := None\<rparr>, ConversationEnd,
               Reply TradeParsed # snd (ConnectMetaTrader cfg gw t True))"
    by (simp add: PlaceTrade_def split_beta)
  from p assms show "CalculateTrade cfg gw msg s
              = (s\<lparr>pending := Some (fst (ConnectMetaTrader cfg gw t False))\<rparr>, DECISION,
                 Reply TradeParsed # snd (ConnectMetaTrader cfg gw t False)
                 @ [Reply DecisionPrompt])"
    by (simp add: CalculateTrade_def split_beta)
qed

text \<open>
  The theorem at a text of three lines, which is rejected with \<^verbatim>\<open>IndexError\<close>, and at the
  text without a stop-loss line and with two take-profit lines, which is accepted.
\<close>

theorem reprompt_exactly_when_parser_rejects_witness:
  "pending \<lparr>pending = None\<rparr> = None
   \<and> \<not> parser_accepts missing_stop_loss_signal
   \<and> ParseSignal example_config missing_stop_loss_signal = Inl IndexError
   \<and> PlaceTrade example_config example_gateway missing_stop_loss_signal \<lparr>pending = None\<rparr>
       = (\<lparr>pending = None\<rparr>, TRADE, [Reply (ParseErrorReply IndexError)])
   \<and> CalculateTrade example_config example_gateway missing_stop_loss_signal \<lparr>pending = None\<rparr>
       = (\<lparr>pending = None\<rparr>, CALCULATE, [Reply (ParseErrorReply IndexError)])
   \<and> parser_accepts shifted_signal
   \<and> ParseSignal example_config shifted_signal = Inr (Some shifted_trade)
   \<and> PlaceTrade example_config example_gateway shifted_signal \<lparr>pending = None\<rparr>
       = (\<lparr>pending = None\<rparr>, ConversationEnd,
          Reply TradeParsed
          # snd (ConnectMetaTrader example_config example_gateway shifted_trade True))"
proof -
  have a: "pending \<lparr>pending = None\<rparr> = None" by simp
  have b: "ParseSignal example_config missing_stop_loss_signal = Inl IndexError"
    by code_simp
  note rej = reprompt_exactly_when_parser_rejects
    [OF a, of missing_stop_loss_signal example_config example_gateway]
  note acc = reprompt_exactly_when_parser_rejects
    [OF a, of shifted_signal example_config example_gateway]
  from rej b have c: "\<not> parser_accepts missing_stop_loss_signal" by simp
  with rej obtain e where
    "ParseSignal example_config missing_stop_loss_signal = Inl e
     \<or> ParseSignal example_config missing_stop_loss_signal = Inr None \<and> e = InvalidTrade"
    and h: "PlaceTrade example_config example_gateway missing_stop_loss_signal
              \<lparr>pending = None\<rparr>
            = (\<lparr>pending = None\<rparr>, TRADE, [Reply (ParseErrorReply e)])"
       "CalculateTrade example_config example_gateway missing_stop_loss_signal
              \<lparr>pending = None\<rparr>
            = (\<lparr>pending = None\<rparr>, CALCULATE, [Reply (ParseErrorReply e)])"
    by blast
  with b have e: "e = IndexError" by simp
  from acc shifted_signal_parsed have d: "parser_accepts shifted_signal" by blast
  from acc shifted_signal_parsed
  have f: "PlaceTrade example_config example_gateway shifted_signal \<lparr>pending = None\<rparr>
       = (\<lparr>pending = None\<rparr>, ConversationEnd,
          Reply TradeParsed
          # snd (ConnectMetaTrader example_config example_gateway shifted_trade True))"
    by simp
  show ?thesis
    using a c b h [unfolded e] d shifted_signal_parsed f by (intro conjI)
qed

section \<open>A market entry other than \<^verbatim>\<open>NOW\<close> (claim C10)\<close>

text \<open>
  Claim C10. For a signal classified Buy or Sell whose entry token is any string other than
  \<^verbatim>\<open>NOW\<close>, the parsed dictionary holds that token as a string; the price lookup is
  skipped; \<^verbatim>\<open>GetTradeInformation\<close> raises \<^verbatim>\<open>TypeError\<close> or \<^verbatim>\<open>ValueError\<close> and leaves the
  dictionary unchanged; and a run of \<^verbatim>\<open>ConnectMetaTrader\<close> asks for no price, sends no risk
  table and places no order.
\<close>

theorem market_entry_other_than_now:
  assumes "map py_rstrip (py_splitlines msg) = line0 # line1 # rest"
    and "classify line0 = Some Buy \<or> classify line0 = Some Sell"
    and "last_token line1 = Inr tok"
    and "tok \<noteq> ''NOW''"
    and "ParseSignal cfg msg = Inr (Some t)"
  shows "Entry t = EntryStr tok
       \<and> resolve_entry gw t = (t, [], None)
       \<and> (\<exists>e. GetTradeInformation t balance = (t, Inl e) \<and> (e = TypeError \<or> e = ValueError))
       \<and> price_calls (snd (ConnectMetaTrader cfg gw t enterTrade)) = []
       \<and> risk_tables (snd (ConnectMetaTrader cfg gw t enterTrade)) = []
       \<and> order_calls (snd (ConnectMetaTrader cfg gw t enterTrade)) = []"
proof -
  from assms(5) obtain ot en where ot: "classify line0 = Some ot"
    and en: "parse_entry ot (line0 # line1 # rest) = Inr en" and t: "Entry t = en"
    unfolding ParseSignal_Some_iff [OF assms(1)] by auto
  from ot assms(2) have "ot = Buy \<or> ot = Sell" by auto
  from en parse_entry_market [OF this] assms(3) have "en = EntryStr tok" by simp
  with t have e: "Entry t = EntryStr tok" by simp
  have "\<exists>e. GetTradeInformation t balance = (t, Inl e) \<and> (e = TypeError \<or> e = ValueError)"
    using GetTradeInformation_str_entry [OF e, of balance] resolve_multiplier_error [of t]
    by (cases "resolve_multiplier t") auto
  with e assms(4) show ?thesis
    using ConnectMetaTrader_str_entry [OF e assms(4)] by (simp add: resolve_entry_not_now)
qed


theorem market_entry_other_than_now_witness:
  "map py_rstrip (py_splitlines numeric_market_signal)
     = ''BUY GBPUSD'' # ''Entry 1.2345'' # [''SL 1.14336'', ''TP 1.28930'']
   \<and> classify ''BUY GBPUSD'' = Some Buy
   \<and> last_token ''Entry 1.2345'' = Inr ''1.2345''
   \<and> ''1.2345'' \<noteq> ''NOW''
   \<and> ParseSignal example_config numeric_market_signal = Inr (Some numeric_market_trade)
   \<and> Entry numeric_market_trade = EntryStr ''1.2345''
   \<and> GetTradeInformation numeric_market_trade (Fin 10000) = (numeric_market_trade, Inl TypeError)
   \<and> risk_tables (snd (ConnectMetaTrader example_config example_gateway numeric_market_trade True)) = []
   \<and> order_calls (snd (ConnectMetaTrader example_config example_gateway numeric_market_trade True)) = []"
proof -
  have a: "map py_rstrip (py_splitlines numeric_market_signal)
     = ''BUY GBPUSD'' # ''Entry 1.2345'' # [''SL 1.14336'', ''TP 1.28930'']"
    by code_simp
  have b: "classify ''BUY GBPUSD'' = Some Buy" by code_simp
  then have b': "classify ''BUY GBPUSD'' = Some Buy \<or> classify ''BUY GBPUSD'' = Some Sell" by simp
  have c: "last_token ''Entry 1.2345'' = Inr ''1.2345''" by code_simp
  have d: "''1.2345'' \<noteq> ''NOW''" by simp
  have e: "ParseSignal example_config numeric_market_signal = Inr (Some numeric_market_trade)"
    by code_simp
  have f: "GetTradeInformation numeric_market_trade (Fin 10000) = (numeric_market_trade, Inl TypeError)"
    by code_simp
  note inst = market_entry_other_than_now [OF a b' c d e, of example_gateway "Fin 10000" True]
  show ?thesis
    using a b c d e f inst by blast
qed

section \<open>The entry of a limit or stop order (claim C7)\<close>

text \<open>
  Claim C7 says that the entry token of a limit or stop signal must parse as a positive
  decimal. The parser only converts the token with \<^verbatim>\<open>float\<close> and never looks at its sign:
  the signal below, with the entry \<^verbatim>\<open>-1.5\<close>, is accepted.
\<close>

theorem negative_entry_accepted:
  "ParseSignal example_config negative_entry_signal = Inr (Some negative_entry_trade)
   \<and> OrderType negative_entry_trade = BuyLimit
   \<and> Entry negative_entry_trade = EntryFloat (Fin (- 3 / 2))
   \<and> dval (Fin (- 3 / 2)) < 0"
  by code_simp

text \<open>
  Claim C7 as amended. For a signal classified Buy Limit, Sell Limit, Buy Stop or Sell Stop
  with an allowed symbol, the entry token (the last token of line 1) must be accepted by
  \<^verbatim>\<open>float\<close>, whatever its sign or size: when \<^verbatim>\<open>float\<close> raises, \<^verbatim>\<open>ParseSignal\<close> raises
  \<^verbatim>\<open>ValueError\<close> and the handlers reject the text; a dictionary that is returned holds the
  converted number as its entry; and when the token converts and the stop-loss and
  take-profit lines convert too, the signal is accepted.
\<close>

theorem pending_order_entry_must_convert:
  assumes "map py_rstrip (py_splitlines msg) = line0 # line1 # rest"
    and "classify line0 = Some ot" and "ot \<noteq> Buy" and "ot \<noteq> Sell"
    and "last_token line0 = Inr tok0" and "py_upper tok0 \<in> set SYMBOLS"
    and "last_token line1 = Inr tok"
  shows "(\<forall>e. py_float tok = Inl e \<longrightarrow>
            e = ValueError \<and> ParseSignal cfg msg = Inl ValueError
            \<and> parse_for_handler cfg msg = Inl ValueError)
       \<and> (\<forall>t. ParseSignal cfg msg = Inr (Some t) \<longrightarrow>
            (\<exists>d. py_float tok = Inr d \<and> Entry t = EntryFloat d))
       \<and> (\<forall>d sl tps.
            py_float tok = Inr d \<and> float_of_line (line0 # line1 # rest) 2 = Inr sl
            \<and> parse_take_profits (line0 # line1 # rest) = Inr tps \<longrightarrow>
            ParseSignal cfg msg
              = Inr (Some \<lparr>OrderType = ot, Symbol = py_upper tok0, Entry = EntryFloat d,
                           StopLoss = sl, TP = tps, RiskFactor = RISK_FACTOR cfg,
                           PositionSize = None\<rparr>))"
proof -
  note pe = parse_entry_pending [OF assms(3,4), of line0 line1 rest]
  note ps = ParseSignal_line0 [OF assms(1), of cfg]
  show ?thesis
  proof (intro conjI allI impI)
    fix e assume f: "py_float tok = Inl e"
    then show "e = ValueError" by (rule py_float_error)
    with f have "parse_entry ot (line0 # line1 # rest) = Inl ValueError"
      by (simp add: pe assms(7))
    then show p: "ParseSignal cfg msg = Inl ValueError"
      by (simp add: ps assms(2,5,6))
    then show "parse_for_handler cfg msg = Inl ValueError"
      by (simp add: parse_for_handler_def)
  next
    fix t assume "ParseSignal cfg msg = Inr (Some t)"
    then show "\<exists>d. py_float tok = Inr d \<and> Entry t = EntryFloat d"
      unfolding ParseSignal_Some_iff [OF assms(1)]
      by (auto simp: pe assms(2,7) and_then_Inr_iff)
  next
    fix d sl tps
    assume "py_float tok = Inr d \<and> float_of_line (line0 # line1 # rest) 2 = Inr sl
            \<and> parse_take_profits (line0 # line1 # rest) = Inr tps"
    then show "ParseSignal cfg msg
              = Inr (Some \<lparr>OrderType = ot, Symbol = py_upper tok0, Entry = EntryFloat d,
                           StopLoss = sl, TP = tps, RiskFactor = RISK_FACTOR cfg,
                           PositionSize = None\<rparr>)"
      by (simp add: ps pe assms(2,5,6,7))
  qed
qed


theorem pending_order_entry_must_convert_witness:
  "map py_rstrip (py_splitlines non_numeric_entry_signal)
     = ''BUY LIMIT GBPUSD'' # ''Entry market'' # [''SL 1.14336'', ''TP 1.28930'']
   \<and> classify ''BUY LIMIT GBPUSD'' = Some BuyLimit
   \<and> last_token ''BUY LIMIT GBPUSD'' = Inr ''GBPUSD''
   \<and> py_upper ''GBPUSD'' \<in> set SYMBOLS
   \<and> last_token ''Entry market'' = Inr ''market''
   \<and> py_float ''market'' = Inl ValueError
   \<and> ParseSignal example_config non_numeric_entry_signal = Inl ValueError
   \<and> parse_for_handler example_config non_numeric_entry_signal = Inl ValueError
   \<and> map py_rstrip (py_splitlines limit_signal)
     = ''BUY LIMIT GBPUSD'' # ''Entry 1.14480'' # [''SL 1.14336'', ''TP 1.28930'']
   \<and> last_token ''Entry 1.14480'' = Inr ''1.14480''
   \<and> ParseSignal example_config limit_signal = Inr (Some limit_trade)
   \<and> (\<exists>d. py_float ''1.14480'' = Inr d \<and> Entry limit_trade = EntryFloat d)"
proof -
  have a: "map py_rstrip (py_splitlines non_numeric_entry_signal)
     = ''BUY LIMIT GBPUSD'' # ''Entry market'' # [''SL 1.14336'', ''TP 1.28930'']"
    by code_simp
  have b: "classify ''BUY LIMIT GBPUSD'' = Some BuyLimit" by code_simp
  have c: "last_token ''BUY LIMIT GBPUSD'' = Inr ''GBPUSD''" by code_simp
  have d: "py_upper ''GBPUSD'' \<in> set SYMBOLS" by code_simp
  have e: "last_token ''Entry market'' = Inr ''market''" by code_simp
  have f: "py_float ''market'' = Inl ValueError" by code_simp
  have g: "map py_rstrip (py_splitlines limit_signal)
     = ''BUY LIMIT GBPUSD'' # ''Entry 1.14480'' # [''SL 1.14336'', ''TP 1.28930'']"
    by code_simp
  have h: "last_token ''Entry 1.14480'' = Inr ''1.14480''" by code_simp
  have i: "ParseSignal example_config limit_signal = Inr (Some limit_trade)" by code_simp
  have n1: "BuyLimit \<noteq> Buy" and n2: "BuyLimit \<noteq> Sell" by simp_all
  note bad = pending_order_entry_must_convert [OF a b n1 n2 c d e, of example_config]
  note good = pending_order_entry_must_convert [OF g b n1 n2 c d h, of example_config]
  have 1: "ParseSignal example_config non_numeric_entry_signal = Inl ValueError"
    and 2: "parse_for_handler example_config non_numeric_entry_signal = Inl ValueError"
    using bad f by blast+
  have 3: "\<exists>d. py_float ''1.14480'' = Inr d \<and> Entry limit_trade = EntryFloat d"
    using good i by blast
  show ?thesis
    using a b c d e f g h i 1 2 3 by blast
qed


section \<open>Order placement, leg by leg (claim C5)\<close>

text \<open>
  The loop over the take-profit legs: while the gateway accepts, every leg is sent; the
  first exception ends the loop with the legs sent so far.
\<close>

lemma place_legs_all_placed:
  assumes "leg_volume t = Inr v"
    and "\<forall>i<length tps. \<exists>code. create_order gw (k + i) (request_of t v (tps ! i)) = Inr code"
  shows "\<exists>c. place_legs gw t k res tps = (map OrderCall (map (request_of t v) tps), Inr c)
             \<and> (if tps = [] then c = res else c \<noteq> None)"
  using assms(2)
proof (induction tps arbitrary: k res)
  case Nil
  then show ?case by simp
next
  case (Cons tp rest)
  from Cons.prems obtain code where c: "create_order gw k (request_of t v tp) = Inr code"
    by fastforce
  have "\<forall>i<length rest. \<exists>code. create_order gw (Suc k + i) (request_of t v (rest ! i)) = Inr code"
    using Cons.prems by fastforce
  from Cons.IH [OF this, of "Some code"] obtain c' where
    "place_legs gw t (Suc k) (Some code) rest = (map OrderCall (map (request_of t v) rest), Inr c')"
    and "if rest = [] then c' = Some code else c' \<noteq> None"
    by blast
  then show ?case
    by (auto simp: make_request_volume [OF assms(1)] c split: if_splits)
qed

lemma place_legs_first_failure:
  assumes "leg_volume t = Inr v"
    and "j < length tps"
    and "create_order gw (k + j) (request_of t v (tps ! j)) = Inl e"
    and "\<forall>i<j. \<exists>code. create_order gw (k + i) (request_of t v (tps ! i)) = Inr code"
  shows "place_legs gw t k res tps
         = (map OrderCall (map (request_of t v) (take (Suc j) tps)), Inl e)"
  using assms(2-4)
proof (induction tps arbitrary: k res j)
  case Nil
  then show ?case by simp
next
  case (Cons tp rest)
  show ?case
  proof (cases j)
    case 0
    with Cons.prems show ?thesis
      by (simp add: make_request_volume [OF assms(1)])
  next
    case (Suc j')
    with Cons.prems obtain code where c: "create_order gw k (request_of t v tp) = Inr code"
      by fastforce
    have 1: "j' < length rest" using Cons.prems Suc by simp
    have 2: "create_order gw (Suc k + j') (request_of t v (rest ! j')) = Inl e"
      using Cons.prems Suc by simp
    have 3: "\<forall>i<j'. \<exists>code. create_order gw (Suc k + i) (request_of t v (rest ! i)) = Inr code"
      using Cons.prems Suc by fastforce
    from Cons.IH [OF 1 2 3, of "Some code"] show ?thesis
      by (simp add: make_request_volume [OF assms(1)] c Suc)
  qed
qed

text \<open>
  The request of a leg written out, field by field, and the volume of a leg: the stored
  position size divided by the number of legs, a division that cannot raise because the
  number of legs of a non-empty list is at least 1.
\<close>

lemma request_of_explicit:
  "request_of t v takeProfit =
     \<lparr>ord_call = (case OrderType t of
                    Buy \<Rightarrow> create_market_buy_order
                  | BuyLimit \<Rightarrow> create_limit_buy_order
                  | BuyStop \<Rightarrow> create_stop_buy_order
                  | Sell \<Rightarrow> create_market_sell_order
                  | SellLimit \<Rightarrow> create_limit_sell_order
                  | SellStop \<Rightarrow> create_stop_sell_order),
      ord_symbol = Symbol t, ord_volume = v,
      ord_open_price = (case OrderType t of
                          Buy \<Rightarrow> None
                        | Sell \<Rightarrow> None
                        | BuyLimit \<Rightarrow> Some (Entry t)
                        | BuyStop \<Rightarrow> Some (Entry t)
                        | SellLimit \<Rightarrow> Some (Entry t)
                        | SellStop \<Rightarrow> Some (Entry t)),
      ord_stop_loss = StopLoss t, ord_take_profit = takeProfit\<rparr>"
  by (cases "OrderType t") (simp_all add: request_of_def order_call_of_def)

lemma leg_count_nonzero:
  assumes "xs \<noteq> []" and "py_int_to_float (int (length xs)) = Inr n"
  shows "\<not> is_zero n"
proof -
  from assms(1) have "0 < int (length xs)" by simp
  from int_to_float_positive [OF this assms(2)] show ?thesis
    by (simp add: is_zero_finite)
qed

lemma leg_volume_explicit:
  assumes "PositionSize t = Some ps" and "TP t \<noteq> []"
    and "py_int_to_float (int (length (TP t))) = Inr n"
  shows "\<exists>v. py_float_truediv ps n = Inr v \<and> leg_volume t = Inr v"
  using leg_count_nonzero [OF assms(2,3)] assms(1,3)
  by (simp add: leg_volume_def py_float_truediv_def)

lemma two_legs_float: "py_int_to_float 2 = Inr (Fin 2)"
  by code_simp

lemma market_leg_division: "py_float_truediv example_size (Fin 2) = Inr example_leg_size"
  by code_simp

lemma market_leg_request:
  "request_of market_trade_sized v takeProfit
   = \<lparr>ord_call = create_market_buy_order, ord_symbol = ''GBPUSD'', ord_volume = v,
      ord_open_price = None, ord_stop_loss = example_sl, ord_take_profit = takeProfit\<rparr>"
  by (simp add: request_of_explicit market_trade_sized_fields)

text \<open>
  Claim C5 says that a failure on one leg leaves the other legs attempted. The \<^verbatim>\<open>try\<close>
  statement encloses the whole loop, so the first exception ends the loop: with the market
  signal of two legs and a gateway that refuses the first order and would accept the
  second, only the first order is sent, a market buy order without an open price and of
  half the position size, then the error is reported.
\<close>

theorem first_leg_failure_skips_second_leg:
  "TP market_trade_sized = [example_tp1, example_tp2]
   \<and> create_order first_leg_fails_gateway 1
        \<lparr>ord_call = create_market_buy_order, ord_symbol = ''GBPUSD'',
         ord_volume = example_leg_size, ord_open_price = None, ord_stop_loss = example_sl,
         ord_take_profit = example_tp2\<rparr>
       = Inr ''TRADE_RETCODE_DONE''
   \<and> enter_trade first_leg_fails_gateway market_trade_sized
       = [Reply EnteringTrade,
          OrderCall \<lparr>ord_call = create_market_buy_order, ord_symbol = ''GBPUSD'',
                     ord_volume = example_leg_size, ord_open_price = None,
                     ord_stop_loss = example_sl, ord_take_profit = example_tp1\<rparr>,
          Reply (TradeIssue (GatewayError ''Trade disabled''))]
   \<and> PlaceTrade example_config first_leg_fails_gateway market_signal \<lparr>pending = None\<rparr>
       = (\<lparr>pending = None\<rparr>, ConversationEnd,
          [Reply TradeParsed, AccountInformationCall, Reply ConnectedReply,
           SymbolPriceCall ''GBPUSD'', Reply (RiskTable market_trade_sized market_report),
           Reply EnteringTrade,
           OrderCall \<lparr>ord_call = create_market_buy_order, ord_symbol = ''GBPUSD'',
                      ord_volume = example_leg_size, ord_open_price = None,
                      ord_stop_loss = example_sl, ord_take_profit = example_tp1\<rparr>,
           Reply (TradeIssue (GatewayError ''Trade disabled''))])"
proof -
  have run: "ConnectMetaTrader example_config first_leg_fails_gateway market_trade True
         = (market_trade_sized,
            [AccountInformationCall, Reply ConnectedReply, SymbolPriceCall ''GBPUSD'',
             Reply (RiskTable market_trade_sized market_report)]
            @ enter_trade first_leg_fails_gateway market_trade_sized)"
    using market_run [of first_leg_fails_gateway example_ask True]
    by (simp add: first_leg_fails_gateway_def example_gateway_def)
  have p: "parse_for_handler example_config market_signal = Inr market_trade"
    by (simp add: parse_for_handler_def market_signal_parsed)
  have 1: "TP market_trade_sized = [example_tp1, example_tp2]"
    by (simp add: market_trade_sized_fields)
  have 2: "create_order first_leg_fails_gateway 1
        \<lparr>ord_call = create_market_buy_order, ord_symbol = ''GBPUSD'',
         ord_volume = example_leg_size, ord_open_price = None, ord_stop_loss = example_sl,
         ord_take_profit = example_tp2\<rparr>
       = Inr ''TRADE_RETCODE_DONE''"
    by (simp add: first_leg_fails_gateway_def)
  have 3: "enter_trade first_leg_fails_gateway market_trade_sized
       = [Reply EnteringTrade,
          OrderCall \<lparr>ord_call = create_market_buy_order, ord_symbol = ''GBPUSD'',
                     ord_volume = example_leg_size, ord_open_price = None,
                     ord_stop_loss = example_sl, ord_take_profit = example_tp1\<rparr>,
          Reply (TradeIssue (GatewayError ''Trade disabled''))]"
    using first_leg_fails_enter by (simp only: market_leg_request)
  have 4: "PlaceTrade example_config first_leg_fails_gateway market_signal \<lparr>pending = None\<rparr>
       = (\<lparr>pending = None\<rparr>, ConversationEnd,
          [Reply TradeParsed, AccountInformationCall, Reply ConnectedReply,
           SymbolPriceCall ''GBPUSD'', Reply (RiskTable market_trade_sized market_report),
           Reply EnteringTrade,
           OrderCall \<lparr>ord_call = create_market_buy_order, ord_symbol = ''GBPUSD'',
                      ord_volume = example_leg_size, ord_open_price = None,
                      ord_stop_loss = example_sl, ord_take_profit = example_tp1\<rparr>,
           Reply (TradeIssue (GatewayError ''Trade disabled''))])"
    by (simp add: PlaceTrade_def p run 3)
  show ?thesis
    using 1 2 3 4 by (intro conjI)
qed

text \<open>
  Claim C5 as amended. For a dictionary with its position size stored and at least one
  take-profit leg, whose number of legs converts to a float, the volume
  \<^verbatim>\<open>PositionSize / len(TP)\<close> is computed without an exception, and the request of a leg is:
  the method of the order type (\<^verbatim>\<open>create_market_buy_order\<close> for Buy,
  \<^verbatim>\<open>create_limit_buy_order\<close> for Buy Limit, \<^verbatim>\<open>create_stop_buy_order\<close> for Buy Stop, and the
  three sell methods likewise), the symbol, that volume, no open price for the two market
  methods and the entry for the limit and stop methods, the stop loss, and the take profit
  of the leg. When the gateway accepts the requests of all legs, all are sent, one per leg
  in order, and success is reported. When the gateway raises on leg \<open>j\<close>, having accepted
  the legs before it, exactly the requests of the legs up to \<open>j\<close> are sent, the legs after
  \<open>j\<close> are not attempted, the legs before \<open>j\<close> stay placed, and the exception is reported
  once.
\<close>

theorem legs_placed_until_first_failure:
  assumes "PositionSize t = Some ps" and "TP t \<noteq> []"
    and "py_int_to_float (int (length (TP t))) = Inr n"
  shows "\<exists>v. py_float_truediv ps n = Inr v
     \<and> (let leg = (\<lambda>takeProfit.
           \<lparr>ord_call = (case OrderType t of
                          Buy \<Rightarrow> create_market_buy_order
                        | BuyLimit \<Rightarrow> create_limit_buy_order
                        | BuyStop \<Rightarrow> create_stop_buy_order
                        | Sell \<Rightarrow> create_market_sell_order
                        | SellLimit \<Rightarrow> create_limit_sell_order
                        | SellStop \<Rightarrow> create_stop_sell_order),
            ord_symbol = Symbol t, ord_volume = v,
            ord_open_price = (case OrderType t of
                                Buy \<Rightarrow> None
                              | Sell \<Rightarrow> None
                              | BuyLimit \<Rightarrow> Some (Entry t)
                              | BuyStop \<Rightarrow> Some (Entry t)
                              | SellLimit \<Rightarrow> Some (Entry t)
                              | SellStop \<Rightarrow> Some (Entry t)),
            ord_stop_loss = StopLoss t, ord_take_profit = takeProfit\<rparr>)
        in ((\<forall>i<length (TP t). \<exists>code. create_order gw i (leg (TP t ! i)) = Inr code)
             \<longrightarrow> enter_trade gw t
                   = Reply EnteringTrade # map OrderCall (map leg (TP t)) @ [Reply TradeEntered]
                 \<and> order_calls (enter_trade gw t) = map leg (TP t))
          \<and> (\<forall>j e. j < length (TP t)
                 \<and> create_order gw j (leg (TP t ! j)) = Inl e
                 \<and> (\<forall>i<j. \<exists>code. create_order gw i (leg (TP t ! i)) = Inr code)
             \<longrightarrow> enter_trade gw t
                   = Reply EnteringTrade # map OrderCall (map leg (take (Suc j) (TP t)))
                     @ [Reply (TradeIssue e)]
                 \<and> order_calls (enter_trade gw t) = map leg (take (Suc j) (TP t))))"
proof -
  from leg_volume_explicit [OF assms] obtain v
    where d: "py_float_truediv ps n = Inr v" and v: "leg_volume t = Inr v" by blast
  define leg where "leg = request_of t v"
  have 1: "enter_trade gw t
           = Reply EnteringTrade # map OrderCall (map leg (TP t)) @ [Reply TradeEntered]
         \<and> order_calls (enter_trade gw t) = map leg (TP t)"
    if a: "\<forall>i<length (TP t). \<exists>code. create_order gw i (leg (TP t ! i)) = Inr code"
  proof -
    from a have "\<forall>i<length (TP t). \<exists>code.
        create_order gw (0 + i) (request_of t v (TP t ! i)) = Inr code"
      by (simp add: leg_def)
    from place_legs_all_placed [OF v this, of None] assms(2)
    have e: "enter_trade gw t
        = Reply EnteringTrade # map OrderCall (map leg (TP t)) @ [Reply TradeEntered]"
      by (auto simp: enter_trade_def leg_def)
    have "order_calls (enter_trade gw t) = map leg (TP t)"
      unfolding e by (simp del: map_map)
    with e show ?thesis by simp
  qed
  have 2: "enter_trade gw t
           = Reply EnteringTrade # map OrderCall (map leg (take (Suc j) (TP t)))
             @ [Reply (TradeIssue e)]
         \<and> order_calls (enter_trade gw t) = map leg (take (Suc j) (TP t))"
    if a: "j < length (TP t) \<and> create_order gw j (leg (TP t ! j)) = Inl e
           \<and> (\<forall>i<j. \<exists>code. create_order gw i (leg (TP t ! i)) = Inr code)" for j e
  proof -
    from a have "place_legs gw t 0 None (TP t)
             = (map OrderCall (map (request_of t v) (take (Suc j) (TP t))), Inl e)"
      by (intro place_legs_first_failure [OF v]) (simp_all add: leg_def)
    then have e: "enter_trade gw t
        = Reply EnteringTrade # map OrderCall (map leg (take (Suc j) (TP t)))
          @ [Reply (TradeIssue e)]"
      by (simp add: enter_trade_def leg_def)
    have "order_calls (enter_trade gw t) = map leg (take (Suc j) (TP t))"
      unfolding e by (simp del: map_map)
    with e show ?thesis by simp
  qed
  have l: "leg = (\<lambda>takeProfit.
           \<lparr>ord_call = (case OrderType t of
                          Buy \<Rightarrow> create_market_buy_order
                        | BuyLimit \<Rightarrow> create_limit_buy_order
                        | BuyStop \<Rightarrow> create_stop_buy_order
                        | Sell \<Rightarrow> create_market_sell_order
                        | SellLimit \<Rightarrow> create_limit_sell_order
                        | SellStop \<Rightarrow> create_stop_sell_order),
            ord_symbol = Symbol t, ord_volume = v,
            ord_open_price = (case OrderType t of
                                Buy \<Rightarrow> None
                              | Sell \<Rightarrow> None
                              | BuyLimit \<Rightarrow> Some (Entry t)
                              | BuyStop \<Rightarrow> Some (Entry t)
                              | SellLimit \<Rightarrow> Some (Entry t)
                              | SellStop \<Rightarrow> Some (Entry t)),
            ord_stop_loss = StopLoss t, ord_take_profit = takeProfit\<rparr>)"
    unfolding leg_def by (rule ext) (rule request_of_explicit)
  from 1 2 have "(\<forall>i<length (TP t). \<exists>code. create_order gw i (leg (TP t ! i)) = Inr code)
             \<longrightarrow> enter_trade gw t
                   = Reply EnteringTrade # map OrderCall (map leg (TP t)) @ [Reply TradeEntered]
                 \<and> order_calls (enter_trade gw t) = map leg (TP t)"
    and "\<forall>j e. j < length (TP t)
                 \<and> create_order gw j (leg (TP t ! j)) = Inl e
                 \<and> (\<forall>i<j. \<exists>code. create_order gw i (leg (TP t ! i)) = Inr code)
             \<longrightarrow> enter_trade gw t
                   = Reply EnteringTrade # map OrderCall (map leg (take (Suc j) (TP t)))
                     @ [Reply (TradeIssue e)]
                 \<and> order_calls (enter_trade gw t) = map leg (take (Suc j) (TP t))"
    by blast+
  then show ?thesis unfolding l Let_def using d by blast
qed

text \<open>
  The theorem at the market signal of two legs, with the gateway that accepts every order
  and with the gateway that refuses the first.
\<close>

theorem legs_placed_until_first_failure_witness:
  "PositionSize market_trade_sized = Some example_size
   \<and> TP market_trade_sized = [example_tp1, example_tp2]
   \<and> py_int_to_float (int (length (TP market_trade_sized))) = Inr (Fin 2)
   \<and> py_float_truediv example_size (Fin 2) = Inr example_leg_size
   \<and> order_calls (enter_trade example_gateway market_trade_sized)
       = [\<lparr>ord_call = create_market_buy_order, ord_symbol = ''GBPUSD'',
           ord_volume = example_leg_size, ord_open_price = None, ord_stop_loss = example_sl,
           ord_take_profit = example_tp1\<rparr>,
          \<lparr>ord_call = create_market_buy_order, ord_symbol = ''GBPUSD'',
           ord_volume = example_leg_size, ord_open_price = None, ord_stop_loss = example_sl,
           ord_take_profit = example_tp2\<rparr>]
   \<and> create_order first_leg_fails_gateway 0
        \<lparr>ord_call = create_market_buy_order, ord_symbol = ''GBPUSD'',
         ord_volume = example_leg_size, ord_open_price = None, ord_stop_loss = example_sl,
         ord_take_profit = example_tp1\<rparr>
       = Inl (GatewayError ''Trade disabled'')
   \<and> order_calls (enter_trade first_leg_fails_gateway market_trade_sized)
       = [\<lparr>ord_call = create_market_buy_order, ord_symbol = ''GBPUSD'',
           ord_volume = example_leg_size, ord_open_price = None, ord_stop_loss = example_sl,
           ord_take_profit = example_tp1\<rparr>]"
proof -
  note a = market_trade_sized_fields(7)
  note tp = market_trade_sized_fields(5)
  have b: "TP market_trade_sized \<noteq> []" by (simp add: tp)
  have c: "py_int_to_float (int (length (TP market_trade_sized))) = Inr (Fin 2)"
    by (simp add: tp two_legs_float)
  have e: "create_order first_leg_fails_gateway 0
        \<lparr>ord_call = create_market_buy_order, ord_symbol = ''GBPUSD'',
         ord_volume = example_leg_size, ord_open_price = None, ord_stop_loss = example_sl,
         ord_take_profit = example_tp1\<rparr>
       = Inl (GatewayError ''Trade disabled'')"
    by (simp add: first_leg_fails_gateway_def)
  have 1: "order_calls (enter_trade example_gateway market_trade_sized)
       = [\<lparr>ord_call = create_market_buy_order, ord_symbol = ''GBPUSD'',
           ord_volume = example_leg_size, ord_open_price = None, ord_stop_loss = example_sl,
           ord_take_profit = example_tp1\<rparr>,
          \<lparr>ord_call = create_market_buy_order, ord_symbol = ''GBPUSD'',
           ord_volume = example_leg_size, ord_open_price = None, ord_stop_loss = example_sl,
           ord_take_profit = example_tp2\<rparr>]"
    using legs_placed_until_first_failure [OF a b c, of example_gateway]
    by (simp add: market_leg_division market_trade_sized_fields Let_def example_gateway_def)
  have 2: "order_calls (enter_trade first_leg_fails_gateway market_trade_sized)
       = [\<lparr>ord_call = create_market_buy_order, ord_symbol = ''GBPUSD'',
           ord_volume = example_leg_size, ord_open_price = None, ord_stop_loss = example_sl,
           ord_take_profit = example_tp1\<rparr>]"
  proof -
    from legs_placed_until_first_failure [OF a b c, of first_leg_fails_gateway]
    have "\<forall>j e. j < 2
            \<and> create_order first_leg_fails_gateway j
                 \<lparr>ord_call = create_market_buy_order, ord_symbol = ''GBPUSD'',
                  ord_volume = example_leg_size, ord_open_price = None,
                  ord_stop_loss = example_sl,
                  ord_take_profit = [example_tp1, example_tp2] ! j\<rparr> = Inl e
            \<and> (\<forall>i<j. \<exists>code. create_order first_leg_fails_gateway i
                 \<lparr>ord_call = create_market_buy_order, ord_symbol = ''GBPUSD'',
                  ord_volume = example_leg_size, ord_open_price = None,
                  ord_stop_loss = example_sl,
                  ord_take_profit = [example_tp1, example_tp2] ! i\<rparr> = Inr code)
          \<longrightarrow> order_calls (enter_trade first_leg_fails_gateway market_trade_sized)
              = map (\<lambda>takeProfit. \<lparr>ord_call = create_market_buy_order, ord_symbol = ''GBPUSD'',
                  ord_volume = example_leg_size, ord_open_price = None,
                  ord_stop_loss = example_sl, ord_take_profit = takeProfit\<rparr>)
                  (take (Suc j) [example_tp1, example_tp2])"
      by (simp add: market_leg_division market_trade_sized_fields Let_def)
    from this [rule_format, of 0 "GatewayError ''Trade disabled''"] e show ?thesis by simp
  qed
  show ?thesis
    using a tp c market_leg_division 1 e 2 by (intro conjI)
qed

section \<open>The answer \<^verbatim>\<open>/yes\<close> after a calculation (claim C6)\<close>

text \<open>
  \<^verbatim>\<open>GetTradeInformation\<close> changes nothing in the dictionary but the position size; the
  placing of orders asks for no price and sends no risk table; and a run of
  \<^verbatim>\<open>ConnectMetaTrader\<close> on a dictionary whose entry is already a number asks for no price
  and computes every risk table from that number.
\<close>

lemma resolve_entry_float:
  "Entry t = EntryFloat d \<Longrightarrow> resolve_entry gw t = (t, [], None)"
  by (simp add: resolve_entry_def)

lemma GetTradeInformation_trade:
  "fst (GetTradeInformation t balance) = t
   \<or> (\<exists>ps. fst (GetTradeInformation t balance) = t\<lparr>PositionSize := Some ps\<rparr>)"
  by (auto simp: GetTradeInformation_def Let_def split: sum.splits)

lemma GetTradeInformation_Entry: "Entry (fst (GetTradeInformation t balance)) = Entry t"
  using GetTradeInformation_trade [of t balance] by auto

lemma place_legs_events:
  "price_calls (fst (place_legs gw t k res tps)) = []
   \<and> risk_tables (fst (place_legs gw t k res tps)) = []"
  by (induction tps arbitrary: k res) (simp_all add: split_beta split: sum.split)

lemma enter_trade_events:
  "price_calls (enter_trade gw t) = [] \<and> risk_tables (enter_trade gw t) = []"
  using place_legs_events [of gw t 0 None "TP t"]
  by (auto simp: enter_trade_def split: prod.splits sum.splits option.splits)

lemma ConnectMetaTrader_risk_table:
  assumes "resolve_entry gw t = (t, [], None)"
    and "(t', rep) \<in> set (risk_tables (snd (ConnectMetaTrader cfg gw t enterTrade)))"
  shows "\<exists>balance. GetTradeInformation t balance = (t', Inr rep)"
proof (cases "connect_failure gw")
  case (Some e)
  with assms(2) show ?thesis by (simp add: ConnectMetaTrader_def)
next
  case None
  show ?thesis
  proof (cases "get_account_information gw")
    case (Inl e)
    with None assms(2) show ?thesis by (simp add: ConnectMetaTrader_def)
  next
    case (Inr info)
    obtain login balance where info: "info = (login, balance)" by (cases info)
    show ?thesis
    proof (cases "ALLOWED_MT4_ACCOUNT_NUMBER cfg")
      case (Inl e)
      with None Inr info assms(2) show ?thesis by (simp add: ConnectMetaTrader_def)
    next
      case allowed: (Inr allowed)
      show ?thesis
      proof (cases "login = allowed")
        case False
        with None Inr info allowed assms(2) show ?thesis by (simp add: ConnectMetaTrader_def)
      next
        case True
        obtain t2 res where g: "GetTradeInformation t balance = (t2, res)"
          by (cases "GetTradeInformation t balance")
        show ?thesis
        proof (cases res)
          case (Inl e)
          with None Inr info allowed True g assms show ?thesis
            by (simp add: ConnectMetaTrader_def)
        next
          case rep: (Inr rep2)
          with None Inr info allowed True g assms have "t' = t2 \<and> rep = rep2"
            by (cases enterTrade) (simp_all add: ConnectMetaTrader_def enter_trade_events)
          with g rep show ?thesis by blast
        qed
      qed
    qed
  qed
qed

lemma ConnectMetaTrader_float_entry:
  assumes "Entry t = EntryFloat d"
  shows "price_calls (snd (ConnectMetaTrader cfg gw t enterTrade)) = []"
    and "\<forall>t' rep. (t', rep) \<in> set (risk_tables (snd (ConnectMetaTrader cfg gw t enterTrade)))
           \<longrightarrow> Entry t' = EntryFloat d"
proof -
  note r = resolve_entry_float [OF assms, of gw]
  show "price_calls (snd (ConnectMetaTrader cfg gw t enterTrade)) = []"
    by (simp add: ConnectMetaTrader_def r enter_trade_events
          split: option.split sum.split prod.split)
  show "\<forall>t' rep. (t', rep) \<in> set (risk_tables (snd (ConnectMetaTrader cfg gw t enterTrade)))
           \<longrightarrow> Entry t' = EntryFloat d"
  proof (intro allI impI)
    fix t' rep
    assume "(t', rep) \<in> set (risk_tables (snd (ConnectMetaTrader cfg gw t enterTrade)))"
    from ConnectMetaTrader_risk_table [OF r this]
    obtain balance where "GetTradeInformation t balance = (t', Inr rep)" by blast
    then have "t' = fst (GetTradeInformation t balance)" by simp
    then show "Entry t' = EntryFloat d"
      by (simp add: GetTradeInformation_Entry assms)
  qed
qed

lemma ConnectMetaTrader_fetches_balance:
  "connect_failure gw = None \<Longrightarrow>
   hd (snd (ConnectMetaTrader cfg gw t enterTrade)) = AccountInformationCall"
  by (simp add: ConnectMetaTrader_def split: option.split sum.split prod.split)


text \<open>
  Claim C6. After \<^verbatim>\<open>/calculate\<close> the session holds the parsed dictionary, and \<^verbatim>\<open>/yes\<close>
  runs \<^verbatim>\<open>PlaceTrade\<close> on it: the text of the message is not parsed, the run of
  \<^verbatim>\<open>ConnectMetaTrader\<close> places the orders, the pending slot is cleared and the conversation
  ends; the run begins by fetching the account information, so the balance is the live one.
  The live price, however, is fetched only while the entry is still the string \<^verbatim>\<open>NOW\<close>.
  The calculation has replaced it, in the very dictionary the session holds, by the price
  of that moment: on \<^verbatim>\<open>/yes\<close> no price is fetched, and the risk table and the position
  size are computed from the price of the calculation. This is where the code departs from
  the claim.
\<close>

theorem yes_reuses_price_of_calculation:
  assumes "pending s = Some t"
  shows "PlaceTrade cfg gw msg s
         = (s\<lparr>pending := None\<rparr>, ConversationEnd, snd (ConnectMetaTrader cfg gw t True))
       \<and> (connect_failure gw = None \<longrightarrow>
            hd (snd (snd (PlaceTrade cfg gw msg s))) = AccountInformationCall)
       \<and> (\<forall>d. Entry t = EntryFloat d \<longrightarrow>
            price_calls (snd (snd (PlaceTrade cfg gw msg s))) = []
            \<and> (\<forall>t' rep. (t', rep) \<in> set (risk_tables (snd (snd (PlaceTrade cfg gw msg s))))
                  \<longrightarrow> Entry t' = EntryFloat d))"
proof -
  have p: "PlaceTrade cfg gw msg s
         = (s\<lparr>pending := None\<rparr>, ConversationEnd, snd (ConnectMetaTrader cfg gw t True))"
    using assms by (simp add: PlaceTrade_def split_beta)
  have e: "snd (snd (PlaceTrade cfg gw msg s)) = snd (ConnectMetaTrader cfg gw t True)"
    by (simp only: p snd_conv)
  show ?thesis
  proof (intro conjI impI allI)
    show "PlaceTrade cfg gw msg s
         = (s\<lparr>pending := None\<rparr>, ConversationEnd, snd (ConnectMetaTrader cfg gw t True))"
      by (rule p)
  next
    assume "connect_failure gw = None"
    then show "hd (snd (snd (PlaceTrade cfg gw msg s))) = AccountInformationCall"
      unfolding e by (rule ConnectMetaTrader_fetches_balance)
  next
    fix d assume "Entry t = EntryFloat d"
    then show "price_calls (snd (snd (PlaceTrade cfg gw msg s))) = []"
      unfolding e by (rule ConnectMetaTrader_float_entry(1))
  next
    fix d t' rep
    assume "Entry t = EntryFloat d"
      and "(t', rep) \<in> set (risk_tables (snd (snd (PlaceTrade cfg gw msg s))))"
    then show "Entry t' = EntryFloat d"
      unfolding e using ConnectMetaTrader_float_entry(2) [of t d cfg gw True] by blast
  qed
qed


text \<open>
  The scenario: \<^verbatim>\<open>/calculate\<close> with the market signal at a bid of \<^verbatim>\<open>1.1448\<close>, then
  \<^verbatim>\<open>/yes\<close> when the bid is \<^verbatim>\<open>1.2\<close>.
\<close>

lemma calculate_market_signal:
  "CalculateTrade example_config example_gateway market_signal \<lparr>pending = None\<rparr>
   = (\<lparr>pending = Some market_trade_sized\<rparr>, DECISION,
      [Reply TradeParsed, AccountInformationCall, Reply ConnectedReply,
       SymbolPriceCall ''GBPUSD'', Reply (RiskTable market_trade_sized market_report),
       Reply DecisionPrompt])"
proof -
  have run: "ConnectMetaTrader example_config example_gateway market_trade False
         = (market_trade_sized,
            [AccountInformationCall, Reply ConnectedReply, SymbolPriceCall ''GBPUSD'',
             Reply (RiskTable market_trade_sized market_report)])"
    using market_run [of example_gateway example_ask False]
    by (simp add: example_gateway_def)
  have p: "parse_for_handler example_config market_signal = Inr market_trade"
    by (simp add: parse_for_handler_def market_signal_parsed)
  show ?thesis
    by (simp add: CalculateTrade_def p run)
qed

lemma later_bid_differs: "later_bid \<noteq> example_bid"
  by code_simp


theorem yes_reuses_price_of_calculation_witness:
  "CalculateTrade example_config example_gateway market_signal \<lparr>pending = None\<rparr>
   = (\<lparr>pending = Some market_trade_sized\<rparr>, DECISION,
      [Reply TradeParsed, AccountInformationCall, Reply ConnectedReply,
       SymbolPriceCall ''GBPUSD'', Reply (RiskTable market_trade_sized market_report),
       Reply DecisionPrompt])
   \<and> pending \<lparr>pending = Some market_trade_sized\<rparr> = Some market_trade_sized
   \<and> Entry market_trade_sized = EntryFloat example_bid
   \<and> get_symbol_price later_gateway ''GBPUSD'' = Inr (later_bid, later_bid)
   \<and> later_bid \<noteq> example_bid
   \<and> connect_failure later_gateway = None
   \<and> fst (snd (PlaceTrade example_config later_gateway ''/yes''
                  \<lparr>pending = Some market_trade_sized\<rparr>)) = ConversationEnd
   \<and> hd (snd (snd (PlaceTrade example_config later_gateway ''/yes''
                      \<lparr>pending = Some market_trade_sized\<rparr>))) = AccountInformationCall
   \<and> price_calls (snd (snd (PlaceTrade example_config later_gateway ''/yes''
                               \<lparr>pending = Some market_trade_sized\<rparr>))) = []
   \<and> risk_tables (snd (snd (PlaceTrade example_config later_gateway ''/yes''
                               \<lparr>pending = Some market_trade_sized\<rparr>)))
       = [(market_trade_sized, market_report)]"
proof -
  have a: "pending \<lparr>pending = Some market_trade_sized\<rparr> = Some market_trade_sized"
    by simp
  have b: "Entry market_trade_sized = EntryFloat example_bid"
    by (simp add: market_trade_sized_fields)
  have c: "get_symbol_price later_gateway ''GBPUSD'' = Inr (later_bid, later_bid)"
    and d: "connect_failure later_gateway = None"
    and i: "get_account_information later_gateway = Inr (4835673, Fin 10000)"
    by (simp_all add: later_gateway_def example_gateway_def)
  note inst = yes_reuses_price_of_calculation
    [OF a, of example_config later_gateway "''/yes''"]
  have p: "PlaceTrade example_config later_gateway ''/yes'' \<lparr>pending = Some market_trade_sized\<rparr>
           = (\<lparr>pending = None\<rparr>, ConversationEnd,
              snd (ConnectMetaTrader example_config later_gateway market_trade_sized True))"
    using inst by simp
  have 1: "fst (snd (PlaceTrade example_config later_gateway ''/yes''
                  \<lparr>pending = Some market_trade_sized\<rparr>)) = ConversationEnd"
    by (simp only: p fst_conv snd_conv)
  have 2: "hd (snd (snd (PlaceTrade example_config later_gateway ''/yes''
                      \<lparr>pending = Some market_trade_sized\<rparr>))) = AccountInformationCall"
    using inst d by blast
  have 3: "price_calls (snd (snd (PlaceTrade example_config later_gateway ''/yes''
                               \<lparr>pending = Some market_trade_sized\<rparr>))) = []"
    using inst b by blast
  have 4: "risk_tables (snd (snd (PlaceTrade example_config later_gateway ''/yes''
                               \<lparr>pending = Some market_trade_sized\<rparr>)))
       = [(market_trade_sized, market_report)]"
    by (simp only: p snd_conv market_rerun [OF d i, of True])
       (simp add: enter_trade_events)
  show ?thesis
    using calculate_market_signal a b c later_bid_differs d 1 2 3 4 by (intro conjI)
qed

section \<open>Entry equal to stop loss (claim C1)\<close>

text \<open>
  When the stop loss equals the entry, their difference is \<open>+0.0\<close> (or NaN, for two equal
  infinities), the pip count is 0, and line 109 divides by it.
\<close>

lemma rnd_zero: "rnd 0 = 0"
  by (simp add: rnd_def)

lemma mk_double_zero: "mk_double neg 0 = zero_of neg"
  by (simp add: mk_double_def rnd_zero zero_of_def)

lemma py_float_sub_self:
  "py_float_sub e e = (if is_finite e then Fin 0 else NaN)"
  by (cases e) (simp_all add: py_float_sub_def is_finite_def dval_def)

lemma pips_self:
  assumes "0 < q"
  shows "pips e (EntryFloat e) (Fin q) = (if is_finite e then Inr 0 else Inl ValueError)"
  using assms
  by (simp add: pips_def price_minus_entry_def py_float_sub_self py_float_truediv_def
        is_zero_def is_finite_def is_neg_def dval_def mk_double_zero zero_of_def
        py_round_def py_float_to_int_def round_half_even_of_int [of 0, simplified])

lemma position_size_zero: "position_size balance rf 0 = Inl ZeroDivisionError"
  by (simp add: position_size_def scaled_risk_def py_int_to_float_def mk_double_zero
        zero_of_def is_finite_def py_float_truediv_def is_zero_def)

lemma zero_distance_GetTradeInformation:
  assumes "Entry t = EntryFloat e" and "StopLoss t = e"
  shows "GetTradeInformation t balance
         = (t, Inl (case resolve_multiplier t of
                      Inl err \<Rightarrow> err
                    | Inr m \<Rightarrow> if is_finite e then ZeroDivisionError else ValueError))"
proof (cases "resolve_multiplier t")
  case (Inl err)
  then show ?thesis by (simp add: GetTradeInformation_def)
next
  case (Inr m)
  from multiplier_positive [OF this] obtain q where q: "m = Fin q" "0 < q" by blast
  show ?thesis
    by (simp add: GetTradeInformation_def Inr q assms pips_self [OF q(2)] position_size_zero)
qed

lemma ConnectMetaTrader_GetTradeInformation_raises:
  assumes "resolve_entry gw t = (t, [], None)"
    and "\<And>balance. \<exists>err. GetTradeInformation t balance = (t, Inl err)"
  shows "risk_tables (snd (ConnectMetaTrader cfg gw t enterTrade)) = []
       \<and> order_calls (snd (ConnectMetaTrader cfg gw t enterTrade)) = []
       \<and> fst (ConnectMetaTrader cfg gw t enterTrade) = t"
proof (cases "connect_failure gw")
  case (Some e)
  then show ?thesis by (simp add: ConnectMetaTrader_def)
next
  case None
  show ?thesis
  proof (cases "get_account_information gw")
    case (Inl e)
    with None show ?thesis by (simp add: ConnectMetaTrader_def)
  next
    case (Inr info)
    obtain login balance where info: "info = (login, balance)" by (cases info)
    from assms(2) [of balance] obtain err where g: "GetTradeInformation t balance = (t, Inl err)"
      by blast
    show ?thesis
      by (simp add: ConnectMetaTrader_def None Inr info assms(1) g split: sum.split)
  qed
qed

lemma zero_distance_signal_parsed:
  "ParseSignal example_config zero_distance_signal = Inr (Some zero_distance_trade)"
  by code_simp

lemma zero_distance_fields:
  "Symbol zero_distance_trade = ''GBPUSD''"
  "Entry zero_distance_trade = EntryFloat example_bid"
  "StopLoss zero_distance_trade = example_bid"
  by (simp_all add: zero_distance_trade_def)

lemma zero_distance_multiplier:
  "resolve_multiplier zero_distance_trade = Inr (float_literal (1 / 10000))"
  by (simp add: resolve_multiplier_def zero_distance_fields py_str_def bid_repr_index)

lemma example_bid_finite: "is_finite example_bid"
  by code_simp

lemma zero_distance_risk:
  "GetTradeInformation zero_distance_trade balance = (zero_distance_trade, Inl ZeroDivisionError)"
  using zero_distance_GetTradeInformation [of zero_distance_trade example_bid balance]
  by (simp add: zero_distance_fields zero_distance_multiplier example_bid_finite)

text \<open>
  The same for two prices that are equal as floats, and for a market order whose price is
  fetched: \<open>resolve_entry\<close> puts the fetched price in the place of \<^verbatim>\<open>NOW\<close>, and a run of
  \<^verbatim>\<open>ConnectMetaTrader\<close> in which the risk calculation raises ends with the message of the
  handler for connection errors.
\<close>

lemma py_float_sub_equal:
  assumes "py_float_eq sl e"
  shows "if is_finite e then is_zero (py_float_sub sl e) else py_float_sub sl e = NaN"
  using assms
  by (cases sl; cases e)
     (auto simp: py_float_eq_def py_float_sub_def is_finite_def is_zero_def dval_def)

lemma zero_truediv:
  assumes "is_zero d" and "0 < q"
  shows "\<exists>z. py_float_truediv d (Fin q) = Inr z \<and> is_zero z"
  using assms
  by (auto simp: py_float_truediv_def is_zero_def is_finite_def is_neg_def dval_def
        mk_double_zero zero_of_def)

lemma py_round_zero: "is_zero z \<Longrightarrow> py_round z = Inr 0"
  by (auto simp: is_zero_def py_round_def py_float_to_int_def
        round_half_even_of_int [of 0, simplified])

lemma nan_truediv: "0 < q \<Longrightarrow> py_float_truediv NaN (Fin q) = Inr NaN"
  by (simp add: py_float_truediv_def is_zero_def)

lemma pips_equal:
  assumes "py_float_eq sl e" and "0 < q"
  shows "pips sl (EntryFloat e) (Fin q) = (if is_finite e then Inr 0 else Inl ValueError)"
proof (cases "is_finite e")
  case True
  with py_float_sub_equal [OF assms(1)] have "is_zero (py_float_sub sl e)" by simp
  from zero_truediv [OF this assms(2)] obtain z
    where "py_float_truediv (py_float_sub sl e) (Fin q) = Inr z" and "is_zero z" by blast
  with True show ?thesis
    by (simp add: pips_def price_minus_entry_def py_round_zero)
next
  case False
  with py_float_sub_equal [OF assms(1)] have "py_float_sub sl e = NaN" by simp
  with False show ?thesis
    by (simp add: pips_def price_minus_entry_def nan_truediv [OF assms(2)] py_round_def
          py_float_to_int_def)
qed

lemma equal_prices_GetTradeInformation:
  assumes "Entry t = EntryFloat e" and "py_float_eq (StopLoss t) e"
  shows "GetTradeInformation t balance
         = (t, Inl (case resolve_multiplier t of
                      Inl err \<Rightarrow> err
                    | Inr m \<Rightarrow> if is_finite e then ZeroDivisionError else ValueError))"
proof (cases "resolve_multiplier t")
  case (Inl err)
  then show ?thesis by (simp add: GetTradeInformation_def)
next
  case (Inr m)
  from multiplier_positive [OF this] obtain q where q: "m = Fin q" "0 < q" by blast
  show ?thesis
    by (simp add: GetTradeInformation_def Inr q assms(1) pips_equal [OF assms(2) q(2)]
          position_size_zero)
qed

lemma resolve_entry_price:
  assumes "Entry t = EntryFloat e
           \<or> (Entry t = EntryStr ''NOW''
              \<and> (\<exists>bid ask. get_symbol_price gw (Symbol t) = Inr (bid, ask)
                    \<and> (OrderType t = Buy \<and> e = bid \<or> OrderType t = Sell \<and> e = ask)))"
  shows "resolve_entry gw t
         = (t\<lparr>Entry := EntryFloat e\<rparr>,
            if Entry t = EntryStr ''NOW'' then [SymbolPriceCall (Symbol t)] else [], None)"
  using assms by (auto simp: resolve_entry_def)

lemma ConnectMetaTrader_calculation_raises:
  assumes "resolve_entry gw t = (t1, evs, None)"
    and "\<And>balance. GetTradeInformation t1 balance = (t1, Inl err)"
  shows "connect_failure gw = None \<Longrightarrow> get_account_information gw = Inr (login, balance)
         \<Longrightarrow> ALLOWED_MT4_ACCOUNT_NUMBER cfg = Inr login
         \<Longrightarrow> ConnectMetaTrader cfg gw t enterTrade
             = (t1, [AccountInformationCall, Reply ConnectedReply] @ evs
                    @ [Reply (ConnectionIssue err)])"
    and "risk_tables evs = [] \<Longrightarrow> risk_tables (snd (ConnectMetaTrader cfg gw t enterTrade)) = []"
    and "order_calls evs = [] \<Longrightarrow> order_calls (snd (ConnectMetaTrader cfg gw t enterTrade)) = []"
  by (simp_all add: ConnectMetaTrader_def assms split: option.split sum.split prod.split)

lemma example_bid_eq: "py_float_eq example_bid example_bid"
  using example_bid_finite by (auto simp: py_float_eq_def is_finite_def)

lemma zero_distance_priced:
  "zero_distance_trade\<lparr>Entry := EntryFloat example_bid\<rparr> = zero_distance_trade"
  by (simp add: zero_distance_trade_def)

lemma zero_distance_market_parsed:
  "ParseSignal example_config zero_distance_market_signal = Inr (Some zero_distance_market_trade)"
  by code_simp

lemma zero_distance_market_fields:
  "OrderType zero_distance_market_trade = Buy"
  "Symbol zero_distance_market_trade = ''GBPUSD''"
  "Entry zero_distance_market_trade = EntryStr ''NOW''"
  "StopLoss zero_distance_market_trade = example_bid"
  by (simp_all add: zero_distance_market_trade_def)

lemma zero_distance_market_multiplier:
  "resolve_multiplier (zero_distance_market_trade\<lparr>Entry := EntryFloat example_bid\<rparr>)
   = Inr (float_literal (1 / 10000))"
  by (simp add: resolve_multiplier_def zero_distance_market_fields py_str_def bid_repr_index)

lemma example_gateway_fields:
  "connect_failure example_gateway = None"
  "get_account_information example_gateway = Inr (4835673, Fin 10000)"
  "get_symbol_price example_gateway name = Inr (example_bid, example_ask)"
  "ALLOWED_MT4_ACCOUNT_NUMBER example_config = Inr 4835673"
  by (simp_all add: example_gateway_def example_config_def)

text \<open>
  Claim C1 says that such a trade is classified as invalid and rejected before the division
  by the pip count. The code has no such check: the parser accepts the signal, the division
  is carried out and raises \<^verbatim>\<open>ZeroDivisionError\<close>, the handler of \<^verbatim>\<open>ConnectMetaTrader\<close> for
  connection errors reports it, and \<^verbatim>\<open>CalculateTrade\<close> goes on to ask whether to enter the
  trade, with the dictionary pending.
\<close>

theorem zero_distance_division_attempted:
  "ParseSignal example_config zero_distance_signal = Inr (Some zero_distance_trade)
   \<and> Entry zero_distance_trade = EntryFloat example_bid
   \<and> StopLoss zero_distance_trade = example_bid
   \<and> pips (StopLoss zero_distance_trade) (Entry zero_distance_trade) (float_literal (1 / 10000))
       = Inr 0
   \<and> position_size (Fin 10000) example_rf 0 = Inl ZeroDivisionError
   \<and> GetTradeInformation zero_distance_trade (Fin 10000)
       = (zero_distance_trade, Inl ZeroDivisionError)
   \<and> CalculateTrade example_config example_gateway zero_distance_signal \<lparr>pending = None\<rparr>
       = (\<lparr>pending = Some zero_distance_trade\<rparr>, DECISION,
          [Reply TradeParsed, AccountInformationCall, Reply ConnectedReply,
           Reply (ConnectionIssue ZeroDivisionError), Reply DecisionPrompt])"
proof -
  have p: "parse_for_handler example_config zero_distance_signal = Inr zero_distance_trade"
    by (simp add: parse_for_handler_def zero_distance_signal_parsed)
  have r: "resolve_entry example_gateway zero_distance_trade = (zero_distance_trade, [], None)"
    by (simp add: resolve_entry_def zero_distance_fields)
  have run: "ConnectMetaTrader example_config example_gateway zero_distance_trade False
             = (zero_distance_trade,
                [AccountInformationCall, Reply ConnectedReply,
                 Reply (ConnectionIssue ZeroDivisionError)])"
    by (simp add: ConnectMetaTrader_def example_gateway_def example_config_def
          r [unfolded example_gateway_def] zero_distance_risk)
  have 1: "pips (StopLoss zero_distance_trade) (Entry zero_distance_trade)
             (float_literal (1 / 10000)) = Inr 0"
    by (simp add: zero_distance_fields multiplier_literals pips_self example_bid_finite)
  have 2: "CalculateTrade example_config example_gateway zero_distance_signal \<lparr>pending = None\<rparr>
       = (\<lparr>pending = Some zero_distance_trade\<rparr>, DECISION,
          [Reply TradeParsed, AccountInformationCall, Reply ConnectedReply,
           Reply (ConnectionIssue ZeroDivisionError), Reply DecisionPrompt])"
    by (simp add: CalculateTrade_def p run)
  show ?thesis
    using zero_distance_signal_parsed zero_distance_fields(2,3) 1 position_size_zero
      zero_distance_risk 2
    by (intro conjI)
qed

text \<open>
  Claim C1 as amended. Take a dictionary whose entry price equals its stop loss, the
  entry price being the number the dictionary holds or, for a market order with the
  entry \<^verbatim>\<open>NOW\<close>, the price the gateway answers (the bid for Buy, the ask for Sell). No
  check precedes the division. \<^verbatim>\<open>GetTradeInformation\<close> raises and stores no position
  size: when the multiplier is resolved and the price is finite, the pip count is 0 and
  the division by it raises \<^verbatim>\<open>ZeroDivisionError\<close>; otherwise \<^verbatim>\<open>ValueError\<close> is raised, by
  the resolution of the multiplier when the entry has no decimal point in its \<^verbatim>\<open>str\<close>, or
  by \<^verbatim>\<open>round\<close> for two equal infinities. Whether or not the gateway connects, and
  whatever account it reports, no risk table is sent and no order is placed. When the
  gateway connects and answers with the allowed
  account, \<^verbatim>\<open>ConnectMetaTrader\<close> reports the exception with the message for connection
  issues; and when the dictionary is the one parsed from the text, the controller does
  not reject it: both handlers reply that the trade was parsed, \<^verbatim>\<open>CalculateTrade\<close> stores
  the dictionary, asks whether to enter the trade and moves to the decision, and
  \<^verbatim>\<open>PlaceTrade\<close> ends the conversation.
\<close>

theorem zero_pip_distance_raises:
  assumes "Entry t = EntryFloat e
           \<or> (Entry t = EntryStr ''NOW''
              \<and> (\<exists>bid ask. get_symbol_price gw (Symbol t) = Inr (bid, ask)
                    \<and> (OrderType t = Buy \<and> e = bid \<or> OrderType t = Sell \<and> e = ask)))"
    and "py_float_eq (StopLoss t) e"
  shows "let t1 = t\<lparr>Entry := EntryFloat e\<rparr>;
             err = (case resolve_multiplier t1 of
                      Inl x \<Rightarrow> x
                    | Inr m \<Rightarrow> if is_finite e then ZeroDivisionError else ValueError);
             run = [AccountInformationCall, Reply ConnectedReply]
                   @ (if Entry t = EntryStr ''NOW'' then [SymbolPriceCall (Symbol t)] else [])
                   @ [Reply (ConnectionIssue err)]
         in (\<forall>balance. GetTradeInformation t1 balance = (t1, Inl err))
          \<and> (\<forall>x. resolve_multiplier t1 = Inl x \<longrightarrow> x = ValueError)
          \<and> (\<forall>m balance. resolve_multiplier t1 = Inr m \<and> is_finite e \<longrightarrow>
                pips (StopLoss t1) (Entry t1) m = Inr 0
                \<and> position_size balance (RiskFactor t1) 0 = Inl ZeroDivisionError)
          \<and> risk_tables (snd (ConnectMetaTrader cfg gw t enterTrade)) = []
          \<and> order_calls (snd (ConnectMetaTrader cfg gw t enterTrade)) = []
          \<and> (connect_failure gw = None
              \<and> (\<exists>balance. get_account_information gw = Inr (login, balance))
              \<and> ALLOWED_MT4_ACCOUNT_NUMBER cfg = Inr login \<longrightarrow>
                ConnectMetaTrader cfg gw t enterTrade = (t1, run)
                \<and> (pending s = None \<and> ParseSignal cfg msg = Inr (Some t) \<longrightarrow>
                     CalculateTrade cfg gw msg s
                     = (s\<lparr>pending := Some t1\<rparr>, DECISION,
                        Reply TradeParsed # run @ [Reply DecisionPrompt])
                     \<and> PlaceTrade cfg gw msg s
                       = (s\<lparr>pending := None\<rparr>, ConversationEnd, Reply TradeParsed # run)))"
proof -
  define t1 where "t1 = t\<lparr>Entry := EntryFloat e\<rparr>"
  define err where "err = (case resolve_multiplier t1 of
                      Inl x \<Rightarrow> x
                    | Inr m \<Rightarrow> if is_finite e then ZeroDivisionError else ValueError)"
  define evs where "evs = (if Entry t = EntryStr ''NOW'' then [SymbolPriceCall (Symbol t)] else [])"
  define run where "run = [AccountInformationCall, Reply ConnectedReply] @ evs
                          @ [Reply (ConnectionIssue err)]"
  have en: "Entry t1 = EntryFloat e" and sl: "py_float_eq (StopLoss t1) e"
    using assms(2) by (simp_all add: t1_def)
  have g: "GetTradeInformation t1 balance = (t1, Inl err)" for balance
    unfolding err_def by (rule equal_prices_GetTradeInformation [OF en sl])
  have r: "resolve_entry gw t = (t1, evs, None)"
    unfolding t1_def evs_def by (rule resolve_entry_price [OF assms(1)])
  have ev: "risk_tables evs = []" "order_calls evs = []"
    by (simp_all add: evs_def)
  note c = ConnectMetaTrader_calculation_raises [OF r g]
  have 1: "\<forall>balance. GetTradeInformation t1 balance = (t1, Inl err)"
    using g by simp
  have 2: "\<forall>x. resolve_multiplier t1 = Inl x \<longrightarrow> x = ValueError"
    using resolve_multiplier_error by blast
  have 3: "\<forall>m balance. resolve_multiplier t1 = Inr m \<and> is_finite e \<longrightarrow>
                pips (StopLoss t1) (Entry t1) m = Inr 0
                \<and> position_size balance (RiskFactor t1) 0 = Inl ZeroDivisionError"
  proof (intro allI impI)
    fix m balance assume m: "resolve_multiplier t1 = Inr m \<and> is_finite e"
    then obtain q where q: "m = Fin q" "0 < q" using multiplier_positive by blast
    from m show "pips (StopLoss t1) (Entry t1) m = Inr 0
                \<and> position_size balance (RiskFactor t1) 0 = Inl ZeroDivisionError"
      by (simp add: en q(1) pips_equal [OF sl q(2)] position_size_zero)
  qed
  have 4: "risk_tables (snd (ConnectMetaTrader cfg gw t enterTrade)) = []"
    and 5: "order_calls (snd (ConnectMetaTrader cfg gw t enterTrade)) = []"
    using c(2,3) ev by simp_all
  have 6: "connect_failure gw = None
              \<and> (\<exists>balance. get_account_information gw = Inr (login, balance))
              \<and> ALLOWED_MT4_ACCOUNT_NUMBER cfg = Inr login \<longrightarrow>
                ConnectMetaTrader cfg gw t enterTrade = (t1, run)
                \<and> (pending s = None \<and> ParseSignal cfg msg = Inr (Some t) \<longrightarrow>
                     CalculateTrade cfg gw msg s
                     = (s\<lparr>pending := Some t1\<rparr>, DECISION,
                        Reply TradeParsed # run @ [Reply DecisionPrompt])
                     \<and> PlaceTrade cfg gw msg s
                       = (s\<lparr>pending := None\<rparr>, ConversationEnd, Reply TradeParsed # run))"
  proof (intro impI)
    assume a: "connect_failure gw = None
              \<and> (\<exists>balance. get_account_information gw = Inr (login, balance))
              \<and> ALLOWED_MT4_ACCOUNT_NUMBER cfg = Inr login"
    then obtain balance where b: "get_account_information gw = Inr (login, balance)" by blast
    from a b have run: "ConnectMetaTrader cfg gw t enterTrade = (t1, run)" for enterTrade
      unfolding run_def by (intro c(1)) simp_all
    have h: "CalculateTrade cfg gw msg s
                     = (s\<lparr>pending := Some t1\<rparr>, DECISION,
                        Reply TradeParsed # run @ [Reply DecisionPrompt])
                     \<and> PlaceTrade cfg gw msg s
                       = (s\<lparr>pending := None\<rparr>, ConversationEnd, Reply TradeParsed # run)"
      if p: "pending s = None \<and> ParseSignal cfg msg = Inr (Some t)"
    proof -
      from p have "parse_for_handler cfg msg = Inr t" by (simp add: parse_for_handler_Inr_iff)
      with p show ?thesis by (simp add: CalculateTrade_def PlaceTrade_def run)
    qed
    from run h show "ConnectMetaTrader cfg gw t enterTrade = (t1, run)
                \<and> (pending s = None \<and> ParseSignal cfg msg = Inr (Some t) \<longrightarrow>
                     CalculateTrade cfg gw msg s
                     = (s\<lparr>pending := Some t1\<rparr>, DECISION,
                        Reply TradeParsed # run @ [Reply DecisionPrompt])
                     \<and> PlaceTrade cfg gw msg s
                       = (s\<lparr>pending := None\<rparr>, ConversationEnd, Reply TradeParsed # run))"
      by blast
  qed
  from 1 2 3 4 5 6 show ?thesis
    unfolding Let_def t1_def [symmetric] err_def [symmetric]
      run_def [unfolded evs_def, symmetric]
    by (intro conjI)
qed

text \<open>
  The theorem at the limit signal whose stop loss equals its entry, and at the market
  signal whose stop loss equals the bid that the gateway answers.
\<close>

theorem zero_pip_distance_raises_witness:
  "Entry zero_distance_trade = EntryFloat example_bid
   \<and> py_float_eq (StopLoss zero_distance_trade) example_bid
   \<and> ParseSignal example_config zero_distance_signal = Inr (Some zero_distance_trade)
   \<and> GetTradeInformation zero_distance_trade (Fin 10000)
       = (zero_distance_trade, Inl ZeroDivisionError)
   \<and> pips (StopLoss zero_distance_trade) (Entry zero_distance_trade) (float_literal (1 / 10000))
       = Inr 0
   \<and> ConnectMetaTrader example_config example_gateway zero_distance_trade True
       = (zero_distance_trade,
          [AccountInformationCall, Reply ConnectedReply,
           Reply (ConnectionIssue ZeroDivisionError)])
   \<and> PlaceTrade example_config example_gateway zero_distance_signal \<lparr>pending = None\<rparr>
       = (\<lparr>pending = None\<rparr>, ConversationEnd,
          [Reply TradeParsed, AccountInformationCall, Reply ConnectedReply,
           Reply (ConnectionIssue ZeroDivisionError)])
   \<and> Entry zero_distance_market_trade = EntryStr ''NOW''
   \<and> OrderType zero_distance_market_trade = Buy
   \<and> get_symbol_price example_gateway (Symbol zero_distance_market_trade)
       = Inr (example_bid, example_ask)
   \<and> py_float_eq (StopLoss zero_distance_market_trade) example_bid
   \<and> ParseSignal example_config zero_distance_market_signal
       = Inr (Some zero_distance_market_trade)
   \<and> CalculateTrade example_config example_gateway zero_distance_market_signal
        \<lparr>pending = None\<rparr>
       = (\<lparr>pending = Some (zero_distance_market_trade\<lparr>Entry := EntryFloat example_bid\<rparr>)\<rparr>,
          DECISION,
          [Reply TradeParsed, AccountInformationCall, Reply ConnectedReply,
           SymbolPriceCall ''GBPUSD'', Reply (ConnectionIssue ZeroDivisionError),
           Reply DecisionPrompt])
   \<and> order_calls (snd (ConnectMetaTrader example_config example_gateway
                          zero_distance_market_trade True)) = []"
proof -
  note a = zero_distance_fields(2)
  have b: "py_float_eq (StopLoss zero_distance_trade) example_bid"
    by (simp add: zero_distance_fields example_bid_eq)
  have a': "Entry zero_distance_trade = EntryFloat example_bid
           \<or> (Entry zero_distance_trade = EntryStr ''NOW''
              \<and> (\<exists>bid ask. get_symbol_price example_gateway (Symbol zero_distance_trade)
                               = Inr (bid, ask)
                    \<and> (OrderType zero_distance_trade = Buy \<and> example_bid = bid
                        \<or> OrderType zero_distance_trade = Sell \<and> example_bid = ask)))"
    using a by simp
  note limit = zero_pip_distance_raises
    [OF a' b, where cfg = example_config and enterTrade = True and login = 4835673
       and s = "\<lparr>pending = None\<rparr>" and msg = zero_distance_signal,
     unfolded Let_def zero_distance_priced zero_distance_multiplier]
  have 1: "GetTradeInformation zero_distance_trade (Fin 10000)
       = (zero_distance_trade, Inl ZeroDivisionError)"
    using limit by (simp add: example_bid_finite)
  have 2: "pips (StopLoss zero_distance_trade) (Entry zero_distance_trade)
             (float_literal (1 / 10000)) = Inr 0"
    using limit example_bid_finite by blast
  have 3: "ConnectMetaTrader example_config example_gateway zero_distance_trade True
       = (zero_distance_trade,
          [AccountInformationCall, Reply ConnectedReply,
           Reply (ConnectionIssue ZeroDivisionError)])"
    using limit by (simp add: example_gateway_fields example_bid_finite a)
  have 4: "PlaceTrade example_config example_gateway zero_distance_signal \<lparr>pending = None\<rparr>
       = (\<lparr>pending = None\<rparr>, ConversationEnd,
          [Reply TradeParsed, AccountInformationCall, Reply ConnectedReply,
           Reply (ConnectionIssue ZeroDivisionError)])"
    using limit
    by (simp add: example_gateway_fields example_bid_finite a zero_distance_signal_parsed)
  note c = zero_distance_market_fields(3)
  note d = zero_distance_market_fields(1)
  have e: "get_symbol_price example_gateway (Symbol zero_distance_market_trade)
       = Inr (example_bid, example_ask)"
    by (rule example_gateway_fields)
  have f: "py_float_eq (StopLoss zero_distance_market_trade) example_bid"
    by (simp add: zero_distance_market_fields example_bid_eq)
  have c': "Entry zero_distance_market_trade = EntryFloat example_bid
           \<or> (Entry zero_distance_market_trade = EntryStr ''NOW''
              \<and> (\<exists>bid ask. get_symbol_price example_gateway (Symbol zero_distance_market_trade)
                               = Inr (bid, ask)
                    \<and> (OrderType zero_distance_market_trade = Buy \<and> example_bid = bid
                        \<or> OrderType zero_distance_market_trade = Sell \<and> example_bid = ask)))"
    using c d e by simp
  note market = zero_pip_distance_raises
    [OF c' f, where cfg = example_config and enterTrade = True and login = 4835673
       and s = "\<lparr>pending = None\<rparr>" and msg = zero_distance_market_signal,
     unfolded Let_def zero_distance_market_multiplier]
  have 5: "CalculateTrade example_config example_gateway zero_distance_market_signal
        \<lparr>pending = None\<rparr>
       = (\<lparr>pending = Some (zero_distance_market_trade\<lparr>Entry := EntryFloat example_bid\<rparr>)\<rparr>,
          DECISION,
          [Reply TradeParsed, AccountInformationCall, Reply ConnectedReply,
           SymbolPriceCall ''GBPUSD'', Reply (ConnectionIssue ZeroDivisionError),
           Reply DecisionPrompt])"
    using market
    by (simp add: example_gateway_fields example_bid_finite zero_distance_market_fields
          zero_distance_market_parsed)
  have 6: "order_calls (snd (ConnectMetaTrader example_config example_gateway
                          zero_distance_market_trade True)) = []"
    using market by blast
  show ?thesis
    using a b zero_distance_signal_parsed 1 2 3 4 c d e f zero_distance_market_parsed 5 6
    by (intro conjI)
qed

section \<open>Position size against the stop-loss distance\<close>

lemma overdrawn_size_14:
  "position_size overdrawn_balance example_rf 14 = Inr (Fin (- 6440147467139809 / 4503599627370496))"
  by code_simp

lemma overdrawn_size_28:
  "position_size overdrawn_balance example_rf 28 = Inr (Fin (- 3242591731706757 / 4503599627370496))"
  by code_simp

lemma market_size_28: "position_size (Fin 10000) example_rf 28 = Inr example_leg_size"
  by code_simp

lemma example_risk_amount: "py_float_mul (Fin 10000) example_rf = Fin 200"
  by code_simp

lemma float_28: "py_int_to_float 28 = Inr (Fin 28)"
  by code_simp

text \<open>
  Claim C9.  The position size of line 109 of \<^verbatim>\<open>run.py\<close> is
  \<^verbatim>\<open>math.floor(((balance * RiskFactor) / stopLossPips) / 10 * 100) / 100\<close>.  For a
  fixed balance and risk factor whose product, the risk amount, is a finite non-negative
  float, and pip counts \<open>0 < p1 \<le> p2\<close> where \<open>p2\<close> converts to a float,
  whenever the position size at \<open>p1\<close> is computed the position size at \<open>p2\<close>
  is computed as well, both are finite, and the one at \<open>p2\<close> is at most the one at
  \<open>p1\<close>.  Every rounding of the float computation is taken into account: each
  operation is monotone on finite values.
\<close>

theorem position_size_antitone:
  assumes "is_finite (py_float_mul balance rf)" and "0 \<le> dval (py_float_mul balance rf)"
    and "0 < p1" and "p1 \<le> p2"
    and "py_int_to_float p2 = Inr P2"
    and "position_size balance rf p1 = Inr s1"
  shows "\<exists>s2. position_size balance rf p2 = Inr s2
              \<and> is_finite s1 \<and> is_finite s2 \<and> dval s2 \<le> dval s1"
proof -
  define N where "N = py_float_mul balance rf"
  have N: "is_finite N" "0 \<le> dval N" using assms(1,2) by (simp_all add: N_def)
  from position_size_stages [OF assms(6)] obtain P1 a1 b1 where
    P1: "py_int_to_float p1 = Inr P1"
    and a1: "py_float_truediv N P1 = Inr a1"
    and b1: "py_float_truediv a1 (Fin 10) = Inr b1"
    and c1: "is_finite (py_float_mul b1 (Fin 100))"
    and s1: "py_int_truediv \<lfloor>dval (py_float_mul b1 (Fin 100))\<rfloor> 100 = Inr s1"
    unfolding N_def by blast
  define c1' where "c1' = py_float_mul b1 (Fin 100)"
  from scaled_stages_finite [OF b1 c1] have fa1: "is_finite a1" and fb1: "is_finite b1" by simp_all
  note x1 = int_to_float_positive [OF assms(3) P1]
  have p2: "0 < p2" using assms(3,4) by simp
  note x2 = int_to_float_positive [OF p2 assms(5)]
  have x12: "dval P1 \<le> dval P2"
    using assms(4) by (simp add: x1(3) x2(3) rnd_mono)
  have ten: "is_finite (Fin 10)" "dval (Fin 10) = 10" "is_finite (Fin 100)" "dval (Fin 100) = 100"
    by (simp_all add: is_finite_def dval_def)
  \<comment> \<open>the quotient by the pip count\<close>
  have a1e: "a1 = mk_double (is_neg N \<noteq> is_neg P1) (dval N / dval P1)"
    using a1 py_float_truediv_finite [OF N(1) x1(1)] x1(2) by simp
  define a2 where "a2 = mk_double (is_neg N \<noteq> is_neg P2) (dval N / dval P2)"
  have a2: "py_float_truediv N P2 = Inr a2"
    using py_float_truediv_finite [OF N(1) x2(1)] x2(2) by (simp add: a2_def)
  have qa: "0 \<le> dval N / dval P2" "dval N / dval P2 \<le> dval N / dval P1"
    using N(2) x1(2) x2(2) x12 by (simp_all add: frac_le)
  note ma = mk_double_mono_finite [OF qa fa1 [unfolded a1e], of "is_neg N \<noteq> is_neg P2",
      folded a2_def a1e]
  \<comment> \<open>divided by ten\<close>
  have b1e: "b1 = mk_double (is_neg a1 \<noteq> is_neg (Fin 10)) (dval a1 / 10)"
    using b1 py_float_truediv_finite [OF fa1 ten(1)] by (simp add: ten)
  define b2 where "b2 = mk_double (is_neg a2 \<noteq> is_neg (Fin 10)) (dval a2 / 10)"
  have b2: "py_float_truediv a2 (Fin 10) = Inr b2"
    using py_float_truediv_finite [OF ma(1) ten(1)] by (simp add: ten b2_def)
  have qb: "0 \<le> dval a2 / 10" "dval a2 / 10 \<le> dval a1 / 10"
    using ma(2,3) by simp_all
  note mb = mk_double_mono_finite [OF qb fb1 [unfolded b1e], of "is_neg a2 \<noteq> is_neg (Fin 10)",
      folded b2_def b1e]
  \<comment> \<open>times one hundred\<close>
  have c1e: "py_float_mul b1 (Fin 100) = mk_double (is_neg b1 \<noteq> is_neg (Fin 100)) (dval b1 * 100)"
    using py_float_mul_finite [OF fb1 ten(3)] by (simp add: ten)
  define c2 where "c2 = mk_double (is_neg b2 \<noteq> is_neg (Fin 100)) (dval b2 * 100)"
  have c2: "py_float_mul b2 (Fin 100) = c2"
    using py_float_mul_finite [OF mb(1) ten(3)] by (simp add: ten c2_def)
  have qc: "0 \<le> dval b2 * 100" "dval b2 * 100 \<le> dval b1 * 100"
    using mb(2,3) by simp_all
  note mc = mk_double_mono_finite [OF qc c1 [unfolded c1e], of "is_neg b2 \<noteq> is_neg (Fin 100)",
      folded c2_def c1e]
  \<comment> \<open>floored, and divided by one hundred\<close>
  define n1 where "n1 = \<lfloor>dval (py_float_mul b1 (Fin 100))\<rfloor>"
  define n2 where "n2 = \<lfloor>dval c2\<rfloor>"
  have n: "0 \<le> n2" "n2 \<le> n1"
    using mc(2,3) by (simp_all add: n1_def n2_def floor_mono)
  from s1 have s1e: "s1 = mk_double (n1 < 0) (of_int n1 / 100)" and fs1: "is_finite s1"
    by (auto simp: py_int_truediv_100 n1_def)
  define s2 where "s2 = mk_double (n2 < 0) (of_int n2 / 100)"
  have qs: "(0::rat) \<le> of_int n2 / 100" "(of_int n2 / 100 :: rat) \<le> of_int n1 / 100"
    using n by (simp_all add: divide_right_mono)
  note ms = mk_double_mono_finite [OF qs fs1 [unfolded s1e], of "n2 < 0", folded s2_def s1e]
  have "py_int_truediv n2 100 = Inr s2"
    using ms(1) by (simp add: py_int_truediv_100 s2_def)
  then have "position_size balance rf p2 = Inr s2"
    using assms(5) a2 b2 c2 mc(1)
    by (simp add: position_size_def scaled_risk_def N_def [symmetric] math_floor_finite n2_def)
  with fs1 ms(1,3) show ?thesis by blast
qed

text \<open>
  The theorem at the market example: balance 10000, risk factor 0.02, 14 and 28 pips give
  1.42 and 0.71.
\<close>

theorem position_size_antitone_witness:
  "is_finite (py_float_mul (Fin 10000) example_rf)
   \<and> 0 \<le> dval (py_float_mul (Fin 10000) example_rf)
   \<and> (0::int) < 14 \<and> (14::int) \<le> 28
   \<and> py_int_to_float 28 = Inr (Fin 28)
   \<and> position_size (Fin 10000) example_rf 14 = Inr example_size
   \<and> position_size (Fin 10000) example_rf 28 = Inr example_leg_size
   \<and> dval example_leg_size \<le> dval example_size"
proof -
  have a: "is_finite (py_float_mul (Fin 10000) example_rf)"
    and b: "0 \<le> dval (py_float_mul (Fin 10000) example_rf)"
    by (simp_all add: example_risk_amount is_finite_def dval_def)
  have c: "(0::int) < 14" and d: "(14::int) \<le> 28" by simp_all
  from position_size_antitone [OF a b c d float_28 market_position_size]
  obtain s2 where "position_size (Fin 10000) example_rf 28 = Inr s2"
    and "dval s2 \<le> dval example_size"
    by blast
  then have "dval example_leg_size \<le> dval example_size"
    by (simp add: market_size_28)
  with a b c d float_28 market_position_size market_size_28 show ?thesis
    by (intro conjI)
qed

text \<open>
  Without the sign condition the statement of C9 fails.  With a balance of \<open>-10000\<close>
  and risk factor 0.02 the risk amount is \<open>-200\<close>; at 14 pips the size is the
  float \<open>-1.43\<close>, at 28 pips it is \<open>-0.72\<close>, which is greater.  The code
  checks the sign of neither the balance nor the risk factor.
\<close>

theorem negative_balance_size_increases:
  "(0::int) < 14 \<and> (14::int) \<le> 28
   \<and> position_size overdrawn_balance example_rf 14
       = Inr (Fin (- 6440147467139809 / 4503599627370496))
   \<and> position_size overdrawn_balance example_rf 28
       = Inr (Fin (- 3242591731706757 / 4503599627370496))
   \<and> dval (Fin (- 6440147467139809 / 4503599627370496))
       < dval (Fin (- 3242591731706757 / 4503599627370496))"
  using overdrawn_size_14 overdrawn_size_28 by (simp add: dval_def)

section \<open>The position size formula (claim C2)\<close>














section \<open>The multiplier and the pip counts (claim C3)\<close>

text \<open>
  \<^verbatim>\<open>str.index\<close> returns the position of the first occurrence and raises when there is
  none; \<^verbatim>\<open>round\<close> returns a nearest integer; the pip count of a price against a float
  entry, for a positive multiplier; and what a report that is returned holds.
\<close>

lemma py_index_takeWhile:
  "py_index s c = (if c \<in> set s then Inr (length (takeWhile (\<lambda>x. x \<noteq> c) s))
                   else Inl ValueError)"
  by (induction s) auto

lemma resolve_multiplier_spec:
  "resolve_multiplier t =
     (if Symbol t = ''XAUUSD'' \<or> Symbol t = ''XAGUSD'' \<or> CHR ''.'' \<in> set (py_str (Entry t))
      then Inr (spec_multiplier t) else Inl ValueError)"
  by (simp add: resolve_multiplier_def spec_multiplier_def decimal_point_index_def
        py_index_takeWhile)

lemma round_half_even_nearest: "\<bar>of_int (round_half_even x) - x\<bar> \<le> 1 / 2"
proof -
  have "of_int \<lfloor>x\<rfloor> \<le> x" and "x < of_int \<lfloor>x\<rfloor> + 1" by linarith+
  then show ?thesis
    by (auto simp: round_half_even_def Let_def abs_le_iff)
qed

lemma py_round_cases:
  "py_round q = (if is_finite q then Inr (round_half_even (dval q))
                 else Inl (if q = NaN then ValueError else OverflowError))"
  by (cases q)
     (simp_all add: py_round_def py_float_to_int_def is_finite_def dval_def
        round_half_even_of_int [of 0, simplified])

lemma pips_float_entry:
  assumes "0 < r"
  shows "\<exists>q. py_float_truediv (py_float_sub price e) (Fin r) = Inr q
           \<and> pips price (EntryFloat e) (Fin r)
               = (if is_finite q then Inr \<bar>round_half_even (dval q)\<bar>
                  else Inl (if q = NaN then ValueError else OverflowError))"
proof -
  from assms have "\<not> is_zero (Fin r)" by (simp add: is_zero_def)
  from py_float_truediv_nonzero [OF this] obtain q
    where q: "py_float_truediv (py_float_sub price e) (Fin r) = Inr q" by blast
  then show ?thesis
    by (simp add: pips_def price_minus_entry_def py_round_cases)
qed

lemma map_err_Inr:
  "map_err f xs = Inr ys \<Longrightarrow>
     length ys = length xs \<and> (\<forall>i<length xs. f (xs ! i) = Inr (ys ! i))"
proof (induction xs arbitrary: ys)
  case Nil
  then show ?case by simp
next
  case (Cons x xs)
  from Cons.prems obtain y ys' where y: "f x = Inr y" and ys': "map_err f xs = Inr ys'"
    and ys: "ys = y # ys'"
    by (auto simp: and_then_Inr_iff)
  from Cons.IH [OF ys'] have l: "length ys' = length xs"
    and n: "\<forall>i<length xs. f (xs ! i) = Inr (ys' ! i)" by simp_all
  show ?case
  proof (intro conjI allI impI)
    show "length ys = length (x # xs)" by (simp add: ys l)
    fix i assume "i < length (x # xs)"
    then show "f ((x # xs) ! i) = Inr (ys ! i)"
      using y n by (cases i) (simp_all add: ys)
  qed
qed

lemma GetTradeInformation_report:
  assumes "GetTradeInformation t balance = (t', Inr rep)"
  shows "\<exists>m. resolve_multiplier t = Inr m
           \<and> pips (StopLoss t) (Entry t) m = Inr (stopLossPips rep)
           \<and> map_err (\<lambda>tp. pips tp (Entry t) m) (TP t) = Inr (takeProfitPips rep)"
  using assms
  by (auto simp: GetTradeInformation_def Let_def split: sum.splits)


lemma pips_needs_float_entry:
  "pips price en m = Inr n \<Longrightarrow> \<exists>e. en = EntryFloat e"
  by (cases en) (simp_all add: pips_def price_minus_entry_def)

lemma tiny_entry_parsed: "ParseSignal example_config tiny_entry_signal = Inr (Some tiny_entry_trade)"
  by code_simp

lemma tiny_entry_repr: "float_repr tiny_entry = ''5e-05''"
  by code_simp

lemma tiny_entry_fields:
  "Symbol tiny_entry_trade = ''GBPUSD''"
  "Entry tiny_entry_trade = EntryFloat tiny_entry"
  by (simp_all add: tiny_entry_trade_def)

lemma tiny_entry_str: "py_str (Entry tiny_entry_trade) = ''5e-05''"
  by (simp add: tiny_entry_fields py_str_def tiny_entry_repr)

lemma tiny_entry_spec: "spec_multiplier tiny_entry_trade = float_literal (1 / 10000)"
  by (simp add: spec_multiplier_def tiny_entry_fields(1) tiny_entry_str decimal_point_index_def)

lemma tiny_entry_code: "resolve_multiplier tiny_entry_trade = Inl ValueError"
  by (simp add: resolve_multiplier_def tiny_entry_fields(1) tiny_entry_str)

lemma market_str_has_point: "CHR ''.'' \<in> set (py_str (Entry market_trade_priced))"
proof -
  have "py_index (py_str (Entry market_trade_priced)) (CHR ''.'') = Inr 1"
    by (simp add: market_trade_priced_fields py_str_def bid_repr_index)
  then show ?thesis by (simp add: py_index_takeWhile split: if_splits)
qed

lemma gold_fields:
  "Symbol gold_trade = ''XAUUSD''"
  by (simp add: gold_trade_def)

text \<open>
  Claim C3 says that the multiplier is \<^verbatim>\<open>0.0001\<close> whenever none of the first three cases
  applies. When the \<^verbatim>\<open>str\<close> of the entry has no decimal point, \<^verbatim>\<open>index\<close> raises and no
  multiplier is resolved: the limit signal with the entry \<^verbatim>\<open>0.00005\<close> is parsed, the
  \<^verbatim>\<open>str\<close> of its entry is \<^verbatim>\<open>5e-05\<close>, and \<^verbatim>\<open>GetTradeInformation\<close> raises \<^verbatim>\<open>ValueError\<close>, where
  the specification's multiplier is \<^verbatim>\<open>0.0001\<close>.
\<close>

theorem tiny_entry_has_no_multiplier:
  "ParseSignal example_config tiny_entry_signal = Inr (Some tiny_entry_trade)
   \<and> Symbol tiny_entry_trade = ''GBPUSD''
   \<and> Entry tiny_entry_trade = EntryFloat tiny_entry
   \<and> py_str (Entry tiny_entry_trade) = ''5e-05''
   \<and> spec_multiplier tiny_entry_trade = float_literal (1 / 10000)
   \<and> resolve_multiplier tiny_entry_trade = Inl ValueError
   \<and> GetTradeInformation tiny_entry_trade (Fin 10000) = (tiny_entry_trade, Inl ValueError)"
proof -
  have "GetTradeInformation tiny_entry_trade (Fin 10000) = (tiny_entry_trade, Inl ValueError)"
    by (simp add: GetTradeInformation_def tiny_entry_code)
  with tiny_entry_parsed tiny_entry_fields tiny_entry_str tiny_entry_spec tiny_entry_code
  show ?thesis by (intro conjI)
qed

text \<open>
  Claim C3 as amended. The multiplier is the specification's (\<^verbatim>\<open>0.1\<close> for \<^verbatim>\<open>XAUUSD\<close>,
  \<^verbatim>\<open>0.001\<close> for \<^verbatim>\<open>XAGUSD\<close>, otherwise \<^verbatim>\<open>0.01\<close> for a decimal point at index 2 or more and
  \<^verbatim>\<open>0.0001\<close> for one at index 0 or 1) when the symbol is one of the two metals or the
  \<^verbatim>\<open>str\<close> of the entry has a decimal point; otherwise \<^verbatim>\<open>ValueError\<close> is raised, and the
  risk calculation ends with it, the dictionary unchanged. For a float entry and a
  resolved multiplier, the pip count of a price is the absolute value of \<^verbatim>\<open>round(q)\<close> for
  the float quotient \<open>q = (price - entry) / multiplier\<close> when \<open>q\<close> is finite, an integer
  nearest to \<open>q\<close>, and an exception otherwise (\<^verbatim>\<open>ValueError\<close> for a NaN, \<^verbatim>\<open>OverflowError\<close>
  for an infinity); the division raises nothing. Whenever the risk calculation returns
  its report, the multiplier was resolved, the entry is a float, the stop-loss pips of
  the report are the pip count of the stop loss, and the take-profit pips are the pip
  counts of the take profits, one per leg in order.
\<close>

theorem multiplier_and_pips:
  "resolve_multiplier t
     = (if Symbol t = ''XAUUSD'' \<or> Symbol t = ''XAGUSD''
           \<or> CHR ''.'' \<in> set (py_str (Entry t))
        then Inr (spec_multiplier t) else Inl ValueError)
   \<and> (resolve_multiplier t = Inl ValueError \<longrightarrow>
         GetTradeInformation t balance = (t, Inl ValueError))
   \<and> (\<forall>e m price. Entry t = EntryFloat e \<and> resolve_multiplier t = Inr m \<longrightarrow>
         (\<exists>q. py_float_truediv (py_float_sub price e) m = Inr q
             \<and> pips price (Entry t) m
                 = (if is_finite q then Inr \<bar>round_half_even (dval q)\<bar>
                    else Inl (if q = NaN then ValueError else OverflowError))
             \<and> \<bar>of_int (round_half_even (dval q)) - dval q\<bar> \<le> 1 / 2))
   \<and> (\<forall>t' rep. GetTradeInformation t balance = (t', Inr rep) \<longrightarrow>
         resolve_multiplier t = Inr (spec_multiplier t)
         \<and> (\<exists>e. Entry t = EntryFloat e)
         \<and> pips (StopLoss t) (Entry t) (spec_multiplier t) = Inr (stopLossPips rep)
         \<and> length (takeProfitPips rep) = length (TP t)
         \<and> (\<forall>i<length (TP t).
               pips (TP t ! i) (Entry t) (spec_multiplier t) = Inr (takeProfitPips rep ! i)))"
proof (intro conjI allI impI)
  show "resolve_multiplier t
     = (if Symbol t = ''XAUUSD'' \<or> Symbol t = ''XAGUSD''
           \<or> CHR ''.'' \<in> set (py_str (Entry t))
        then Inr (spec_multiplier t) else Inl ValueError)"
    by (rule resolve_multiplier_spec)
next
  assume "resolve_multiplier t = Inl ValueError"
  then show "GetTradeInformation t balance = (t, Inl ValueError)"
    by (simp add: GetTradeInformation_def)
next
  fix e m price
  assume a: "Entry t = EntryFloat e \<and> resolve_multiplier t = Inr m"
  then obtain r where r: "m = Fin r" "0 < r" using multiplier_positive by blast
  from pips_float_entry [OF r(2), of price e] obtain q
    where "py_float_truediv (py_float_sub price e) (Fin r) = Inr q"
      and "pips price (EntryFloat e) (Fin r)
               = (if is_finite q then Inr \<bar>round_half_even (dval q)\<bar>
                  else Inl (if q = NaN then ValueError else OverflowError))"
    by blast
  with a r(1) round_half_even_nearest [of "dval q"]
  show "\<exists>q. py_float_truediv (py_float_sub price e) m = Inr q
             \<and> pips price (Entry t) m
                 = (if is_finite q then Inr \<bar>round_half_even (dval q)\<bar>
                    else Inl (if q = NaN then ValueError else OverflowError))
             \<and> \<bar>of_int (round_half_even (dval q)) - dval q\<bar> \<le> 1 / 2"
    by auto
next
  fix t' rep
  assume g: "GetTradeInformation t balance = (t', Inr rep)"
  from GetTradeInformation_report [OF g] obtain m where m: "resolve_multiplier t = Inr m"
    and sl: "pips (StopLoss t) (Entry t) m = Inr (stopLossPips rep)"
    and tp: "map_err (\<lambda>tp. pips tp (Entry t) m) (TP t) = Inr (takeProfitPips rep)"
    by blast
  from m have s: "m = spec_multiplier t"
    by (simp add: resolve_multiplier_spec split: if_splits)
  show "resolve_multiplier t = Inr (spec_multiplier t)" using m s by simp
  show "\<exists>e. Entry t = EntryFloat e" using sl by (rule pips_needs_float_entry)
  show "pips (StopLoss t) (Entry t) (spec_multiplier t) = Inr (stopLossPips rep)"
    using sl s by simp
  from map_err_Inr [OF tp] s
  show "length (takeProfitPips rep) = length (TP t)" by simp
  fix i assume "i < length (TP t)"
  with map_err_Inr [OF tp] s
  show "pips (TP t ! i) (Entry t) (spec_multiplier t) = Inr (takeProfitPips rep ! i)"
    by simp
qed

text \<open>
  The theorem at the dictionary for gold, at the dictionary with the entry \<^verbatim>\<open>0.00005\<close>,
  and at the market signal with the bid as entry, whose report has 14 pips to the stop
  loss and 1537 pips to the second take profit.
\<close>

theorem multiplier_and_pips_witness:
  "resolve_multiplier gold_trade = Inr (float_literal (1 / 10))
   \<and> resolve_multiplier tiny_entry_trade = Inl ValueError
   \<and> GetTradeInformation tiny_entry_trade (Fin 10000) = (tiny_entry_trade, Inl ValueError)
   \<and> Entry market_trade_priced = EntryFloat example_bid
   \<and> resolve_multiplier market_trade_priced = Inr (float_literal (1 / 10000))
   \<and> GetTradeInformation market_trade_priced (Fin 10000) = (market_trade_sized, Inr market_report)
   \<and> spec_multiplier market_trade_priced = float_literal (1 / 10000)
   \<and> pips (StopLoss market_trade_priced) (Entry market_trade_priced) (float_literal (1 / 10000))
       = Inr 14
   \<and> (1::nat) < length (TP market_trade_priced)
   \<and> pips (TP market_trade_priced ! 1) (Entry market_trade_priced) (float_literal (1 / 10000))
       = Inr 1537
   \<and> (\<exists>q. py_float_truediv (py_float_sub example_sl example_bid) (float_literal (1 / 10000))
            = Inr q
          \<and> is_finite q \<and> \<bar>round_half_even (dval q)\<bar> = 14)"
proof -
  note gold = multiplier_and_pips [of gold_trade "Fin 10000"]
  note tiny = multiplier_and_pips [of tiny_entry_trade "Fin 10000"]
  note market = multiplier_and_pips [of market_trade_priced "Fin 10000"]
  have 1: "resolve_multiplier gold_trade = Inr (float_literal (1 / 10))"
    using gold by (simp add: gold_fields spec_multiplier_def)
  have 2: "GetTradeInformation tiny_entry_trade (Fin 10000) = (tiny_entry_trade, Inl ValueError)"
    using tiny tiny_entry_code by blast
  note a = market_trade_priced_fields(3)
  from market market_risk
  have r: "resolve_multiplier market_trade_priced = Inr (spec_multiplier market_trade_priced)"
    and sl: "pips (StopLoss market_trade_priced) (Entry market_trade_priced)
               (spec_multiplier market_trade_priced) = Inr (stopLossPips market_report)"
    and tp: "\<forall>i<length (TP market_trade_priced).
               pips (TP market_trade_priced ! i) (Entry market_trade_priced)
                 (spec_multiplier market_trade_priced) = Inr (takeProfitPips market_report ! i)"
    by blast+
  from r have 3: "spec_multiplier market_trade_priced = float_literal (1 / 10000)"
    by (simp add: market_multiplier)
  have 4: "pips (StopLoss market_trade_priced) (Entry market_trade_priced)
             (float_literal (1 / 10000)) = Inr 14"
    using sl by (simp add: 3 market_report_def)
  have 5: "(1::nat) < length (TP market_trade_priced)"
    by (simp add: market_trade_priced_fields)
  from tp [rule_format, OF 5]
  have 6: "pips (TP market_trade_priced ! 1) (Entry market_trade_priced)
             (float_literal (1 / 10000)) = Inr 1537"
    by (simp add: 3 market_report_def)
  from market a market_multiplier obtain q
    where q: "py_float_truediv (py_float_sub (StopLoss market_trade_priced) example_bid)
                (float_literal (1 / 10000)) = Inr q"
      and p: "pips (StopLoss market_trade_priced) (Entry market_trade_priced)
                (float_literal (1 / 10000))
              = (if is_finite q then Inr \<bar>round_half_even (dval q)\<bar>
                 else Inl (if q = NaN then ValueError else OverflowError))"
    by blast
  from p 4 have "is_finite q \<and> \<bar>round_half_even (dval q)\<bar> = 14"
    by (simp split: if_splits)
  with q have 7: "\<exists>q. py_float_truediv (py_float_sub example_sl example_bid)
                       (float_literal (1 / 10000)) = Inr q
          \<and> is_finite q \<and> \<bar>round_half_even (dval q)\<bar> = 14"
    by (auto simp: market_trade_priced_fields)
  show ?thesis
    using 1 tiny_entry_code 2 a market_multiplier market_risk 3 4 5 6 7 by (intro conjI)
qed

end
